theory Spec2Isabelle
  imports Complex_Main "HOL-Library.Word"
begin

section \<open>The signature engine (TypeTraits.h)\<close>

subsection \<open>Native types\<close>

text \<open>
  The C++ types that \<^verbatim>\<open>signature_of\<close> is specialised for, one constructor per
  specialisation, and \<open>Unsupported\<close> for every type that reaches the primary template.
  \<open>EnumOf u\<close> is an enumeration whose underlying type is \<open>u\<close>; \<open>OptionalError\<close> and
  \<open>Result\<close> are the two leading callback parameters that \<^verbatim>\<open>function_traits\<close> strips.
\<close>

datatype dtype =
    Void | Bool | Uint8 | Int16 | Uint16 | Int32 | Uint32 | Int64 | Uint64 | Double
  | StdString | StringView | CharPtr | ConstCharPtr | CharArray nat | ConstCharArray nat
  | BusName | InterfaceName | MemberName
  | Struct "dtype list"
  | Variant | StdVariant "dtype list"
  | ObjectPath | Signature | UnixFd
  | DictEntry dtype dtype
  | StdVector dtype | StdArray dtype nat | StdSpan dtype nat
  | EnumOf dtype
  | StdMap dtype dtype | StdUnorderedMap dtype dtype
  | StdTuple "dtype list"
  | Const dtype | Volatile dtype | ConstVolatile dtype | LRef dtype
  | OptionalError | Result "dtype list"
  | Unsupported string

subsection \<open>Concatenation of arrays\<close>

text \<open>
  One range-for loop of \<^verbatim>\<open>operator+\<close>:
  \<^verbatim>\<open>for (auto& el : src) { result[index] = std::move(el); ++index; }\<close>
\<close>

fun copy_elements :: "char list \<Rightarrow> char list \<Rightarrow> nat \<Rightarrow> char list \<times> nat" where
  "copy_elements [] result index = (result, index)"
| "copy_elements (el # src) result index = copy_elements src (result[index := el]) (Suc index)"

text \<open>
  \<^verbatim>\<open>operator+(std::array<_T, _N1> lhs, std::array<_T, _N2> rhs)\<close>: a value-initialised
  result of \<open>_N1 + _N2\<close> elements, filled by the two loops.
\<close>

definition array_plus :: "char list \<Rightarrow> char list \<Rightarrow> char list" where
  "array_plus lhs rhs =
     (let result = replicate (length lhs + length rhs) (CHR 0x00);
          (result, index) = copy_elements lhs result 0;
          (result, index) = copy_elements rhs result index
      in result)"

text \<open>
  A signature value is \<open>Some\<close> array, or \<open>None\<close> where instantiating the value does not
  compile (the \<^verbatim>\<open>static_assert\<close> of the primary template, or an ill-formed fold).
\<close>

definition plus_sig :: "char list option \<Rightarrow> char list option \<Rightarrow> char list option" where
  "plus_sig a b =
     (case a of None \<Rightarrow> None
      | Some x \<Rightarrow> (case b of None \<Rightarrow> None | Some y \<Rightarrow> Some (array_plus x y)))"

text \<open>The binary left fold \<^verbatim>\<open>(init + ... + pack)\<close>.\<close>

fun fold_left_plus :: "char list option \<Rightarrow> char list option list \<Rightarrow> char list option" where
  "fold_left_plus init [] = init"
| "fold_left_plus init (s # pack) = fold_left_plus (plus_sig init s) pack"

text \<open>
  The unary right fold \<^verbatim>\<open>(pack + ...)\<close>; over an empty pack it is ill-formed for
  \<^verbatim>\<open>operator+\<close>.
\<close>

fun fold_right_plus :: "char list option list \<Rightarrow> char list option" where
  "fold_right_plus [] = None"
| "fold_right_plus [s] = s"
| "fold_right_plus (s # pack) = plus_sig s (fold_right_plus pack)"

subsection \<open>\<^verbatim>\<open>signature_of\<close>\<close>

text \<open>
  The specialisations delegate to one another (a map to its dictionary entry, a dictionary
  entry to the tuple of its two types); the weight orders the types along these
  delegations.
\<close>

fun weight :: "dtype \<Rightarrow> nat" where
  "weight (Struct ts) = Suc (sum_list (map weight ts))"
| "weight (StdVariant ts) = Suc (sum_list (map weight ts))"
| "weight (StdTuple ts) = Suc (sum_list (map weight ts))"
| "weight (Result ts) = Suc (sum_list (map weight ts))"
| "weight (DictEntry k v) = 2 + weight k + weight v"
| "weight (StdMap k v) = 3 + weight k + weight v"
| "weight (StdUnorderedMap k v) = 4 + weight k + weight v"
| "weight (StdVector e) = 1 + weight e"
| "weight (StdArray e n) = 2 + weight e"
| "weight (StdSpan e n) = 2 + weight e"
| "weight (EnumOf u) = 1 + weight u"
| "weight (Const t) = 1 + weight t"
| "weight (Volatile t) = 1 + weight t"
| "weight (ConstVolatile t) = 1 + weight t"
| "weight (LRef t) = 1 + weight t"
| "weight StringView = 1"
| "weight CharPtr = 1"
| "weight ConstCharPtr = 1"
| "weight (CharArray n) = 1"
| "weight (ConstCharArray n) = 1"
| "weight BusName = 1"
| "weight InterfaceName = 1"
| "weight MemberName = 1"
| "weight t = 0"

function signature_of :: "dtype \<Rightarrow> char list option" where
  "signature_of (Const t) = signature_of t"
| "signature_of (Volatile t) = signature_of t"
| "signature_of (ConstVolatile t) = signature_of t"
| "signature_of (LRef t) = signature_of t"
| "signature_of Void = Some []"
| "signature_of Bool = Some ''b''"
| "signature_of Uint8 = Some ''y''"
| "signature_of Int16 = Some ''n''"
| "signature_of Uint16 = Some ''q''"
| "signature_of Int32 = Some ''i''"
| "signature_of Uint32 = Some ''u''"
| "signature_of Int64 = Some ''x''"
| "signature_of Uint64 = Some ''t''"
| "signature_of Double = Some ''d''"
| "signature_of StdString = Some ''s''"
| "signature_of StringView = signature_of StdString"
| "signature_of CharPtr = signature_of StdString"
| "signature_of ConstCharPtr = signature_of StdString"
| "signature_of (CharArray n) = signature_of StdString"
| "signature_of (ConstCharArray n) = signature_of StdString"
| "signature_of BusName = signature_of StdString"
| "signature_of InterfaceName = signature_of StdString"
| "signature_of MemberName = signature_of StdString"
| "signature_of (Struct ts) =
     plus_sig (plus_sig (Some ''('') (fold_right_plus (map signature_of ts))) (Some '')'')"
| "signature_of Variant = Some ''v''"
| "signature_of (StdVariant ts) = signature_of Variant"
| "signature_of ObjectPath = Some ''o''"
| "signature_of Signature = Some ''g''"
| "signature_of UnixFd = Some ''h''"
| "signature_of (DictEntry k v) =
     plus_sig (plus_sig (Some ''{'') (signature_of (StdTuple [k, v]))) (Some ''}'')"
| "signature_of (StdVector e) = plus_sig (Some ''a'') (signature_of e)"
| "signature_of (StdArray e n) = signature_of (StdVector e)"
| "signature_of (StdSpan e n) = signature_of (StdVector e)"
| "signature_of (EnumOf u) = signature_of u"
| "signature_of (StdMap k v) = plus_sig (Some ''a'') (signature_of (DictEntry k v))"
| "signature_of (StdUnorderedMap k v) = signature_of (StdMap k v)"
| "signature_of (StdTuple ts) = fold_left_plus (Some []) (map signature_of ts)"
| "signature_of OptionalError = None"
| "signature_of (Result ts) = None"
| "signature_of (Unsupported name) = None"
  by pat_completeness auto
termination
proof -
  have member: "weight t < Suc (sum_list (map weight ts))" if "t \<in> set ts" for t ts
    using that by (induction ts) auto
  show ?thesis
    by (relation "measure weight") (auto simp: member)
qed

text \<open>\<^verbatim>\<open>signature_of<T>::is_valid\<close>; the primary template answers \<open>false\<close>.\<close>

fun is_valid :: "dtype \<Rightarrow> bool" where
  "is_valid (Const t) = is_valid t"
| "is_valid (Volatile t) = is_valid t"
| "is_valid (ConstVolatile t) = is_valid t"
| "is_valid (LRef t) = is_valid t"
| "is_valid (EnumOf u) = is_valid u"
| "is_valid (StdTuple ts) = False"
| "is_valid OptionalError = False"
| "is_valid (Result ts) = False"
| "is_valid (Unsupported name) = False"
| "is_valid t = True"

text \<open>\<^verbatim>\<open>signature_of<T>::is_trivial_dbus_type\<close>.\<close>

fun is_trivial_dbus_type :: "dtype \<Rightarrow> bool" where
  "is_trivial_dbus_type (Const t) = is_trivial_dbus_type t"
| "is_trivial_dbus_type (Volatile t) = is_trivial_dbus_type t"
| "is_trivial_dbus_type (ConstVolatile t) = is_trivial_dbus_type t"
| "is_trivial_dbus_type (LRef t) = is_trivial_dbus_type t"
| "is_trivial_dbus_type (EnumOf u) = is_trivial_dbus_type u"
| "is_trivial_dbus_type Bool = True"
| "is_trivial_dbus_type Uint8 = True"
| "is_trivial_dbus_type Int16 = True"
| "is_trivial_dbus_type Uint16 = True"
| "is_trivial_dbus_type Int32 = True"
| "is_trivial_dbus_type Uint32 = True"
| "is_trivial_dbus_type Int64 = True"
| "is_trivial_dbus_type Uint64 = True"
| "is_trivial_dbus_type Double = True"
| "is_trivial_dbus_type t = False"

subsection \<open>Function traits\<close>

text \<open>A function type \<^verbatim>\<open>_ReturnType(_Args...)\<close>.\<close>

datatype ftype = Fn dtype "dtype list"

text \<open>
  \<^verbatim>\<open>function_traits<F>::arguments_type\<close>: the parameter list, without the leading
  \<^verbatim>\<open>std::optional<Error>\<close> or \<^verbatim>\<open>Result<...>\<close> of a \<^verbatim>\<open>void\<close> callback.
\<close>

fun strips_leading_parameter :: "dtype \<Rightarrow> bool" where
  "strips_leading_parameter OptionalError = True"
| "strips_leading_parameter (Result results) = True"
| "strips_leading_parameter t = False"

fun arguments_type :: "ftype \<Rightarrow> dtype list" where
  "arguments_type (Fn ret args) =
     (case args of
        [] \<Rightarrow> args
      | first # rest \<Rightarrow> if ret = Void \<and> strips_leading_parameter first then rest else args)"

text \<open>\<^verbatim>\<open>function_traits<F>::result_type\<close>.\<close>

fun async_results :: "dtype \<Rightarrow> dtype list option" where
  "async_results (Result results) = Some results"
| "async_results t = None"

fun result_type :: "ftype \<Rightarrow> dtype" where
  "result_type (Fn ret args) =
     (case args of
        [] \<Rightarrow> ret
      | first # rest \<Rightarrow>
          if ret = Void
          then (case async_results first of Some results \<Rightarrow> StdTuple results | None \<Rightarrow> ret)
          else ret)"

text \<open>
  \<^verbatim>\<open>std::decay_t\<close>: the reference is removed, then an array becomes a pointer to its
  element, any other type loses its top-level cv-qualifiers.
\<close>

fun remove_reference :: "dtype \<Rightarrow> dtype" where
  "remove_reference (LRef t) = t"
| "remove_reference t = t"

fun decay_unreferenced :: "dtype \<Rightarrow> dtype" where
  "decay_unreferenced (CharArray n) = CharPtr"
| "decay_unreferenced (ConstCharArray n) = ConstCharPtr"
| "decay_unreferenced (Const u) = u"
| "decay_unreferenced (Volatile u) = u"
| "decay_unreferenced (ConstVolatile u) = u"
| "decay_unreferenced u = u"

definition decay :: "dtype \<Rightarrow> dtype" where
  "decay t = decay_unreferenced (remove_reference t)"

text \<open>\<^verbatim>\<open>tuple_of_function_input_arg_types_t\<close>: \<^verbatim>\<open>decayed_arguments_type\<close>.\<close>

definition tuple_of_function_input_arg_types :: "ftype \<Rightarrow> dtype" where
  "tuple_of_function_input_arg_types f = StdTuple (map decay (arguments_type f))"

text \<open>\<^verbatim>\<open>tuple_of_function_output_arg_types_t\<close>: \<^verbatim>\<open>result_type\<close>.\<close>

definition tuple_of_function_output_arg_types :: "ftype \<Rightarrow> dtype" where
  "tuple_of_function_output_arg_types f = result_type f"

text \<open>\<^verbatim>\<open>as_null_terminated\<close>, and the \<^verbatim>\<open>std::string\<close> built from the C string.\<close>

definition as_null_terminated :: "char list \<Rightarrow> char list" where
  "as_null_terminated arr = array_plus arr [CHR 0x00]"

definition string_of_c_str :: "char list \<Rightarrow> string" where
  "string_of_c_str data = takeWhile (\<lambda>c. c \<noteq> CHR 0x00) data"

text \<open>
  \<^verbatim>\<open>signature_of_function_input_arguments<F>\<close> inherits from the \<^verbatim>\<open>signature_of\<close> of
  the input tuple and adds \<^verbatim>\<open>value_as_string()\<close>; likewise for the output arguments.
\<close>

definition signature_of_function_input_arguments :: "ftype \<Rightarrow> char list option" where
  "signature_of_function_input_arguments f = signature_of (tuple_of_function_input_arg_types f)"

definition input_value_as_string :: "ftype \<Rightarrow> string option" where
  "input_value_as_string f =
     map_option (\<lambda>signature. string_of_c_str (as_null_terminated signature))
       (signature_of (tuple_of_function_input_arg_types f))"

definition signature_of_function_output_arguments :: "ftype \<Rightarrow> char list option" where
  "signature_of_function_output_arguments f = signature_of (tuple_of_function_output_arg_types f)"

definition output_value_as_string :: "ftype \<Rightarrow> string option" where
  "output_value_as_string f =
     map_option (\<lambda>signature. string_of_c_str (as_null_terminated signature))
       (signature_of (tuple_of_function_output_arg_types f))"

text \<open>\<^verbatim>\<open>future_return_t<_Args...>\<close>.\<close>

fun future_return :: "dtype list \<Rightarrow> dtype" where
  "future_return [] = Void"
| "future_return [t] = t"
| "future_return ts = StdTuple ts"

section \<open>The builder chain (ConvenienceApiClasses.inl)\<close>

subsection \<open>Errors, messages and collaborators\<close>

text \<open>\<^verbatim>\<open>sdbus::Error\<close>, the exception of the library: a name and a message.\<close>

datatype error = Error string string

text \<open>
  How a member function ends: it returns, it throws, or an \<^verbatim>\<open>assert\<close> of a debug build
  fails and the program is aborted.
\<close>

datatype 'a outcome = Returned 'a | Thrown error | AssertionFailed

text \<open>
  Modelled from the spec: the \<^verbatim>\<open>Message\<close> class (Message.h is not among the sources).
  A message is valid or not, carries the interface and member it was created for, the
  arguments written so far in order, and the no-reply flag. A default-constructed message
  is invalid.
\<close>

record 'v message =
  msg_valid :: bool
  msg_interface :: string
  msg_member :: string
  msg_payload :: "'v list"
  msg_no_reply :: bool

definition default_message :: "'v message" where
  "default_message =
     \<lparr>msg_valid = False, msg_interface = [], msg_member = [], msg_payload = [],
      msg_no_reply = False\<rparr>"

definition isValid :: "'v message \<Rightarrow> bool" where
  "isValid m = msg_valid m"

text \<open>
  Modelled from the spec: \<^verbatim>\<open>detail::serialize_pack\<close> (writes append in signature order)
  and \<^verbatim>\<open>MethodCall::dontExpectReply\<close>.
\<close>

definition serialize_pack :: "'v message \<Rightarrow> 'v list \<Rightarrow> 'v message" where
  "serialize_pack m args = m\<lparr>msg_payload := msg_payload m @ args\<rparr>"

definition dontExpectReply :: "'v message \<Rightarrow> 'v message" where
  "dontExpectReply m = m\<lparr>msg_no_reply := True\<rparr>"

text \<open>
  The abstract interfaces \<^verbatim>\<open>IObject\<close> and \<^verbatim>\<open>IProxy\<close>, as far as the builders call
  them. Each member either returns or throws; \<open>None\<close> is the normal return of a
  \<^verbatim>\<open>void\<close> member. \<open>callMethodAsync\<close> is the overload of \<^verbatim>\<open>callMethod\<close> that takes a
  reply handler and returns the pending call; the handlers given to it and to
  \<^verbatim>\<open>registerSignalHandler\<close> are modelled on their own below.
\<close>

record 'v IObject =
  createSignal :: "string \<Rightarrow> string \<Rightarrow> error + 'v message"
  emitSignal :: "'v message \<Rightarrow> error option"

record 'v IProxy =
  createMethodCall :: "string \<Rightarrow> string \<Rightarrow> error + 'v message"
  callMethod :: "'v message \<Rightarrow> 64 word \<Rightarrow> error + 'v message"
  callMethodAsync :: "'v message \<Rightarrow> 64 word \<Rightarrow> error + nat"
  registerSignalHandler :: "string \<Rightarrow> string \<Rightarrow> error option"

text \<open>The calls that reach the collaborators, in the order they are made.\<close>

datatype 'v call =
    EmitSignal "'v message"
  | CallMethod "'v message" "64 word"
  | CallMethodAsync "'v message" "64 word"
  | RegisterSignalHandler string string

text \<open>
  What the builders observe of the running program: \<^verbatim>\<open>std::uncaught_exceptions()\<close>, and
  the calls made so far.
\<close>

record 'v world =
  uncaught_exceptions :: int
  calls :: "'v call list"

definition record_call :: "'v call \<Rightarrow> 'v world \<Rightarrow> 'v world" where
  "record_call c w = w\<lparr>calls := calls w @ [c]\<rparr>"

subsection \<open>Durations\<close>

text \<open>
  A \<^verbatim>\<open>std::chrono::duration<_Rep, _Period>\<close>: its count, of the arithmetic type \<^verbatim>\<open>_Rep\<close>,
  and the numerator and denominator of its period in seconds. \<^verbatim>\<open>intmax_t\<close> and the count
  of \<^verbatim>\<open>std::chrono::microseconds\<close> are taken to be 64-bit signed integers. The count is
  kept with the type in which \<^verbatim>\<open>duration_cast\<close> computes, the common type \<open>CR\<close> of
  \<^verbatim>\<open>_Rep\<close> and these two: \<^verbatim>\<open>int64_t\<close> for a signed \<^verbatim>\<open>_Rep\<close> of at most 64 bits and for
  an unsigned one of fewer, \<^verbatim>\<open>uint64_t\<close> for \<^verbatim>\<open>uint64_t\<close>, and \<^verbatim>\<open>_Rep\<close> itself for a
  floating-point type, whose count is a real number (not an infinity or a NaN).
\<close>

datatype rep = Integral int | Unsigned64 "64 word" | Floating real

record duration =
  count :: rep
  period_num :: nat
  period_den :: nat

definition in_int64 :: "int \<Rightarrow> bool" where
  "in_int64 x = (- (2 ^ 63) \<le> x \<and> x < 2 ^ 63)"

text \<open>Integer division of C++: the quotient is truncated towards zero.\<close>

definition cpp_div :: "int \<Rightarrow> int \<Rightarrow> int" where
  "cpp_div a b = sgn a * sgn b * (\<bar>a\<bar> div \<bar>b\<bar>)"

text \<open>
  The conversion of a floating-point value to an integer type: the fractional part is
  discarded.
\<close>

definition cpp_trunc :: "real \<Rightarrow> int" where
  "cpp_trunc v = (if 0 \<le> v then \<lfloor>v\<rfloor> else \<lceil>v\<rceil>)"

text \<open>
  What a conversion comes to: a value, undefined behaviour, or a program that is
  ill-formed and does not compile.
\<close>

datatype 'a cast_result = Cast 'a | Undefined | IllFormed

text \<open>
  \<open>CF\<close>, that is \<^verbatim>\<open>std::ratio_divide<_Period, std::micro>\<close>: the period times 1000000, in
  lowest terms. The instantiation is well-formed when the period is a positive ratio of
  two \<^verbatim>\<open>intmax_t\<close> and the numerator of \<open>CF\<close> is an \<^verbatim>\<open>intmax_t\<close> too; its denominator
  divides that of the period.
\<close>

definition conversion_factor :: "duration \<Rightarrow> int \<times> int" where
  "conversion_factor d =
     (let n = int (period_num d) * 1000000;
          g = gcd n (int (period_den d))
      in (n div g, int (period_den d) div g))"

definition well_formed_cast :: "duration \<Rightarrow> bool" where
  "well_formed_cast d =
     (0 < period_num d \<and> 0 < period_den d \<and>
      in_int64 (int (period_num d)) \<and> in_int64 (int (period_den d)) \<and>
      in_int64 (fst (conversion_factor d)))"

text \<open>
  The microseconds of a floating-point count \<open>x\<close>, computed in the floating-point type:
  \<open>rnd\<close> is the rounding of a real number to that type, applied to the two constants and to
  the result of each operation.
\<close>

definition floating_microseconds :: "(real \<Rightarrow> real) \<Rightarrow> int \<Rightarrow> int \<Rightarrow> real \<Rightarrow> real" where
  "floating_microseconds rnd cf_num cf_den x =
     (if cf_num = 1 \<and> cf_den = 1 then x
      else if cf_den = 1 then rnd (x * rnd (of_int cf_num))
      else if cf_num = 1 then rnd (x / rnd (of_int cf_den))
      else rnd (rnd (x * rnd (of_int cf_num)) / rnd (of_int cf_den)))"

text \<open>
  \<^verbatim>\<open>std::chrono::duration_cast<std::chrono::microseconds>\<close>, as the C++ standard defines
  it: the count is converted to \<open>CR\<close>, multiplied by \<open>CF::num\<close> and divided by \<open>CF::den\<close>,
  each only when it is not 1, and the result is converted to the 64-bit signed count of
  microseconds. In \<^verbatim>\<open>int64_t\<close> a product that overflows is undefined; in \<^verbatim>\<open>uint64_t\<close> the
  product wraps and the result is converted modulo \<open>2\<^sup>6\<^sup>4\<close> (as C++20 requires and the
  compilers did before); a floating-point result is truncated, which is undefined when
  the truncated value is not an \<^verbatim>\<open>int64_t\<close>.
\<close>

definition duration_cast_microseconds :: "(real \<Rightarrow> real) \<Rightarrow> duration \<Rightarrow> int cast_result" where
  "duration_cast_microseconds rnd d =
     (let cf_num = fst (conversion_factor d);
          cf_den = snd (conversion_factor d)
      in if \<not> well_formed_cast d then IllFormed
         else
           (case count d of
              Integral c \<Rightarrow>
                if cf_num = 1 \<and> cf_den = 1 then Cast c
                else if cf_den = 1 then
                  (if in_int64 (c * cf_num) then Cast (c * cf_num) else Undefined)
                else if cf_num = 1 then Cast (cpp_div c cf_den)
                else
                  (if in_int64 (c * cf_num) then Cast (cpp_div (c * cf_num) cf_den)
                   else Undefined)
            | Unsigned64 c \<Rightarrow>
                Cast (sint
                  (if cf_num = 1 \<and> cf_den = 1 then c
                   else if cf_den = 1 then c * word_of_int cf_num
                   else if cf_num = 1 then c div word_of_int cf_den
                   else c * word_of_int cf_num div word_of_int cf_den))
            | Floating x \<Rightarrow>
                if in_int64 (cpp_trunc (floating_microseconds rnd cf_num cf_den x))
                then Cast (cpp_trunc (floating_microseconds rnd cf_num cf_den x))
                else Undefined))"

text \<open>
  The rounding of IEEE 754 binary64, the \<^verbatim>\<open>double\<close> of the common platforms, to nearest
  with ties to even, for a number in the normal range: with \<open>e\<close> the exponent of the
  number, the multiples of \<open>2\<^sup>e\<^sup>-\<^sup>5\<^sup>2\<close> are the values of the type around it. It is one
  rounding that \<open>rnd\<close> can stand for.
\<close>

definition round_binary64 :: "real \<Rightarrow> real" where
  "round_binary64 v =
     (if v = 0 then 0
      else
        (let e = \<lfloor>log 2 \<bar>v\<bar>\<rfloor>;
             ulp = 2 powr (of_int e - 52);
             q = \<bar>v\<bar> / ulp;
             n = \<lfloor>q\<rfloor>;
             m = (if q - of_int n < 1 / 2 then n
                  else if 1 / 2 < q - of_int n then n + 1
                  else if even n then n else n + 1)
         in sgn v * of_int m * ulp))"

subsection \<open>SignalEmitter\<close>

text \<open>
  The data members of a builder keep their names, prefixed by the builder's initials and
  without the trailing underscore: \<open>se_signal\<close> is \<^verbatim>\<open>SignalEmitter::signal_\<close>.
\<close>

record 'v SignalEmitter =
  se_signalName :: string
  se_exceptions :: int
  se_signal :: "'v message"

text \<open>
  The constructor stores the name and \<^verbatim>\<open>std::uncaught_exceptions()\<close>; the signal is
  default-constructed.
\<close>

definition SignalEmitter_ctor :: "'v world \<Rightarrow> string \<Rightarrow> 'v SignalEmitter" where
  "SignalEmitter_ctor w signalName =
     \<lparr>se_signalName = signalName, se_exceptions = uncaught_exceptions w,
      se_signal = default_message\<rparr>"

text \<open>
  The destructor:
  \<^verbatim>\<open>if (std::uncaught_exceptions() != exceptions_) return; object_.emitSignal(signal_);\<close>
\<close>

definition SignalEmitter_dtor ::
  "'v IObject \<Rightarrow> 'v world \<Rightarrow> 'v SignalEmitter \<Rightarrow> unit outcome \<times> 'v world" where
  "SignalEmitter_dtor object w se =
     (if uncaught_exceptions w \<noteq> se_exceptions se then (Returned (), w)
      else
        (case emitSignal object (se_signal se) of
           None \<Rightarrow> (Returned (), record_call (EmitSignal (se_signal se)) w)
         | Some e \<Rightarrow> (Thrown e, record_call (EmitSignal (se_signal se)) w)))"

definition SignalEmitter_onInterface ::
  "'v IObject \<Rightarrow> string \<Rightarrow> 'v SignalEmitter \<Rightarrow> unit outcome \<times> 'v SignalEmitter" where
  "SignalEmitter_onInterface object interfaceName se =
     (case createSignal object interfaceName (se_signalName se) of
        Inl e \<Rightarrow> (Thrown e, se)
      | Inr signal \<Rightarrow> (Returned (), se\<lparr>se_signal := signal\<rparr>))"

text \<open>
  \<^verbatim>\<open>assert(signal_.isValid()); detail::serialize_pack(signal_, args...);\<close>
\<close>

definition SignalEmitter_withArguments ::
  "'v list \<Rightarrow> 'v SignalEmitter \<Rightarrow> unit outcome \<times> 'v SignalEmitter" where
  "SignalEmitter_withArguments args se =
     (if \<not> isValid (se_signal se) then (AssertionFailed, se)
      else (Returned (), se\<lparr>se_signal := serialize_pack (se_signal se) args\<rparr>))"

text \<open>The steps chained on one emitter, up to the first that does not return.\<close>

datatype 'v emitter_step = SE_onInterface string | SE_withArguments "'v list"

fun SignalEmitter_step ::
  "'v IObject \<Rightarrow> 'v emitter_step \<Rightarrow> 'v SignalEmitter \<Rightarrow> unit outcome \<times> 'v SignalEmitter" where
  "SignalEmitter_step object (SE_onInterface interfaceName) se =
     SignalEmitter_onInterface object interfaceName se"
| "SignalEmitter_step object (SE_withArguments args) se = SignalEmitter_withArguments args se"

fun SignalEmitter_chain ::
  "'v IObject \<Rightarrow> 'v emitter_step list \<Rightarrow> 'v SignalEmitter \<Rightarrow> unit outcome \<times> 'v SignalEmitter" where
  "SignalEmitter_chain object [] se = (Returned (), se)"
| "SignalEmitter_chain object (step # steps) se =
     (case SignalEmitter_step object step se of
        (Returned u, se') \<Rightarrow> SignalEmitter_chain object steps se'
      | (Thrown e, se') \<Rightarrow> (Thrown e, se')
      | (AssertionFailed, se') \<Rightarrow> (AssertionFailed, se'))"

subsection \<open>MethodInvoker\<close>

record 'v MethodInvoker =
  mi_methodName :: string
  mi_exceptions :: int
  mi_method :: "'v message"
  mi_timeout :: "64 word"
  mi_methodCalled :: bool

text \<open>
  The constructor stores the name and \<^verbatim>\<open>std::uncaught_exceptions()\<close>. Modelled from the
  spec: the members it does not mention are initialised by the class declaration
  (ConvenienceApiClasses.h, not among the sources); a fresh invoker holds an invalid
  message, no timeout (zero) and has not called its method.
\<close>

definition MethodInvoker_ctor :: "'v world \<Rightarrow> string \<Rightarrow> 'v MethodInvoker" where
  "MethodInvoker_ctor w methodName =
     \<lparr>mi_methodName = methodName, mi_exceptions = uncaught_exceptions w,
      mi_method = default_message, mi_timeout = 0, mi_methodCalled = False\<rparr>"

text \<open>
  The destructor:
  \<^verbatim>\<open>if (methodCalled_ || std::uncaught_exceptions() != exceptions_) return;\<close>
  \<^verbatim>\<open>proxy_.callMethod(method_, timeout_);\<close>
\<close>

definition MethodInvoker_dtor ::
  "'v IProxy \<Rightarrow> 'v world \<Rightarrow> 'v MethodInvoker \<Rightarrow> unit outcome \<times> 'v world" where
  "MethodInvoker_dtor proxy w mi =
     (if mi_methodCalled mi \<or> uncaught_exceptions w \<noteq> mi_exceptions mi then (Returned (), w)
      else
        (case callMethod proxy (mi_method mi) (mi_timeout mi) of
           Inl e \<Rightarrow> (Thrown e, record_call (CallMethod (mi_method mi) (mi_timeout mi)) w)
         | Inr reply \<Rightarrow>
             (Returned (), record_call (CallMethod (mi_method mi) (mi_timeout mi)) w)))"

definition MethodInvoker_onInterface ::
  "'v IProxy \<Rightarrow> string \<Rightarrow> 'v MethodInvoker \<Rightarrow> unit outcome \<times> 'v MethodInvoker" where
  "MethodInvoker_onInterface proxy interfaceName mi =
     (case createMethodCall proxy interfaceName (mi_methodName mi) of
        Inl e \<Rightarrow> (Thrown e, mi)
      | Inr method \<Rightarrow> (Returned (), mi\<lparr>mi_method := method\<rparr>))"

definition MethodInvoker_withTimeout ::
  "64 word \<Rightarrow> 'v MethodInvoker \<Rightarrow> unit outcome \<times> 'v MethodInvoker" where
  "MethodInvoker_withTimeout usec mi = (Returned (), mi\<lparr>mi_timeout := usec\<rparr>)"

text \<open>
  The overload for a duration: the signed count of microseconds is converted to the
  \<^verbatim>\<open>uint64_t\<close> parameter of the other overload. \<open>rnd\<close> is the rounding of the
  floating-point type of the count, when it has one. The same overload of
  \<^verbatim>\<open>AsyncMethodInvoker\<close> follows below.
\<close>

definition MethodInvoker_withTimeout_duration ::
  "(real \<Rightarrow> real) \<Rightarrow> duration \<Rightarrow> 'v MethodInvoker \<Rightarrow>
   (unit outcome \<times> 'v MethodInvoker) cast_result" where
  "MethodInvoker_withTimeout_duration rnd timeout mi =
     (case duration_cast_microseconds rnd timeout of
        Cast microsecs \<Rightarrow> Cast (MethodInvoker_withTimeout (word_of_int microsecs) mi)
      | Undefined \<Rightarrow> Undefined
      | IllFormed \<Rightarrow> IllFormed)"

definition MethodInvoker_withArguments ::
  "'v list \<Rightarrow> 'v MethodInvoker \<Rightarrow> unit outcome \<times> 'v MethodInvoker" where
  "MethodInvoker_withArguments args mi =
     (if \<not> isValid (mi_method mi) then (AssertionFailed, mi)
      else (Returned (), mi\<lparr>mi_method := serialize_pack (mi_method mi) args\<rparr>))"

text \<open>
  \<^verbatim>\<open>storeResultsTo\<close>: the assertion, the call, \<^verbatim>\<open>methodCalled_ = true\<close>, then the
  reply is read. \<open>deserialize_pack\<close> stands for \<^verbatim>\<open>detail::deserialize_pack\<close> (Message.h):
  the results read from the reply into the caller's variables, or the error thrown while
  reading.
\<close>

definition MethodInvoker_storeResultsTo ::
  "'v IProxy \<Rightarrow> ('v message \<Rightarrow> error + 'r) \<Rightarrow> 'v world \<Rightarrow> 'v MethodInvoker \<Rightarrow>
   'r outcome \<times> 'v world \<times> 'v MethodInvoker" where
  "MethodInvoker_storeResultsTo proxy deserialize_pack w mi =
     (if \<not> isValid (mi_method mi) then (AssertionFailed, w, mi)
      else
        (case callMethod proxy (mi_method mi) (mi_timeout mi) of
           Inl e \<Rightarrow> (Thrown e, record_call (CallMethod (mi_method mi) (mi_timeout mi)) w, mi)
         | Inr reply \<Rightarrow>
             (case deserialize_pack reply of
                Inl e \<Rightarrow>
                  (Thrown e, record_call (CallMethod (mi_method mi) (mi_timeout mi)) w,
                   mi\<lparr>mi_methodCalled := True\<rparr>)
              | Inr results \<Rightarrow>
                  (Returned results, record_call (CallMethod (mi_method mi) (mi_timeout mi)) w,
                   mi\<lparr>mi_methodCalled := True\<rparr>))))"

definition MethodInvoker_dontExpectReply ::
  "'v MethodInvoker \<Rightarrow> unit outcome \<times> 'v MethodInvoker" where
  "MethodInvoker_dontExpectReply mi =
     (if \<not> isValid (mi_method mi) then (AssertionFailed, mi)
      else (Returned (), mi\<lparr>mi_method := dontExpectReply (mi_method mi)\<rparr>))"

text \<open>The steps of an invoker that are not \<^verbatim>\<open>storeResultsTo\<close>, chained.\<close>

datatype 'v invoker_step =
    MI_onInterface string
  | MI_withTimeout "64 word"
  | MI_withArguments "'v list"
  | MI_dontExpectReply

fun MethodInvoker_step ::
  "'v IProxy \<Rightarrow> 'v invoker_step \<Rightarrow> 'v MethodInvoker \<Rightarrow> unit outcome \<times> 'v MethodInvoker" where
  "MethodInvoker_step proxy (MI_onInterface interfaceName) mi =
     MethodInvoker_onInterface proxy interfaceName mi"
| "MethodInvoker_step proxy (MI_withTimeout usec) mi = MethodInvoker_withTimeout usec mi"
| "MethodInvoker_step proxy (MI_withArguments args) mi = MethodInvoker_withArguments args mi"
| "MethodInvoker_step proxy MI_dontExpectReply mi = MethodInvoker_dontExpectReply mi"

fun MethodInvoker_chain ::
  "'v IProxy \<Rightarrow> 'v invoker_step list \<Rightarrow> 'v MethodInvoker \<Rightarrow> unit outcome \<times> 'v MethodInvoker" where
  "MethodInvoker_chain proxy [] mi = (Returned (), mi)"
| "MethodInvoker_chain proxy (step # steps) mi =
     (case MethodInvoker_step proxy step mi of
        (Returned u, mi') \<Rightarrow> MethodInvoker_chain proxy steps mi'
      | (Thrown e, mi') \<Rightarrow> (Thrown e, mi')
      | (AssertionFailed, mi') \<Rightarrow> (AssertionFailed, mi'))"

text \<open>
  An invoker used as the code asks, as an unnamed temporary of one statement: it is
  constructed, the steps are chained on it, \<^verbatim>\<open>storeResultsTo\<close> ends the chain or not, and
  it is destroyed at the end of the statement. When a step throws, the temporary is
  destroyed while that exception unwinds the statement, with one more uncaught exception;
  when an assertion fails the program is aborted and no destructor runs.
\<close>

definition in_flight :: "'v world \<Rightarrow> 'v world" where
  "in_flight w = w\<lparr>uncaught_exceptions := uncaught_exceptions w + 1\<rparr>"

definition MethodInvoker_temporary ::
  "'v IProxy \<Rightarrow> ('v message \<Rightarrow> error + 'r) \<Rightarrow> 'v world \<Rightarrow> string \<Rightarrow>
   'v invoker_step list \<Rightarrow> bool \<Rightarrow> unit outcome \<times> 'v world" where
  "MethodInvoker_temporary proxy deserialize_pack w methodName steps store =
     (case MethodInvoker_chain proxy steps (MethodInvoker_ctor w methodName) of
        (AssertionFailed, mi) \<Rightarrow> (AssertionFailed, w)
      | (Thrown e, mi) \<Rightarrow> (Thrown e, snd (MethodInvoker_dtor proxy (in_flight w) mi))
      | (Returned u, mi) \<Rightarrow>
          if store then
            (case MethodInvoker_storeResultsTo proxy deserialize_pack w mi of
               (AssertionFailed, w', mi') \<Rightarrow> (AssertionFailed, w')
             | (Thrown e, w', mi') \<Rightarrow>
                 (Thrown e, snd (MethodInvoker_dtor proxy (in_flight w') mi'))
             | (Returned results, w', mi') \<Rightarrow> MethodInvoker_dtor proxy w' mi')
          else MethodInvoker_dtor proxy w mi)"

text \<open>The calls of \<^verbatim>\<open>IProxy::callMethod\<close> among the recorded calls.\<close>

fun is_CallMethod :: "'v call \<Rightarrow> bool" where
  "is_CallMethod (CallMethod m t) = True"
| "is_CallMethod c = False"

fun is_EmitSignal :: "'v call \<Rightarrow> bool" where
  "is_EmitSignal (EmitSignal m) = True"
| "is_EmitSignal c = False"

subsection \<open>Handlers and callbacks\<close>

text \<open>
  What a handler leaves behind: the invocations of the client's callback it made, each
  with the error pointer (\<open>None\<close> is \<^verbatim>\<open>nullptr\<close>) and the argument tuple passed, and the
  client's own state.
\<close>

record ('a, 's) handler_state =
  invocations :: "(error option \<times> 'a) list"
  client :: 's

text \<open>
  \<^verbatim>\<open>sdbus::apply(callback, error, args)\<close> and \<^verbatim>\<open>sdbus::apply(callback, args)\<close>: the
  callback is invoked with the tuple splatted; it returns (\<open>None\<close>) or throws.
\<close>

definition apply_with_error ::
  "(error option \<Rightarrow> 'a \<Rightarrow> 's \<Rightarrow> error option \<times> 's) \<Rightarrow> error option \<Rightarrow> 'a \<Rightarrow>
   ('a, 's) handler_state \<Rightarrow> error option \<times> ('a, 's) handler_state" where
  "apply_with_error callback e args st =
     (case callback e args (client st) of
        (thrown, c) \<Rightarrow> (thrown, \<lparr>invocations = invocations st @ [(e, args)], client = c\<rparr>))"

definition apply_pure ::
  "('a \<Rightarrow> 's \<Rightarrow> error option \<times> 's) \<Rightarrow> 'a \<Rightarrow>
   ('a, 's) handler_state \<Rightarrow> error option \<times> ('a, 's) handler_state" where
  "apply_pure callback args st =
     (case callback args (client st) of
        (thrown, c) \<Rightarrow> (thrown, \<lparr>invocations = invocations st @ [(None, args)], client = c\<rparr>))"

subsection \<open>AsyncMethodInvoker\<close>

record 'v AsyncMethodInvoker =
  ami_methodName :: string
  ami_method :: "'v message"
  ami_timeout :: "64 word"

text \<open>
  Modelled from the spec: as for \<^verbatim>\<open>MethodInvoker\<close>, a fresh invoker holds an invalid
  message and no timeout (zero).
\<close>

definition AsyncMethodInvoker_ctor :: "string \<Rightarrow> 'v AsyncMethodInvoker" where
  "AsyncMethodInvoker_ctor methodName =
     \<lparr>ami_methodName = methodName, ami_method = default_message, ami_timeout = 0\<rparr>"

definition AsyncMethodInvoker_onInterface ::
  "'v IProxy \<Rightarrow> string \<Rightarrow> 'v AsyncMethodInvoker \<Rightarrow> unit outcome \<times> 'v AsyncMethodInvoker" where
  "AsyncMethodInvoker_onInterface proxy interfaceName ami =
     (case createMethodCall proxy interfaceName (ami_methodName ami) of
        Inl e \<Rightarrow> (Thrown e, ami)
      | Inr method \<Rightarrow> (Returned (), ami\<lparr>ami_method := method\<rparr>))"

definition AsyncMethodInvoker_withTimeout ::
  "64 word \<Rightarrow> 'v AsyncMethodInvoker \<Rightarrow> unit outcome \<times> 'v AsyncMethodInvoker" where
  "AsyncMethodInvoker_withTimeout usec ami = (Returned (), ami\<lparr>ami_timeout := usec\<rparr>)"

definition AsyncMethodInvoker_withTimeout_duration ::
  "(real \<Rightarrow> real) \<Rightarrow> duration \<Rightarrow> 'v AsyncMethodInvoker \<Rightarrow>
   (unit outcome \<times> 'v AsyncMethodInvoker) cast_result" where
  "AsyncMethodInvoker_withTimeout_duration rnd timeout ami =
     (case duration_cast_microseconds rnd timeout of
        Cast microsecs \<Rightarrow> Cast (AsyncMethodInvoker_withTimeout (word_of_int microsecs) ami)
      | Undefined \<Rightarrow> Undefined
      | IllFormed \<Rightarrow> IllFormed)"

definition AsyncMethodInvoker_withArguments ::
  "'v list \<Rightarrow> 'v AsyncMethodInvoker \<Rightarrow> unit outcome \<times> 'v AsyncMethodInvoker" where
  "AsyncMethodInvoker_withArguments args ami =
     (if \<not> isValid (ami_method ami) then (AssertionFailed, ami)
      else (Returned (), ami\<lparr>ami_method := serialize_pack (ami_method ami) args\<rparr>))"

text \<open>
  The lambda \<^verbatim>\<open>asyncReplyHandler\<close> of \<^verbatim>\<open>uponReplyInvoke\<close>. \<open>deserialize\<close> stands for
  \<^verbatim>\<open>reply >> args\<close> (Message.h): it reads into the tuple it is given and returns the
  tuple filled, or throws an error and leaves the tuple in some state. \<open>args\<close> is the
  default-initialised tuple the lambda declares. The result is the exception that leaves
  the handler, if any.
\<close>

definition asyncReplyHandler ::
  "(error option \<Rightarrow> 'a \<Rightarrow> 's \<Rightarrow> error option \<times> 's) \<Rightarrow>
   ('m \<Rightarrow> 'a \<Rightarrow> (error \<times> 'a) + 'a) \<Rightarrow> 'a \<Rightarrow> 'm \<Rightarrow> error option \<Rightarrow>
   ('a, 's) handler_state \<Rightarrow> error option \<times> ('a, 's) handler_state" where
  "asyncReplyHandler callback deserialize args reply error st =
     (if error = None then
        (case deserialize reply args of
           Inl (e, args') \<Rightarrow> apply_with_error callback (Some e) args' st
         | Inr args' \<Rightarrow> apply_with_error callback error args' st)
      else apply_with_error callback error args st)"

text \<open>
  \<^verbatim>\<open>uponReplyInvoke\<close> itself: the assertion, then the asynchronous call with the handler
  above; the result is the pending call.
\<close>

definition AsyncMethodInvoker_uponReplyInvoke ::
  "'v IProxy \<Rightarrow> 'v world \<Rightarrow> 'v AsyncMethodInvoker \<Rightarrow> nat outcome \<times> 'v world" where
  "AsyncMethodInvoker_uponReplyInvoke proxy w ami =
     (if \<not> isValid (ami_method ami) then (AssertionFailed, w)
      else
        (case callMethodAsync proxy (ami_method ami) (ami_timeout ami) of
           Inl e \<Rightarrow> (Thrown e, record_call (CallMethodAsync (ami_method ami) (ami_timeout ami)) w)
         | Inr pending \<Rightarrow>
             (Returned pending,
              record_call (CallMethodAsync (ami_method ami) (ami_timeout ami)) w)))"

text \<open>
  The shared state of a \<^verbatim>\<open>std::promise\<close> and its future. A value of type
  \<^verbatim>\<open>future_return_t<_Args...>\<close> is nothing, one value or a tuple.
\<close>

datatype 'v future_value = FVoid | FSingle 'v | FTuple "'v list"

datatype 'v shared_state = NotReady | HasValue "'v future_value" | HasException error

definition promise_already_satisfied :: error where
  "promise_already_satisfied = Error ''std::future_error'' ''Promise already satisfied''"

fun set_value :: "'v future_value \<Rightarrow> 'v shared_state \<Rightarrow> error option \<times> 'v shared_state" where
  "set_value v NotReady = (None, HasValue v)"
| "set_value v s = (Some promise_already_satisfied, s)"

fun set_exception :: "error \<Rightarrow> 'v shared_state \<Rightarrow> error option \<times> 'v shared_state" where
  "set_exception e NotReady = (None, HasException e)"
| "set_exception e s = (Some promise_already_satisfied, s)"

text \<open>The braced initialiser \<^verbatim>\<open>{std::move(args)...}\<close> of a non-void future value.\<close>

fun braced_value :: "'v list \<Rightarrow> 'v future_value" where
  "braced_value [x] = FSingle x"
| "braced_value xs = FTuple xs"

text \<open>The callback that \<^verbatim>\<open>getResultAsFuture\<close> hands to \<^verbatim>\<open>uponReplyInvoke\<close>.\<close>

definition future_callback ::
  "error option \<Rightarrow> 'v list \<Rightarrow> 'v shared_state \<Rightarrow> error option \<times> 'v shared_state" where
  "future_callback error args promise =
     (case error of
        None \<Rightarrow> if args \<noteq> [] then set_value (braced_value args) promise else set_value FVoid promise
      | Some e \<Rightarrow> set_exception e promise)"

definition AsyncMethodInvoker_getResultAsFuture ::
  "'v IProxy \<Rightarrow> 'v world \<Rightarrow> 'v AsyncMethodInvoker \<Rightarrow> unit outcome \<times> 'v world" where
  "AsyncMethodInvoker_getResultAsFuture proxy w ami =
     (case AsyncMethodInvoker_uponReplyInvoke proxy w ami of
        (Returned pending, w') \<Rightarrow> (Returned (), w')
      | (Thrown e, w') \<Rightarrow> (Thrown e, w')
      | (AssertionFailed, w') \<Rightarrow> (AssertionFailed, w'))"

text \<open>The reply handler \<^verbatim>\<open>getResultAsFuture\<close> registers that way.\<close>

definition getResultAsFuture_handler ::
  "('m \<Rightarrow> 'v list \<Rightarrow> (error \<times> 'v list) + 'v list) \<Rightarrow> 'v list \<Rightarrow> 'm \<Rightarrow> error option \<Rightarrow>
   ('v list, 'v shared_state) handler_state \<Rightarrow>
   error option \<times> ('v list, 'v shared_state) handler_state" where
  "getResultAsFuture_handler deserialize args reply error st =
     asyncReplyHandler future_callback deserialize args reply error st"

subsection \<open>SignalSubscriber\<close>

record SignalSubscriber =
  ss_signalName :: string
  ss_interfaceName :: string

text \<open>The interface name is a string, empty until \<^verbatim>\<open>onInterface\<close> sets it.\<close>

definition SignalSubscriber_ctor :: "string \<Rightarrow> SignalSubscriber" where
  "SignalSubscriber_ctor signalName = \<lparr>ss_signalName = signalName, ss_interfaceName = []\<rparr>"

definition SignalSubscriber_onInterface ::
  "string \<Rightarrow> SignalSubscriber \<Rightarrow> unit outcome \<times> SignalSubscriber" where
  "SignalSubscriber_onInterface interfaceName ss =
     (Returned (), ss\<lparr>ss_interfaceName := interfaceName\<rparr>)"

text \<open>
  A signal callback takes the signal parameters only, or the error pointer first:
  \<^verbatim>\<open>has_error_param_v\<close> tells them apart.
\<close>

datatype ('a, 's) signal_callback =
    PureCallback "'a \<Rightarrow> 's \<Rightarrow> error option \<times> 's"
  | ErrorCallback "error option \<Rightarrow> 'a \<Rightarrow> 's \<Rightarrow> error option \<times> 's"

fun has_error_param :: "('a, 's) signal_callback \<Rightarrow> bool" where
  "has_error_param (PureCallback f) = False"
| "has_error_param (ErrorCallback f) = True"

text \<open>
  The lambda that \<^verbatim>\<open>SignalSubscriber::call\<close> registers. \<open>deserialize\<close> stands for
  \<^verbatim>\<open>signal >> signalArgs\<close>, as for the reply handler; the result is the exception that
  leaves the handler, if any.
\<close>

fun signalHandler ::
  "('a, 's) signal_callback \<Rightarrow> ('m \<Rightarrow> 'a \<Rightarrow> (error \<times> 'a) + 'a) \<Rightarrow> 'a \<Rightarrow> 'm \<Rightarrow>
   ('a, 's) handler_state \<Rightarrow> error option \<times> ('a, 's) handler_state" where
  "signalHandler (ErrorCallback callback) deserialize signalArgs signal st =
     (case deserialize signal signalArgs of
        Inl (e, signalArgs') \<Rightarrow> apply_with_error callback (Some e) signalArgs' st
      | Inr signalArgs' \<Rightarrow> apply_with_error callback None signalArgs' st)"
| "signalHandler (PureCallback callback) deserialize signalArgs signal st =
     (case deserialize signal signalArgs of
        Inl (e, signalArgs') \<Rightarrow> (Some e, st)
      | Inr signalArgs' \<Rightarrow> apply_pure callback signalArgs' st)"

text \<open>
  \<^verbatim>\<open>call\<close>: \<^verbatim>\<open>assert(!interfaceName_.empty())\<close>, then the handler above is registered.
\<close>

definition SignalSubscriber_call ::
  "'v IProxy \<Rightarrow> 'v world \<Rightarrow> SignalSubscriber \<Rightarrow> unit outcome \<times> 'v world" where
  "SignalSubscriber_call proxy w ss =
     (if ss_interfaceName ss = [] then (AssertionFailed, w)
      else
        (case registerSignalHandler proxy (ss_interfaceName ss) (ss_signalName ss) of
           Some e \<Rightarrow>
             (Thrown e, record_call (RegisterSignalHandler (ss_interfaceName ss) (ss_signalName ss)) w)
         | None \<Rightarrow>
             (Returned (),
              record_call (RegisterSignalHandler (ss_interfaceName ss) (ss_signalName ss)) w)))"

subsection \<open>Chains on an AsyncMethodInvoker\<close>

text \<open>The steps of an asynchronous invoker that return the invoker, chained.\<close>

datatype 'v async_step =
    AMI_onInterface string
  | AMI_withTimeout "64 word"
  | AMI_withArguments "'v list"

fun AsyncMethodInvoker_step ::
  "'v IProxy \<Rightarrow> 'v async_step \<Rightarrow> 'v AsyncMethodInvoker \<Rightarrow>
   unit outcome \<times> 'v AsyncMethodInvoker" where
  "AsyncMethodInvoker_step proxy (AMI_onInterface interfaceName) ami =
     AsyncMethodInvoker_onInterface proxy interfaceName ami"
| "AsyncMethodInvoker_step proxy (AMI_withTimeout usec) ami =
     AsyncMethodInvoker_withTimeout usec ami"
| "AsyncMethodInvoker_step proxy (AMI_withArguments args) ami =
     AsyncMethodInvoker_withArguments args ami"

fun AsyncMethodInvoker_chain ::
  "'v IProxy \<Rightarrow> 'v async_step list \<Rightarrow> 'v AsyncMethodInvoker \<Rightarrow>
   unit outcome \<times> 'v AsyncMethodInvoker" where
  "AsyncMethodInvoker_chain proxy [] ami = (Returned (), ami)"
| "AsyncMethodInvoker_chain proxy (step # steps) ami =
     (case AsyncMethodInvoker_step proxy step ami of
        (Returned u, ami') \<Rightarrow> AsyncMethodInvoker_chain proxy steps ami'
      | (Thrown e, ami') \<Rightarrow> (Thrown e, ami')
      | (AssertionFailed, ami') \<Rightarrow> (AssertionFailed, ami'))"

text \<open>
  An asynchronous invoker as a temporary of one statement: constructed, configured by the
  chain, and ended by \<open>terminal\<close>, which is \<^verbatim>\<open>uponReplyInvoke\<close> or \<^verbatim>\<open>getResultAsFuture\<close>.
  Its destructor does nothing.
\<close>

definition AsyncMethodInvoker_temporary ::
  "'v IProxy \<Rightarrow> 'v world \<Rightarrow> string \<Rightarrow> 'v async_step list \<Rightarrow>
   ('v IProxy \<Rightarrow> 'v world \<Rightarrow> 'v AsyncMethodInvoker \<Rightarrow> 'r outcome \<times> 'v world) \<Rightarrow>
   'r outcome \<times> 'v world" where
  "AsyncMethodInvoker_temporary proxy w methodName steps terminal =
     (case AsyncMethodInvoker_chain proxy steps (AsyncMethodInvoker_ctor methodName) of
        (Returned u, ami) \<Rightarrow> terminal proxy w ami
      | (Thrown e, ami) \<Rightarrow> (Thrown e, w)
      | (AssertionFailed, ami) \<Rightarrow> (AssertionFailed, w))"

text \<open>
  A synchronous invoker as a temporary of one statement that ends in \<^verbatim>\<open>storeResultsTo\<close>
  and whose results are used afterwards.
\<close>

definition MethodInvoker_storing_temporary ::
  "'v IProxy \<Rightarrow> ('v message \<Rightarrow> error + 'r) \<Rightarrow> 'v world \<Rightarrow> string \<Rightarrow>
   'v invoker_step list \<Rightarrow> 'r outcome \<times> 'v world" where
  "MethodInvoker_storing_temporary proxy deserialize_pack w methodName steps =
     (case MethodInvoker_chain proxy steps (MethodInvoker_ctor w methodName) of
        (AssertionFailed, mi) \<Rightarrow> (AssertionFailed, w)
      | (Thrown e, mi) \<Rightarrow> (Thrown e, snd (MethodInvoker_dtor proxy (in_flight w) mi))
      | (Returned u, mi) \<Rightarrow>
          (case MethodInvoker_storeResultsTo proxy deserialize_pack w mi of
             (AssertionFailed, w', mi') \<Rightarrow> (AssertionFailed, w')
           | (Thrown e, w', mi') \<Rightarrow>
               (Thrown e, snd (MethodInvoker_dtor proxy (in_flight w') mi'))
           | (Returned results, w', mi') \<Rightarrow>
               (case MethodInvoker_dtor proxy w' mi' of
                  (Returned u, w'') \<Rightarrow> (Returned results, w'')
                | (Thrown e, w'') \<Rightarrow> (Thrown e, w'')
                | (AssertionFailed, w'') \<Rightarrow> (AssertionFailed, w''))))"

subsection \<open>The property builders\<close>

text \<open>
  What the property builders write into a message: strings (the interface and property
  names) and a \<^verbatim>\<open>Variant\<close>, which holds a value or, default-constructed, none.
\<close>

datatype 'a property_arg = StringArg string | VariantArg "'a option"

text \<open>\<^verbatim>\<open>PropertyGetter\<close>: \<^verbatim>\<open>onInterface\<close> makes the call and returns the value read.\<close>

record PropertyGetter =
  pg_propertyName :: string

definition PropertyGetter_ctor :: "string \<Rightarrow> PropertyGetter" where
  "PropertyGetter_ctor propertyName = \<lparr>pg_propertyName = propertyName\<rparr>"

text \<open>
  Modelled from the spec: \<^verbatim>\<open>proxy_.callMethod("Get")\<close> is the \<^verbatim>\<open>MethodInvoker\<close> constructed
  for that method, and \<^verbatim>\<open>proxy_.callMethodAsync("Get")\<close> the \<^verbatim>\<open>AsyncMethodInvoker\<close>
  (IProxy.h is not among the sources), here and in the other property builders.
\<close>

definition PropertyGetter_onInterface ::
  "'a property_arg IProxy \<Rightarrow> ('a property_arg message \<Rightarrow> error + 'r) \<Rightarrow>
   'a property_arg world \<Rightarrow> string \<Rightarrow> PropertyGetter \<Rightarrow> 'r outcome \<times> 'a property_arg world" where
  "PropertyGetter_onInterface proxy deserialize_pack w interfaceName pg =
     MethodInvoker_storing_temporary proxy deserialize_pack w ''Get''
       [MI_onInterface ''org.freedesktop.DBus.Properties'',
        MI_withArguments [StringArg interfaceName, StringArg (pg_propertyName pg)]]"

text \<open>
  \<^verbatim>\<open>AsyncPropertyGetter\<close>. \<^verbatim>\<open>interfaceName_\<close> is a pointer to the caller's string: \<open>None\<close> is
  \<^verbatim>\<open>nullptr\<close>, and the string pointed to is taken to live unchanged until it is read.
\<close>

record AsyncPropertyGetter =
  apg_propertyName :: string
  apg_interfaceName :: "string option"

text \<open>
  Modelled from the spec: the pointer is null in a fresh builder (the class declarations
  are not among the sources), here and in the three builders below; the value of a fresh
  \<^verbatim>\<open>AsyncPropertySetter\<close> is a default-constructed \<^verbatim>\<open>Variant\<close>.
\<close>

definition AsyncPropertyGetter_ctor :: "string \<Rightarrow> AsyncPropertyGetter" where
  "AsyncPropertyGetter_ctor propertyName =
     \<lparr>apg_propertyName = propertyName, apg_interfaceName = None\<rparr>"

definition AsyncPropertyGetter_onInterface ::
  "string \<Rightarrow> AsyncPropertyGetter \<Rightarrow> unit outcome \<times> AsyncPropertyGetter" where
  "AsyncPropertyGetter_onInterface interfaceName apg =
     (Returned (), apg\<lparr>apg_interfaceName := Some interfaceName\<rparr>)"

definition AsyncPropertyGetter_uponReplyInvoke ::
  "'a property_arg IProxy \<Rightarrow> 'a property_arg world \<Rightarrow> AsyncPropertyGetter \<Rightarrow>
   nat outcome \<times> 'a property_arg world" where
  "AsyncPropertyGetter_uponReplyInvoke proxy w apg =
     (case apg_interfaceName apg of
        None \<Rightarrow> (AssertionFailed, w)
      | Some interfaceName \<Rightarrow>
          AsyncMethodInvoker_temporary proxy w ''Get''
            [AMI_onInterface ''org.freedesktop.DBus.Properties'',
             AMI_withArguments [StringArg interfaceName, StringArg (apg_propertyName apg)]]
            AsyncMethodInvoker_uponReplyInvoke)"

definition AsyncPropertyGetter_getResultAsFuture ::
  "'a property_arg IProxy \<Rightarrow> 'a property_arg world \<Rightarrow> AsyncPropertyGetter \<Rightarrow>
   unit outcome \<times> 'a property_arg world" where
  "AsyncPropertyGetter_getResultAsFuture proxy w apg =
     (case apg_interfaceName apg of
        None \<Rightarrow> (AssertionFailed, w)
      | Some interfaceName \<Rightarrow>
          AsyncMethodInvoker_temporary proxy w ''Get''
            [AMI_onInterface ''org.freedesktop.DBus.Properties'',
             AMI_withArguments [StringArg interfaceName, StringArg (apg_propertyName apg)]]
            AsyncMethodInvoker_getResultAsFuture)"

text \<open>
  \<^verbatim>\<open>PropertySetter\<close>: \<^verbatim>\<open>toValue\<close> on a \<^verbatim>\<open>Variant\<close>, and its overload with
  \<^verbatim>\<open>dont_expect_reply\<close>. The invoker is a temporary without \<^verbatim>\<open>storeResultsTo\<close>: its
  destructor makes the call. The overloads for a plain value wrap it in a \<^verbatim>\<open>Variant\<close>
  and call these.
\<close>

record PropertySetter =
  ps_propertyName :: string
  ps_interfaceName :: "string option"

definition PropertySetter_ctor :: "string \<Rightarrow> PropertySetter" where
  "PropertySetter_ctor propertyName =
     \<lparr>ps_propertyName = propertyName, ps_interfaceName = None\<rparr>"

definition PropertySetter_onInterface ::
  "string \<Rightarrow> PropertySetter \<Rightarrow> unit outcome \<times> PropertySetter" where
  "PropertySetter_onInterface interfaceName ps =
     (Returned (), ps\<lparr>ps_interfaceName := Some interfaceName\<rparr>)"

definition PropertySetter_toValue ::
  "'a property_arg IProxy \<Rightarrow> 'a property_arg world \<Rightarrow> 'a option \<Rightarrow> PropertySetter \<Rightarrow>
   unit outcome \<times> 'a property_arg world" where
  "PropertySetter_toValue proxy w val ps =
     (case ps_interfaceName ps of
        None \<Rightarrow> (AssertionFailed, w)
      | Some interfaceName \<Rightarrow>
          MethodInvoker_temporary proxy (\<lambda>reply. Inr ()) w ''Set''
            [MI_onInterface ''org.freedesktop.DBus.Properties'',
             MI_withArguments
               [StringArg interfaceName, StringArg (ps_propertyName ps), VariantArg val]]
            False)"

definition PropertySetter_toValue_dont_expect_reply ::
  "'a property_arg IProxy \<Rightarrow> 'a property_arg world \<Rightarrow> 'a option \<Rightarrow> PropertySetter \<Rightarrow>
   unit outcome \<times> 'a property_arg world" where
  "PropertySetter_toValue_dont_expect_reply proxy w val ps =
     (case ps_interfaceName ps of
        None \<Rightarrow> (AssertionFailed, w)
      | Some interfaceName \<Rightarrow>
          MethodInvoker_temporary proxy (\<lambda>reply. Inr ()) w ''Set''
            [MI_onInterface ''org.freedesktop.DBus.Properties'',
             MI_withArguments
               [StringArg interfaceName, StringArg (ps_propertyName ps), VariantArg val],
             MI_dontExpectReply]
            False)"

text \<open>
  \<^verbatim>\<open>AsyncPropertySetter\<close>: \<^verbatim>\<open>toValue\<close> stores the value and asserts nothing; the two
  terminal steps assert that the interface name is set.
\<close>

record 'a AsyncPropertySetter =
  aps_propertyName :: string
  aps_interfaceName :: "string option"
  aps_value :: "'a option"

definition AsyncPropertySetter_ctor :: "string \<Rightarrow> 'a AsyncPropertySetter" where
  "AsyncPropertySetter_ctor propertyName =
     \<lparr>aps_propertyName = propertyName, aps_interfaceName = None, aps_value = None\<rparr>"

definition AsyncPropertySetter_onInterface ::
  "string \<Rightarrow> 'a AsyncPropertySetter \<Rightarrow> unit outcome \<times> 'a AsyncPropertySetter" where
  "AsyncPropertySetter_onInterface interfaceName aps =
     (Returned (), aps\<lparr>aps_interfaceName := Some interfaceName\<rparr>)"

definition AsyncPropertySetter_toValue ::
  "'a option \<Rightarrow> 'a AsyncPropertySetter \<Rightarrow> unit outcome \<times> 'a AsyncPropertySetter" where
  "AsyncPropertySetter_toValue val aps = (Returned (), aps\<lparr>aps_value := val\<rparr>)"

definition AsyncPropertySetter_uponReplyInvoke ::
  "'a property_arg IProxy \<Rightarrow> 'a property_arg world \<Rightarrow> 'a AsyncPropertySetter \<Rightarrow>
   nat outcome \<times> 'a property_arg world" where
  "AsyncPropertySetter_uponReplyInvoke proxy w aps =
     (case aps_interfaceName aps of
        None \<Rightarrow> (AssertionFailed, w)
      | Some interfaceName \<Rightarrow>
          AsyncMethodInvoker_temporary proxy w ''Set''
            [AMI_onInterface ''org.freedesktop.DBus.Properties'',
             AMI_withArguments
               [StringArg interfaceName, StringArg (aps_propertyName aps),
                VariantArg (aps_value aps)]]
            AsyncMethodInvoker_uponReplyInvoke)"

definition AsyncPropertySetter_getResultAsFuture ::
  "'a property_arg IProxy \<Rightarrow> 'a property_arg world \<Rightarrow> 'a AsyncPropertySetter \<Rightarrow>
   unit outcome \<times> 'a property_arg world" where
  "AsyncPropertySetter_getResultAsFuture proxy w aps =
     (case aps_interfaceName aps of
        None \<Rightarrow> (AssertionFailed, w)
      | Some interfaceName \<Rightarrow>
          AsyncMethodInvoker_temporary proxy w ''Set''
            [AMI_onInterface ''org.freedesktop.DBus.Properties'',
             AMI_withArguments
               [StringArg interfaceName, StringArg (aps_propertyName aps),
                VariantArg (aps_value aps)]]
            AsyncMethodInvoker_getResultAsFuture)"

text \<open>\<^verbatim>\<open>AllPropertiesGetter\<close> holds the proxy only.\<close>

definition AllPropertiesGetter_onInterface ::
  "'a property_arg IProxy \<Rightarrow> ('a property_arg message \<Rightarrow> error + 'r) \<Rightarrow>
   'a property_arg world \<Rightarrow> string \<Rightarrow> 'r outcome \<times> 'a property_arg world" where
  "AllPropertiesGetter_onInterface proxy deserialize_pack w interfaceName =
     MethodInvoker_storing_temporary proxy deserialize_pack w ''GetAll''
       [MI_onInterface ''org.freedesktop.DBus.Properties'',
        MI_withArguments [StringArg interfaceName]]"

record AsyncAllPropertiesGetter =
  aapg_interfaceName :: "string option"

definition AsyncAllPropertiesGetter_ctor :: AsyncAllPropertiesGetter where
  "AsyncAllPropertiesGetter_ctor = \<lparr>aapg_interfaceName = None\<rparr>"

definition AsyncAllPropertiesGetter_onInterface ::
  "string \<Rightarrow> AsyncAllPropertiesGetter \<Rightarrow> unit outcome \<times> AsyncAllPropertiesGetter" where
  "AsyncAllPropertiesGetter_onInterface interfaceName aapg =
     (Returned (), aapg\<lparr>aapg_interfaceName := Some interfaceName\<rparr>)"

definition AsyncAllPropertiesGetter_uponReplyInvoke ::
  "'a property_arg IProxy \<Rightarrow> 'a property_arg world \<Rightarrow> AsyncAllPropertiesGetter \<Rightarrow>
   nat outcome \<times> 'a property_arg world" where
  "AsyncAllPropertiesGetter_uponReplyInvoke proxy w aapg =
     (case aapg_interfaceName aapg of
        None \<Rightarrow> (AssertionFailed, w)
      | Some interfaceName \<Rightarrow>
          AsyncMethodInvoker_temporary proxy w ''GetAll''
            [AMI_onInterface ''org.freedesktop.DBus.Properties'',
             AMI_withArguments [StringArg interfaceName]]
            AsyncMethodInvoker_uponReplyInvoke)"

definition AsyncAllPropertiesGetter_getResultAsFuture ::
  "'a property_arg IProxy \<Rightarrow> 'a property_arg world \<Rightarrow> AsyncAllPropertiesGetter \<Rightarrow>
   unit outcome \<times> 'a property_arg world" where
  "AsyncAllPropertiesGetter_getResultAsFuture proxy w aapg =
     (case aapg_interfaceName aapg of
        None \<Rightarrow> (AssertionFailed, w)
      | Some interfaceName \<Rightarrow>
          AsyncMethodInvoker_temporary proxy w ''GetAll''
            [AMI_onInterface ''org.freedesktop.DBus.Properties'',
             AMI_withArguments [StringArg interfaceName]]
            AsyncMethodInvoker_getResultAsFuture)"

subsection \<open>VTableAdder and SignalUnsubscriber\<close>

text \<open>
  The two builders of one step. \<open>addVTable\<close> and \<open>unregisterSignalHandler\<close> stand for the
  members of \<^verbatim>\<open>IObject\<close> and \<^verbatim>\<open>IProxy\<close> of these names, which return or throw; the
  overload of \<^verbatim>\<open>forInterface\<close> with \<^verbatim>\<open>request_slot\<close> returns the slot it is given.
\<close>

record 'i VTableAdder =
  va_vtable :: "'i list"

definition VTableAdder_forInterface ::
  "(string \<Rightarrow> 'i list \<Rightarrow> error option) \<Rightarrow> string \<Rightarrow> 'i VTableAdder \<Rightarrow> unit outcome" where
  "VTableAdder_forInterface addVTable interfaceName va =
     (case addVTable interfaceName (va_vtable va) of
        None \<Rightarrow> Returned ()
      | Some e \<Rightarrow> Thrown e)"

definition VTableAdder_forInterface_request_slot ::
  "(string \<Rightarrow> 'i list \<Rightarrow> error + 's) \<Rightarrow> string \<Rightarrow> 'i VTableAdder \<Rightarrow> 's outcome" where
  "VTableAdder_forInterface_request_slot addVTable interfaceName va =
     (case addVTable interfaceName (va_vtable va) of
        Inr slot \<Rightarrow> Returned slot
      | Inl e \<Rightarrow> Thrown e)"

record SignalUnsubscriber =
  su_signalName :: string

definition SignalUnsubscriber_onInterface ::
  "(string \<Rightarrow> string \<Rightarrow> error option) \<Rightarrow> string \<Rightarrow> SignalUnsubscriber \<Rightarrow> unit outcome" where
  "SignalUnsubscriber_onInterface unregisterSignalHandler interfaceName su =
     (case unregisterSignalHandler interfaceName (su_signalName su) of
        None \<Rightarrow> Returned ()
      | Some e \<Rightarrow> Thrown e)"

subsection \<open>Collaborators that keep their contract\<close>

text \<open>
  Modelled from the spec: \<^verbatim>\<open>createSignal\<close> and \<^verbatim>\<open>createMethodCall\<close> return a valid
  message when they return.
\<close>

definition creates_valid_signals :: "'v IObject \<Rightarrow> bool" where
  "creates_valid_signals object =
     (\<forall>interfaceName signalName signal.
        createSignal object interfaceName signalName = Inr signal \<longrightarrow> isValid signal)"

definition creates_valid_calls :: "'v IProxy \<Rightarrow> bool" where
  "creates_valid_calls proxy =
     (\<forall>interfaceName methodName msg.
        createMethodCall proxy interfaceName methodName = Inr msg \<longrightarrow> isValid msg)"

subsection \<open>Durations that exist\<close>

text \<open>The count is a value of its type: an integral count is a 64-bit signed integer.\<close>

definition valid_duration :: "duration \<Rightarrow> bool" where
  "valid_duration d =
     (case count d of
        Integral c \<Rightarrow> in_int64 c
      | Unsigned64 c \<Rightarrow> True
      | Floating x \<Rightarrow> True)"

subsection \<open>Collaborators for the examples\<close>

text \<open>
  An object and a proxy that create valid messages and never throw (the proxy answers a
  call with the call's own arguments), and a read of an argument tuple that succeeds when
  the message holds as many values as the tuple and otherwise fails before it stores
  anything. The examples below run the builders against them.
\<close>

definition perftests_object :: "string IObject" where
  "perftests_object =
     \<lparr>createSignal = (\<lambda>interfaceName signalName.
        Inr \<lparr>msg_valid = True, msg_interface = interfaceName, msg_member = signalName,
             msg_payload = [], msg_no_reply = False\<rparr>),
      emitSignal = (\<lambda>signal. None)\<rparr>"

definition echo_proxy :: "string IProxy" where
  "echo_proxy =
     \<lparr>createMethodCall = (\<lambda>interfaceName methodName.
        Inr \<lparr>msg_valid = True, msg_interface = interfaceName, msg_member = methodName,
             msg_payload = [], msg_no_reply = False\<rparr>),
      callMethod = (\<lambda>method timeout. Inr method),
      callMethodAsync = (\<lambda>method timeout. Inr 1),
      registerSignalHandler = (\<lambda>interfaceName signalName. None)\<rparr>"

text \<open>The same proxy for the messages of the property builders.\<close>

definition properties_proxy :: "string property_arg IProxy" where
  "properties_proxy =
     \<lparr>createMethodCall = (\<lambda>interfaceName methodName.
        Inr \<lparr>msg_valid = True, msg_interface = interfaceName, msg_member = methodName,
             msg_payload = [], msg_no_reply = False\<rparr>),
      callMethod = (\<lambda>msg timeout. Inr msg),
      callMethodAsync = (\<lambda>msg timeout. Inr 1),
      registerSignalHandler = (\<lambda>interfaceName signalName. None)\<rparr>"

definition read_exactly :: "'v message \<Rightarrow> 'v list \<Rightarrow> (error \<times> 'v list) + 'v list" where
  "read_exactly m args =
     (if length (msg_payload m) = length args then Inr (msg_payload m)
      else Inl (Error ''org.freedesktop.DBus.Error.InvalidArgs'' ''Failed to deserialize'', args))"

text \<open>
  Modelled from the spec: \<^verbatim>\<open>reply >> args\<close> on a tuple is one typed read per element, in
  order, each into its slot of the tuple, and a typed read fails with a deserialization
  error at the premature end of the message. The slots read before the failure keep the
  values read; the others keep what they held.
\<close>

fun read_values :: "'v list \<Rightarrow> 'v list \<Rightarrow> (error \<times> 'v list) + 'v list" where
  "read_values payload [] = Inr []"
| "read_values [] (slot # slots) =
     Inl (Error ''org.freedesktop.DBus.Error.InvalidArgs'' ''Failed to deserialize'',
          slot # slots)"
| "read_values (v # payload) (slot # slots) =
     (case read_values payload slots of
        Inl (e, left) \<Rightarrow> Inl (e, v # left)
      | Inr vals \<Rightarrow> Inr (v # vals))"

definition read_in_order :: "'v message \<Rightarrow> 'v list \<Rightarrow> (error \<times> 'v list) + 'v list" where
  "read_in_order m args = read_values (msg_payload m) args"

section \<open>Properties of the signature engine\<close>

lemma copy_elements_spec:
  "index + length src \<le> length result \<Longrightarrow>
   copy_elements src result index =
     (take index result @ src @ drop (index + length src) result, index + length src)"
proof (induction src arbitrary: result index)
  case Nil
  then show ?case by simp
next
  case (Cons el src)
  have "take index result @ el # drop (Suc index) result = result[index := el]"
    using Cons.prems by (simp add: upd_conv_take_nth_drop)
  then show ?case
    using Cons by (simp add: take_Suc_conv_app_nth upd_conv_take_nth_drop add.commute)
qed

lemma array_plus_append: "array_plus lhs rhs = lhs @ rhs"
  by (simp add: array_plus_def copy_elements_spec)

lemma plus_sig_simps:
  "plus_sig (Some x) (Some y) = Some (x @ y)"
  "plus_sig None b = None"
  "plus_sig a None = None"
  by (simp_all add: plus_sig_def array_plus_append split: option.splits)

lemma fold_left_plus_None: "fold_left_plus None pack = None"
  by (induction pack) (simp_all add: plus_sig_simps)

lemma fold_left_plus_those:
  "fold_left_plus (Some acc) pack = map_option (\<lambda>xs. acc @ concat xs) (those pack)"
proof (induction pack arbitrary: acc)
  case Nil
  then show ?case by simp
next
  case (Cons s pack)
  then show ?case
    by (cases s) (simp_all add: plus_sig_simps fold_left_plus_None option.map_comp comp_def)
qed

lemma fold_right_plus_those:
  "pack \<noteq> [] \<Longrightarrow> fold_right_plus pack = map_option concat (those pack)"
proof (induction pack rule: fold_right_plus.induct)
  case 1
  then show ?case by simp
next
  case (2 s)
  then show ?case by (cases s) simp_all
next
  case (3 s v va)
  then show ?case
    by (cases s; cases v; cases "those va") (simp_all add: plus_sig_simps)
qed

lemma those_eq_Some: "those pack = Some xs \<longleftrightarrow> pack = map Some xs"
  by (induction pack arbitrary: xs) (auto split: option.splits)

lemma those_map_Some: "those (map Some xs) = Some xs"
  by (simp add: those_eq_Some)

lemma those_None: "None \<in> set pack \<Longrightarrow> those pack = None"
  by (induction pack) (auto split: option.splits)

lemma signature_of_StdTuple:
  "signature_of (StdTuple ts) = map_option concat (those (map signature_of ts))"
  by (simp add: fold_left_plus_those)

lemma signature_of_remove_reference: "signature_of (remove_reference t) = signature_of t"
  by (cases t) simp_all

lemma signature_of_decay_unreferenced: "signature_of (decay_unreferenced t) = signature_of t"
  by (cases t) simp_all

lemma signature_of_decay: "signature_of (decay t) = signature_of t"
  by (simp add: decay_def signature_of_decay_unreferenced signature_of_remove_reference)

lemma map_eq_map_Some_member:
  "map f ts = map Some xs \<Longrightarrow> x \<in> set xs \<Longrightarrow> \<exists>t \<in> set ts. f t = Some x"
proof (induction ts arbitrary: xs)
  case Nil
  then show ?case by simp
next
  case (Cons t ts)
  then show ?case by (cases xs) auto
qed

lemma concat_no_nul:
  assumes "map signature_of ts = map Some xs"
    and "\<And>t s. t \<in> set ts \<Longrightarrow> signature_of t = Some s \<Longrightarrow> CHR 0x00 \<notin> set s"
  shows "CHR 0x00 \<notin> set (concat xs)"
proof
  assume "CHR 0x00 \<in> set (concat xs)"
  then obtain x where x: "x \<in> set xs" "CHR 0x00 \<in> set x" by auto
  from map_eq_map_Some_member [OF assms(1) x(1)] obtain t where "t \<in> set ts" "signature_of t = Some x"
    by blast
  with assms(2) x(2) show False by blast
qed

lemma signature_no_nul: "signature_of t = Some s \<Longrightarrow> CHR 0x00 \<notin> set s"
proof (induction t arbitrary: s)
  case (Struct ts)
  show ?case
  proof (cases "ts = []")
    case True
    with Struct.prems show ?thesis by (simp add: plus_sig_simps)
  next
    case False
    with Struct.prems obtain xs where xs: "map signature_of ts = map Some xs" "s = ''('' @ concat xs @ '')''"
      by (cases "those (map signature_of ts)")
         (auto simp: fold_right_plus_those plus_sig_simps those_eq_Some)
    from concat_no_nul [OF xs(1)] Struct.IH have "CHR 0x00 \<notin> set (concat xs)" by blast
    with xs(2) show ?thesis by simp
  qed
next
  case (StdTuple ts)
  from StdTuple.prems obtain xs where xs: "map signature_of ts = map Some xs" "s = concat xs"
    by (cases "those (map signature_of ts)") (auto simp: fold_left_plus_those those_eq_Some)
  from concat_no_nul [OF xs(1)] StdTuple.IH have "CHR 0x00 \<notin> set (concat xs)" by blast
  with xs(2) show ?case by simp
next
  case (DictEntry k v)
  then show ?case
    by (cases "signature_of k"; cases "signature_of v") (auto simp: plus_sig_simps)
next
  case (StdMap k v)
  then show ?case
    by (cases "signature_of k"; cases "signature_of v") (auto simp: plus_sig_simps)
next
  case (StdUnorderedMap k v)
  then show ?case
    by (cases "signature_of k"; cases "signature_of v") (auto simp: plus_sig_simps)
next
  case (StdVector e)
  then show ?case by (cases "signature_of e") (auto simp: plus_sig_simps)
next
  case (StdArray e n)
  then show ?case by (cases "signature_of e") (auto simp: plus_sig_simps)
next
  case (StdSpan e n)
  then show ?case by (cases "signature_of e") (auto simp: plus_sig_simps)
qed auto

lemma string_of_null_terminated:
  "CHR 0x00 \<notin> set s \<Longrightarrow> string_of_c_str (as_null_terminated s) = s"
  unfolding string_of_c_str_def as_null_terminated_def array_plus_append
  by (induction s) auto

lemma list_all2_signature:
  "list_all2 (\<lambda>t s. signature_of t = Some s) ts sigs \<longleftrightarrow> map signature_of ts = map Some sigs"
proof (induction ts arbitrary: sigs)
  case Nil
  then show ?case by auto
next
  case (Cons t ts)
  then show ?case by (cases sigs) auto
qed

lemma tuple_signature_Some:
  "list_all2 (\<lambda>t s. signature_of t = Some s) ts sigs \<Longrightarrow>
   signature_of (StdTuple ts) = Some (concat sigs)"
  by (simp add: list_all2_signature fold_left_plus_those those_map_Some)

lemma tuple_signature_None:
  "\<exists>t \<in> set ts. signature_of t = None \<Longrightarrow> signature_of (StdTuple ts) = None"
proof -
  assume "\<exists>t \<in> set ts. signature_of t = None"
  then have "None \<in> set (map signature_of ts)" by force
  then show ?thesis by (simp add: fold_left_plus_those those_None)
qed

lemma list_all2_signature_decay:
  "list_all2 (\<lambda>t s. signature_of t = Some s) (map decay ts) sigs \<longleftrightarrow>
   list_all2 (\<lambda>t s. signature_of t = Some s) ts sigs"
  by (simp add: list_all2_map1 signature_of_decay)

lemma concat_signatures_no_nul:
  assumes "list_all2 (\<lambda>t s. signature_of t = Some s) ts sigs"
  shows "CHR 0x00 \<notin> set (concat sigs)"
  using signature_no_nul [OF tuple_signature_Some [OF assms]] .

text \<open>
  Claim C5. The signature of an argument list \<^verbatim>\<open>std::tuple<A1, ..., An>\<close> is the
  concatenation of the signatures of \<open>A1\<close>, ..., \<open>An\<close>, with no enclosing parentheses,
  and the empty sequence for the empty list; it has no value as soon as one \<open>Ai\<close> has
  none. The input argument signature of a function is that of its parameter types, and
  the output argument signature of a function returning a tuple that of the tuple, also
  as the string \<^verbatim>\<open>value_as_string()\<close> returns.
\<close>

theorem argument_list_signature:
  "signature_of (StdTuple []) = Some [] \<and>
   (list_all2 (\<lambda>t s. signature_of t = Some s) ts sigs \<longrightarrow>
      signature_of (StdTuple ts) = Some (concat sigs)) \<and>
   ((\<exists>t \<in> set ts. signature_of t = None) \<longrightarrow> signature_of (StdTuple ts) = None) \<and>
   (list_all2 (\<lambda>t s. signature_of t = Some s) (arguments_type f) in_sigs \<longrightarrow>
      signature_of_function_input_arguments f = Some (concat in_sigs) \<and>
      input_value_as_string f = Some (concat in_sigs)) \<and>
   (result_type g = StdTuple results \<and>
    list_all2 (\<lambda>t s. signature_of t = Some s) results out_sigs \<longrightarrow>
      signature_of_function_output_arguments g = Some (concat out_sigs) \<and>
      output_value_as_string g = Some (concat out_sigs))"
proof (intro conjI impI)
  show "signature_of (StdTuple []) = Some []" by simp
next
  assume "list_all2 (\<lambda>t s. signature_of t = Some s) ts sigs"
  then show "signature_of (StdTuple ts) = Some (concat sigs)" by (rule tuple_signature_Some)
next
  assume "\<exists>t \<in> set ts. signature_of t = None"
  then show "signature_of (StdTuple ts) = None" by (rule tuple_signature_None)
next
  assume a: "list_all2 (\<lambda>t s. signature_of t = Some s) (arguments_type f) in_sigs"
  then have d: "list_all2 (\<lambda>t s. signature_of t = Some s) (map decay (arguments_type f)) in_sigs"
    by (simp only: list_all2_signature_decay)
  show "signature_of_function_input_arguments f = Some (concat in_sigs)"
    unfolding signature_of_function_input_arguments_def tuple_of_function_input_arg_types_def
    using d by (rule tuple_signature_Some)
  show "input_value_as_string f = Some (concat in_sigs)"
    unfolding input_value_as_string_def tuple_of_function_input_arg_types_def
    by (simp only: tuple_signature_Some [OF d] option.map
          string_of_null_terminated [OF concat_signatures_no_nul [OF a]])
next
  assume "result_type g = StdTuple results \<and>
    list_all2 (\<lambda>t s. signature_of t = Some s) results out_sigs"
  then have r: "result_type g = StdTuple results"
    and a: "list_all2 (\<lambda>t s. signature_of t = Some s) results out_sigs" by simp_all
  show "signature_of_function_output_arguments g = Some (concat out_sigs)"
    unfolding signature_of_function_output_arguments_def tuple_of_function_output_arg_types_def r
    using a by (rule tuple_signature_Some)
  show "output_value_as_string g = Some (concat out_sigs)"
    unfolding output_value_as_string_def tuple_of_function_output_arg_types_def r
    by (simp only: tuple_signature_Some [OF a] option.map
          string_of_null_terminated [OF concat_signatures_no_nul [OF a]])
qed

text \<open>The theorem of claim C5 at three argument lists and two function types.\<close>

theorem argument_list_signature_witness:
  "list_all2 (\<lambda>t s. signature_of t = Some s) [StdString, Int32, StdVector Bool] [''s'', ''i'', ''ab''] \<and>
   signature_of (StdTuple [StdString, Int32, StdVector Bool]) = Some ''siab'' \<and>
   (\<exists>t \<in> set [Int32, Unsupported ''float'']. signature_of t = None) \<and>
   signature_of (StdTuple [Int32, Unsupported ''float'']) = None \<and>
   list_all2 (\<lambda>t s. signature_of t = Some s)
     (arguments_type (Fn Void [LRef (Const Uint32), LRef (Const Uint32)])) [''u'', ''u''] \<and>
   input_value_as_string (Fn Void [LRef (Const Uint32), LRef (Const Uint32)]) = Some ''uu'' \<and>
   result_type (Fn (StdTuple [Int32, StdString]) []) = StdTuple [Int32, StdString] \<and>
   output_value_as_string (Fn (StdTuple [Int32, StdString]) []) = Some ''is''"
  using argument_list_signature [of "[StdString, Int32, StdVector Bool]" "[''s'', ''i'', ''ab'']"
                 "Fn Void [LRef (Const Uint32), LRef (Const Uint32)]" "[''u'', ''u'']"
                 "Fn (StdTuple [Int32, StdString]) []" "[Int32, StdString]" "[''i'', ''s'']"]
        argument_list_signature [of "[Int32, Unsupported ''float'']"]
  by (simp add: plus_sig_simps)

text \<open>
  Claim C6. The signature of \<^verbatim>\<open>std::map<K, V>\<close> is \<open>a{\<close>, the signature of \<open>K\<close>, the
  signature of \<open>V\<close>, \<open>}\<close> (and there is none when \<open>K\<close> or \<open>V\<close> has none); that of
  \<^verbatim>\<open>std::map<std::string, Variant>\<close> is \<open>a{sv}\<close>; \<^verbatim>\<open>std::unordered_map\<close> has the
  signature of \<^verbatim>\<open>std::map\<close>.
\<close>

theorem map_signature:
  "(signature_of k = Some sk \<and> signature_of v = Some sv \<longrightarrow>
      signature_of (StdMap k v) = Some (''a{'' @ sk @ sv @ ''}'')) \<and>
   (signature_of k = None \<or> signature_of v = None \<longrightarrow> signature_of (StdMap k v) = None) \<and>
   signature_of (StdMap StdString Variant) = Some ''a{sv}'' \<and>
   signature_of (StdUnorderedMap k v) = signature_of (StdMap k v)"
  by (auto simp: plus_sig_simps)

text \<open>
  The theorem of claim C6 at a map from \<^verbatim>\<open>uint32_t\<close> to a vector of strings, and at a
  map to \<^verbatim>\<open>float\<close>.
\<close>

theorem map_signature_witness:
  "signature_of Uint32 = Some ''u'' \<and> signature_of (StdVector StdString) = Some ''as'' \<and>
   signature_of (StdMap Uint32 (StdVector StdString)) = Some ''a{uas}'' \<and>
   signature_of (StdUnorderedMap Uint32 (StdVector StdString)) = Some ''a{uas}'' \<and>
   signature_of (Unsupported ''float'') = None \<and>
   signature_of (StdMap StdString (Unsupported ''float'')) = None"
  using map_signature [of Uint32 "''u''" "StdVector StdString" "''as''"]
    map_signature [of StdString _ "Unsupported ''float''"]
  by (simp add: plus_sig_simps)

text \<open>
  Claim C9. \<^verbatim>\<open>is_valid\<close> of a tuple is false, although its signature value is the
  concatenation of the element signatures; \<^verbatim>\<open>is_valid\<close> of every leaf type and of every
  container type is true.
\<close>

theorem tuple_not_valid:
  "is_valid (StdTuple ts) = False \<and>
   (list_all2 (\<lambda>t s. signature_of t = Some s) ts sigs \<longrightarrow>
      signature_of (StdTuple ts) = Some (concat sigs)) \<and>
   is_valid Void \<and> is_valid Bool \<and> is_valid Uint8 \<and> is_valid Int16 \<and> is_valid Uint16 \<and>
   is_valid Int32 \<and> is_valid Uint32 \<and> is_valid Int64 \<and> is_valid Uint64 \<and> is_valid Double \<and>
   is_valid StdString \<and> is_valid StringView \<and> is_valid CharPtr \<and> is_valid ConstCharPtr \<and>
   is_valid (CharArray n) \<and> is_valid (ConstCharArray n) \<and> is_valid BusName \<and>
   is_valid InterfaceName \<and> is_valid MemberName \<and> is_valid Variant \<and>
   is_valid (StdVariant alternatives) \<and> is_valid ObjectPath \<and> is_valid Signature \<and>
   is_valid UnixFd \<and> is_valid (Struct members) \<and> is_valid (DictEntry k v) \<and>
   is_valid (StdVector e) \<and> is_valid (StdArray e n) \<and> is_valid (StdSpan e n) \<and>
   is_valid (StdMap k v) \<and> is_valid (StdUnorderedMap k v)"
  by (simp add: list_all2_signature fold_left_plus_those those_map_Some)

text \<open>The theorem of claim C9 at the tuple of \<^verbatim>\<open>int32_t\<close> and \<^verbatim>\<open>std::string\<close>.\<close>

theorem tuple_not_valid_witness:
  "list_all2 (\<lambda>t s. signature_of t = Some s) [Int32, StdString] [''i'', ''s''] \<and>
   signature_of (StdTuple [Int32, StdString]) = Some ''is'' \<and>
   \<not> is_valid (StdTuple [Int32, StdString]) \<and>
   is_valid (Struct [Int32, StdString]) \<and> is_valid Int32 \<and> is_valid StdString"
  using tuple_not_valid [of "[Int32, StdString]" "[''i'', ''s'']"]
  by simp


section \<open>Properties of the builder chain\<close>

subsection \<open>Timeouts\<close>

lemma cpp_div_cancel: "0 < g \<Longrightarrow> cpp_div (a * g) (b * g) = cpp_div a b"
  by (simp add: cpp_div_def sgn_mult abs_mult)

lemma cpp_div_one: "cpp_div a 1 = a"
  by (simp add: cpp_div_def sgn_mult_abs)

lemma cpp_div_nonneg: "0 \<le> a \<Longrightarrow> 0 < b \<Longrightarrow> cpp_div a b = a div b"
  by (cases "a = 0") (simp_all add: cpp_div_def)

lemma cpp_div_neg: "a < 0 \<Longrightarrow> 0 < b \<Longrightarrow> cpp_div a b = - ((- a) div b)"
  by (simp add: cpp_div_def)

lemma int_div_le_dividend: "0 \<le> a \<Longrightarrow> a div b \<le> (a :: int)"
  by (cases "a = 0") (simp_all add: int_div_le_self)

lemma cpp_div_between:
  assumes "0 < b"
  shows "(0 \<le> a \<longrightarrow> 0 \<le> cpp_div a b \<and> cpp_div a b \<le> a) \<and>
         (a < 0 \<longrightarrow> a \<le> cpp_div a b \<and> cpp_div a b \<le> 0)"
proof (intro conjI impI)
  assume "0 \<le> a"
  then show "0 \<le> cpp_div a b" "cpp_div a b \<le> a"
    using assms by (simp_all add: cpp_div_nonneg pos_imp_zdiv_nonneg_iff int_div_le_dividend)
next
  assume "a < 0"
  then have "0 \<le> (- a) div b" "(- a) div b \<le> - a"
    using assms by (simp_all add: pos_imp_zdiv_nonneg_iff int_div_le_dividend)
  then show "a \<le> cpp_div a b" "cpp_div a b \<le> 0"
    using \<open>a < 0\<close> assms by (simp_all add: cpp_div_neg)
qed

lemma cpp_div_in_int64: "0 < b \<Longrightarrow> in_int64 a \<Longrightarrow> in_int64 (cpp_div a b)"
  using cpp_div_between [of b a] by (cases "0 \<le> a") (auto simp: in_int64_def)

lemma uint_word_of_int_nonneg:
  "0 \<le> us \<Longrightarrow> in_int64 us \<Longrightarrow> uint (word_of_int us :: 64 word) = us"
  by (simp add: in_int64_def uint_word_of_int)

lemma mod_of_negative: "- M \<le> us \<Longrightarrow> us < 0 \<Longrightarrow> us mod M = us + (M :: int)"
proof -
  assume a: "- M \<le> us" "us < 0"
  have "(us + M) mod M = us + M" by (rule mod_pos_pos_trivial) (use a in auto)
  then show ?thesis by simp
qed

lemma uint_word_of_int_neg:
  "us < 0 \<Longrightarrow> in_int64 us \<Longrightarrow> uint (word_of_int us :: 64 word) = us + 2 ^ 64"
  using mod_of_negative [of "2 ^ 64" us] by (simp add: in_int64_def uint_word_of_int)

lemma conversion_factor_props:
  assumes "0 < period_num d" "0 < period_den d"
  obtains g where "0 < g"
    and "int (period_num d) * 1000000 = fst (conversion_factor d) * g"
    and "int (period_den d) = snd (conversion_factor d) * g"
    and "0 < fst (conversion_factor d)" and "0 < snd (conversion_factor d)"
    and "snd (conversion_factor d) \<le> int (period_den d)"
proof -
  define n where "n = int (period_num d) * 1000000"
  define g where "g = gcd n (int (period_den d))"
  have cf: "fst (conversion_factor d) = n div g" "snd (conversion_factor d) = int (period_den d) div g"
    by (simp_all add: conversion_factor_def Let_def n_def g_def)
  have den_pos: "0 < int (period_den d)" and n_pos: "0 < n"
    using assms by (simp_all add: n_def)
  have g: "0 < g" using den_pos by (simp add: g_def)
  have n: "n = fst (conversion_factor d) * g" by (simp add: cf g_def)
  have den: "int (period_den d) = snd (conversion_factor d) * g" by (simp add: cf g_def)
  have cf_num: "0 < fst (conversion_factor d)" using n n_pos g by (metis zero_less_mult_pos2)
  have cf_den: "0 < snd (conversion_factor d)" using den den_pos g by (metis zero_less_mult_pos2)
  have "snd (conversion_factor d) * 1 \<le> snd (conversion_factor d) * g"
    using g cf_den by (intro mult_left_mono) auto
  then have le: "snd (conversion_factor d) \<le> int (period_den d)"
    by (simp only: den [symmetric] mult_1_right)
  show ?thesis
    using that [OF g n [unfolded n_def] den cf_num cf_den le] .
qed

lemma cast_well_formed:
  "duration_cast_microseconds rnd d = Cast us \<Longrightarrow> well_formed_cast d"
  by (simp add: duration_cast_microseconds_def Let_def split: if_splits)

lemma integral_cast_unfold:
  assumes "well_formed_cast d" "count d = Integral c"
  shows "duration_cast_microseconds rnd d =
     (if fst (conversion_factor d) = 1 \<and> snd (conversion_factor d) = 1 then Cast c
      else if snd (conversion_factor d) = 1 then
        (if in_int64 (c * fst (conversion_factor d)) then Cast (c * fst (conversion_factor d))
         else Undefined)
      else if fst (conversion_factor d) = 1 then Cast (cpp_div c (snd (conversion_factor d)))
      else
        (if in_int64 (c * fst (conversion_factor d))
         then Cast (cpp_div (c * fst (conversion_factor d)) (snd (conversion_factor d)))
         else Undefined))"
  using assms by (simp add: duration_cast_microseconds_def Let_def)

lemma integral_cast_value:
  assumes "count d = Integral c" "duration_cast_microseconds rnd d = Cast us"
  shows "us = cpp_div (c * fst (conversion_factor d)) (snd (conversion_factor d))"
  using assms(2) integral_cast_unfold [OF cast_well_formed [OF assms(2)] assms(1), of rnd]
  by (auto simp: cpp_div_one split: if_splits)

lemma integral_cast_exact:
  assumes "count d = Integral c" "duration_cast_microseconds rnd d = Cast us"
  shows "us = cpp_div (c * int (period_num d) * 1000000) (int (period_den d))"
proof -
  have wf: "well_formed_cast d" using assms(2) by (rule cast_well_formed)
  then have pos: "0 < period_num d" "0 < period_den d" by (simp_all add: well_formed_cast_def)
  from conversion_factor_props [OF pos] obtain g where g: "0 < g"
    and n: "int (period_num d) * 1000000 = fst (conversion_factor d) * g"
    and den: "int (period_den d) = snd (conversion_factor d) * g"
    by blast
  have "c * int (period_num d) * 1000000 = c * (int (period_num d) * 1000000)"
    by (simp only: mult.assoc)
  also have "\<dots> = c * (fst (conversion_factor d) * g)" by (simp only: n)
  finally have e: "c * int (period_num d) * 1000000 = c * fst (conversion_factor d) * g"
    by (simp only: mult.assoc)
  have "cpp_div (c * int (period_num d) * 1000000) (int (period_den d)) =
        cpp_div (c * fst (conversion_factor d) * g) (snd (conversion_factor d) * g)"
    by (simp only: e den [symmetric])
  also have "\<dots> = cpp_div (c * fst (conversion_factor d)) (snd (conversion_factor d))"
    using g by (rule cpp_div_cancel)
  finally show ?thesis using integral_cast_value [OF assms] by simp
qed

lemma integral_cast_defined:
  assumes "well_formed_cast d" "count d = Integral c"
    and "in_int64 (c * fst (conversion_factor d))"
  shows "\<exists>us. duration_cast_microseconds rnd d = Cast us"
  using integral_cast_unfold [OF assms(1,2), of rnd] assms(3) by simp

lemma cast_in_int64:
  assumes "valid_duration d" "duration_cast_microseconds rnd d = Cast us"
  shows "in_int64 us"
proof -
  have wf: "well_formed_cast d" using assms(2) by (rule cast_well_formed)
  then have pos: "0 < period_num d" "0 < period_den d" by (simp_all add: well_formed_cast_def)
  from conversion_factor_props [OF pos] have cf_den: "0 < snd (conversion_factor d)"
    by blast
  show ?thesis
  proof (cases "count d")
    case (Integral c)
    with assms(1) have c: "in_int64 c" by (simp add: valid_duration_def)
    have bound: "in_int64 a \<Longrightarrow> in_int64 (cpp_div a (snd (conversion_factor d)))" for a
      using cf_den by (rule cpp_div_in_int64)
    from assms(2) integral_cast_unfold [OF wf Integral, of rnd] c show ?thesis
      by (auto simp: bound split: if_splits)
  next
    case (Unsigned64 c)
    have "in_int64 (sint w)" for w :: "64 word"
      using sint_ge [of w] sint_lt [of w] by (simp add: in_int64_def)
    with assms(2) wf Unsigned64 show ?thesis
      by (auto simp: duration_cast_microseconds_def Let_def)
  next
    case (Floating x)
    with assms(2) wf show ?thesis
      by (auto simp: duration_cast_microseconds_def Let_def split: if_splits)
  qed
qed

lemma sub_microsecond_cast:
  assumes "well_formed_cast d" "count d = Integral c" "0 < c"
    and "c * int (period_num d) * 1000000 < int (period_den d)"
  shows "duration_cast_microseconds rnd d = Cast 0"
proof -
  have pos: "0 < period_num d" "0 < period_den d" and den64: "in_int64 (int (period_den d))"
    using assms(1) by (simp_all add: well_formed_cast_def)
  from conversion_factor_props [OF pos] obtain g where g: "0 < g"
    and n: "int (period_num d) * 1000000 = fst (conversion_factor d) * g"
    and den: "int (period_den d) = snd (conversion_factor d) * g"
    and cf_num: "0 < fst (conversion_factor d)" and cf_den: "0 < snd (conversion_factor d)"
    and le: "snd (conversion_factor d) \<le> int (period_den d)"
    by blast
  let ?num = "fst (conversion_factor d)" and ?den = "snd (conversion_factor d)"
  have "c * int (period_num d) * 1000000 = c * ?num * g"
    using n by (simp add: mult.assoc)
  with assms(4) den have "c * ?num * g < ?den * g" by simp
  then have less: "c * ?num < ?den" using g by simp
  have nonneg: "0 \<le> c * ?num" using assms(3) cf_num by simp
  from less nonneg le den64 have range: "in_int64 (c * ?num)"
    by (simp add: in_int64_def)
  have zero: "cpp_div (c * ?num) ?den = 0"
    using less nonneg cf_den by (simp add: cpp_div_nonneg)
  have not1: "?den \<noteq> 1"
  proof
    assume "?den = 1"
    with less nonneg have "c * ?num = 0" by arith
    with assms(3) cf_num show False by simp
  qed
  show ?thesis
    using integral_cast_unfold [OF assms(1,2), of rnd] not1 range zero
    by (cases "?num = 1") simp_all
qed

lemma unsigned_cast_defined:
  "well_formed_cast d \<Longrightarrow> count d = Unsigned64 c \<Longrightarrow>
   \<exists>us. duration_cast_microseconds rnd d = Cast us"
  by (simp add: duration_cast_microseconds_def Let_def)

lemma unsigned_cast_exact:
  assumes "count d = Unsigned64 c" "duration_cast_microseconds rnd d = Cast us"
    and "uint c * fst (conversion_factor d) < 2 ^ 64"
  shows "uint (word_of_int us :: 64 word) =
           (uint c * int (period_num d) * 1000000) div int (period_den d)"
proof -
  have wf: "well_formed_cast d" using assms(2) by (rule cast_well_formed)
  then have pos: "0 < period_num d" "0 < period_den d" and den64: "in_int64 (int (period_den d))"
    and num64: "in_int64 (fst (conversion_factor d))"
    by (simp_all add: well_formed_cast_def)
  from conversion_factor_props [OF pos] obtain g where g: "0 < g"
    and n: "int (period_num d) * 1000000 = fst (conversion_factor d) * g"
    and den: "int (period_den d) = snd (conversion_factor d) * g"
    and cf_num: "0 < fst (conversion_factor d)" and cf_den: "0 < snd (conversion_factor d)"
    and le: "snd (conversion_factor d) \<le> int (period_den d)"
    by blast
  let ?num = "fst (conversion_factor d)" and ?den = "snd (conversion_factor d)"
  have unum: "uint (word_of_int ?num :: 64 word) = ?num"
    using cf_num num64 by (simp add: uint_word_of_int_nonneg)
  have "in_int64 ?den" using cf_den le den64 by (simp add: in_int64_def)
  then have uden: "uint (word_of_int ?den :: 64 word) = ?den"
    using cf_den by (simp add: uint_word_of_int_nonneg)
  have prod: "uint (c * word_of_int ?num) = uint c * ?num"
    using assms(3) unum uint_mult_lem [of c "word_of_int ?num :: 64 word"] by simp
  have quot: "uint (c * word_of_int ?num div word_of_int ?den) = uint c * ?num div ?den"
    by (simp add: uint_div prod uden)
  have quot1: "uint (c div word_of_int ?den) = uint c div ?den"
    by (simp add: uint_div uden)
  define w :: "64 word" where "w =
    (if ?num = 1 \<and> ?den = 1 then c
     else if ?den = 1 then c * word_of_int ?num
     else if ?num = 1 then c div word_of_int ?den
     else c * word_of_int ?num div word_of_int ?den)"
  have us: "us = sint w"
    using assms(1,2) wf by (simp add: duration_cast_microseconds_def Let_def w_def)
  have "uint w = uint c * ?num div ?den"
    unfolding w_def using prod quot quot1 by auto
  also have "\<dots> = (uint c * ?num * g) div (?den * g)"
    using g by simp
  also have "\<dots> = (uint c * int (period_num d) * 1000000) div int (period_den d)"
    using n den by (simp add: mult.assoc)
  finally show ?thesis by (simp add: us)
qed

lemma floating_microseconds_exact:
  "floating_microseconds (\<lambda>r. r) cf_num cf_den x = x * of_int cf_num / of_int cf_den"
  by (simp add: floating_microseconds_def)

lemma floating_cast_value:
  assumes "count d = Floating x" "duration_cast_microseconds rnd d = Cast us"
  shows "us = cpp_trunc (floating_microseconds rnd (fst (conversion_factor d))
           (snd (conversion_factor d)) x)"
  using assms cast_well_formed [OF assms(2)]
  by (simp add: duration_cast_microseconds_def Let_def split: if_splits)

lemma exact_ratio:
  assumes "well_formed_cast d"
  shows "x * of_int (fst (conversion_factor d)) / of_int (snd (conversion_factor d)) =
         x * real (period_num d) * 1000000 / real (period_den d)"
proof -
  have pos: "0 < period_num d" "0 < period_den d"
    using assms by (simp_all add: well_formed_cast_def)
  from conversion_factor_props [OF pos] obtain g where g: "0 < g"
    and n: "int (period_num d) * 1000000 = fst (conversion_factor d) * g"
    and den: "int (period_den d) = snd (conversion_factor d) * g"
    by blast
  have "real (period_num d) * 1000000 = of_int (int (period_num d) * 1000000)" by simp
  also have "\<dots> = of_int (fst (conversion_factor d)) * of_int g" unfolding n by simp
  finally have n': "real (period_num d) * 1000000 = of_int (fst (conversion_factor d)) * of_int g" .
  have "real (period_den d) = of_int (int (period_den d))" by simp
  also have "\<dots> = of_int (snd (conversion_factor d)) * of_int g" unfolding den by simp
  finally have den': "real (period_den d) = of_int (snd (conversion_factor d)) * of_int g" .
  have "x * real (period_num d) * 1000000 / real (period_den d) =
        (x * of_int (fst (conversion_factor d)) * of_int g) /
        (of_int (snd (conversion_factor d)) * of_int g)"
    using n' den' by (simp add: mult.assoc)
  also have "\<dots> = x * of_int (fst (conversion_factor d)) / of_int (snd (conversion_factor d))"
    using g by simp
  finally show ?thesis by simp
qed

lemma floating_cast_exact:
  assumes "count d = Floating x" "duration_cast_microseconds (\<lambda>r. r) d = Cast us"
  shows "us = cpp_trunc (x * real (period_num d) * 1000000 / real (period_den d))"
  using floating_cast_value [OF assms] exact_ratio [OF cast_well_formed [OF assms(2)], of x]
  by (simp add: floating_microseconds_exact)

lemma cpp_trunc_zero: "0 \<le> v \<Longrightarrow> v < 1 \<Longrightarrow> cpp_trunc v = 0"
  by (simp add: cpp_trunc_def floor_eq_iff)

lemma cpp_trunc_small: "\<bar>v\<bar> < 1 \<Longrightarrow> cpp_trunc v = 0"
  by (auto simp: cpp_trunc_def floor_eq_iff ceiling_eq_iff)

lemma floating_sub_microsecond:
  assumes "well_formed_cast d" "count d = Floating x" "0 \<le> x"
    and "x * real (period_num d) * 1000000 < real (period_den d)"
  shows "duration_cast_microseconds (\<lambda>r. r) d = Cast 0"
proof -
  have pos: "0 < period_den d" using assms(1) by (simp add: well_formed_cast_def)
  let ?v = "x * real (period_num d) * 1000000 / real (period_den d)"
  have "0 \<le> ?v" using assms(3) by simp
  moreover have "?v < 1" using assms(4) pos by simp
  ultimately have "cpp_trunc ?v = 0" by (rule cpp_trunc_zero)
  then have "cpp_trunc (floating_microseconds (\<lambda>r. r) (fst (conversion_factor d))
      (snd (conversion_factor d)) x) = 0"
    by (simp add: floating_microseconds_exact exact_ratio [OF assms(1)])
  then show ?thesis
    using assms(1,2) by (simp add: duration_cast_microseconds_def Let_def in_int64_def)
qed

text \<open>
  Claim C10, as amended. When the conversion is defined, \<^verbatim>\<open>withTimeout\<close> of \<^verbatim>\<open>MethodInvoker\<close>
  and of \<^verbatim>\<open>AsyncMethodInvoker\<close> stores the count of microseconds converted to \<^verbatim>\<open>uint64_t\<close>:
  the count itself when it is not negative, the count plus \<open>2\<^sup>6\<^sup>4\<close> when it is negative; a
  count of 0 leaves a fresh builder as it was. For an integral count computed in
  \<^verbatim>\<open>int64_t\<close> the count of microseconds is the exact value truncated towards zero, it is
  defined when the product by \<open>CF::num\<close> does not overflow, and a positive duration shorter
  than one microsecond gives 0. For a \<^verbatim>\<open>uint64_t\<close> count the conversion is always defined
  and stores the exact value truncated when the product does not wrap. For a
  floating-point count the count of microseconds is the value computed in floating-point
  arithmetic truncated towards zero, 0 when that value is less than 1 in magnitude; it is
  the exact value truncated when no operation rounds, and then a duration of less than one
  microsecond that is not negative gives 0. A period whose quotient by \<^verbatim>\<open>std::micro\<close> is
  not a ratio of two \<^verbatim>\<open>intmax_t\<close> does not compile.
\<close>

theorem withTimeout_duration:
  "(valid_duration d \<and> duration_cast_microseconds rnd d = Cast us \<longrightarrow>
      MethodInvoker_withTimeout_duration rnd d mi =
        Cast (Returned (), mi\<lparr>mi_timeout := word_of_int us\<rparr>) \<and>
      AsyncMethodInvoker_withTimeout_duration rnd d ami =
        Cast (Returned (), ami\<lparr>ami_timeout := word_of_int us\<rparr>) \<and>
      (0 \<le> us \<longrightarrow> uint (word_of_int us :: 64 word) = us) \<and>
      (us < 0 \<longrightarrow> uint (word_of_int us :: 64 word) = us + 2 ^ 64) \<and>
      (us = 0 \<longrightarrow>
         MethodInvoker_withTimeout_duration rnd d (MethodInvoker_ctor w methodName) =
           Cast (Returned (), MethodInvoker_ctor w methodName) \<and>
         AsyncMethodInvoker_withTimeout_duration rnd d (AsyncMethodInvoker_ctor methodName) =
           Cast (Returned (), AsyncMethodInvoker_ctor methodName))) \<and>
   (count d = Integral c \<and> duration_cast_microseconds rnd d = Cast us \<longrightarrow>
      us = cpp_div (c * int (period_num d) * 1000000) (int (period_den d)) \<and>
      (0 \<le> c \<longrightarrow> 0 \<le> us)) \<and>
   (well_formed_cast d \<and> count d = Integral c \<and> in_int64 (c * fst (conversion_factor d)) \<longrightarrow>
      (\<exists>us'. duration_cast_microseconds rnd d = Cast us')) \<and>
   (well_formed_cast d \<and> count d = Integral c \<and> 0 < c \<and>
    c * int (period_num d) * 1000000 < int (period_den d) \<longrightarrow>
      duration_cast_microseconds rnd d = Cast 0) \<and>
   (well_formed_cast d \<and> count d = Unsigned64 u \<longrightarrow>
      (\<exists>us'. duration_cast_microseconds rnd d = Cast us')) \<and>
   (count d = Unsigned64 u \<and> duration_cast_microseconds rnd d = Cast us \<and>
    uint u * fst (conversion_factor d) < 2 ^ 64 \<longrightarrow>
      uint (word_of_int us :: 64 word) =
        (uint u * int (period_num d) * 1000000) div int (period_den d)) \<and>
   (count d = Floating x \<and> duration_cast_microseconds rnd d = Cast us \<longrightarrow>
      us = cpp_trunc (floating_microseconds rnd (fst (conversion_factor d))
             (snd (conversion_factor d)) x) \<and>
      (\<bar>floating_microseconds rnd (fst (conversion_factor d))
          (snd (conversion_factor d)) x\<bar> < 1 \<longrightarrow> us = 0)) \<and>
   (count d = Floating x \<and> duration_cast_microseconds (\<lambda>r. r) d = Cast us \<longrightarrow>
      us = cpp_trunc (x * real (period_num d) * 1000000 / real (period_den d))) \<and>
   (well_formed_cast d \<and> count d = Floating x \<and> 0 \<le> x \<and>
    x * real (period_num d) * 1000000 < real (period_den d) \<longrightarrow>
      duration_cast_microseconds (\<lambda>r. r) d = Cast 0) \<and>
   (\<not> well_formed_cast d \<longrightarrow>
      duration_cast_microseconds rnd d = IllFormed \<and>
      MethodInvoker_withTimeout_duration rnd d mi = IllFormed \<and>
      AsyncMethodInvoker_withTimeout_duration rnd d ami = IllFormed)"
proof -
  have stored: "valid_duration d \<and> duration_cast_microseconds rnd d = Cast us \<longrightarrow>
      MethodInvoker_withTimeout_duration rnd d mi =
        Cast (Returned (), mi\<lparr>mi_timeout := word_of_int us\<rparr>) \<and>
      AsyncMethodInvoker_withTimeout_duration rnd d ami =
        Cast (Returned (), ami\<lparr>ami_timeout := word_of_int us\<rparr>) \<and>
      (0 \<le> us \<longrightarrow> uint (word_of_int us :: 64 word) = us) \<and>
      (us < 0 \<longrightarrow> uint (word_of_int us :: 64 word) = us + 2 ^ 64) \<and>
      (us = 0 \<longrightarrow>
         MethodInvoker_withTimeout_duration rnd d (MethodInvoker_ctor w methodName) =
           Cast (Returned (), MethodInvoker_ctor w methodName) \<and>
         AsyncMethodInvoker_withTimeout_duration rnd d (AsyncMethodInvoker_ctor methodName) =
           Cast (Returned (), AsyncMethodInvoker_ctor methodName))"
  proof (intro impI, elim conjE)
    assume v: "valid_duration d" and c: "duration_cast_microseconds rnd d = Cast us"
    have range: "in_int64 us" using v c by (rule cast_in_int64)
    show "MethodInvoker_withTimeout_duration rnd d mi =
        Cast (Returned (), mi\<lparr>mi_timeout := word_of_int us\<rparr>) \<and>
      AsyncMethodInvoker_withTimeout_duration rnd d ami =
        Cast (Returned (), ami\<lparr>ami_timeout := word_of_int us\<rparr>) \<and>
      (0 \<le> us \<longrightarrow> uint (word_of_int us :: 64 word) = us) \<and>
      (us < 0 \<longrightarrow> uint (word_of_int us :: 64 word) = us + 2 ^ 64) \<and>
      (us = 0 \<longrightarrow>
         MethodInvoker_withTimeout_duration rnd d (MethodInvoker_ctor w methodName) =
           Cast (Returned (), MethodInvoker_ctor w methodName) \<and>
         AsyncMethodInvoker_withTimeout_duration rnd d (AsyncMethodInvoker_ctor methodName) =
           Cast (Returned (), AsyncMethodInvoker_ctor methodName))"
    proof (intro conjI impI)
      show "MethodInvoker_withTimeout_duration rnd d mi =
          Cast (Returned (), mi\<lparr>mi_timeout := word_of_int us\<rparr>)"
        by (simp add: MethodInvoker_withTimeout_duration_def MethodInvoker_withTimeout_def c)
      show "AsyncMethodInvoker_withTimeout_duration rnd d ami =
          Cast (Returned (), ami\<lparr>ami_timeout := word_of_int us\<rparr>)"
        by (simp add: AsyncMethodInvoker_withTimeout_duration_def
              AsyncMethodInvoker_withTimeout_def c)
      show "uint (word_of_int us :: 64 word) = us" if "0 \<le> us"
        using that range by (rule uint_word_of_int_nonneg)
      show "uint (word_of_int us :: 64 word) = us + 2 ^ 64" if "us < 0"
        using that range by (rule uint_word_of_int_neg)
      show "MethodInvoker_withTimeout_duration rnd d (MethodInvoker_ctor w methodName) =
          Cast (Returned (), MethodInvoker_ctor w methodName)" if "us = 0"
        using that c
        by (simp add: MethodInvoker_withTimeout_duration_def MethodInvoker_withTimeout_def
              MethodInvoker_ctor_def)
      show "AsyncMethodInvoker_withTimeout_duration rnd d (AsyncMethodInvoker_ctor methodName) =
          Cast (Returned (), AsyncMethodInvoker_ctor methodName)" if "us = 0"
        using that c
        by (simp add: AsyncMethodInvoker_withTimeout_duration_def
              AsyncMethodInvoker_withTimeout_def AsyncMethodInvoker_ctor_def)
    qed
  qed
  have integral: "count d = Integral c \<and> duration_cast_microseconds rnd d = Cast us \<longrightarrow>
      us = cpp_div (c * int (period_num d) * 1000000) (int (period_den d)) \<and>
      (0 \<le> c \<longrightarrow> 0 \<le> us)"
  proof (intro impI, elim conjE)
    assume i: "count d = Integral c" and c: "duration_cast_microseconds rnd d = Cast us"
    have exact: "us = cpp_div (c * int (period_num d) * 1000000) (int (period_den d))"
      using i c by (rule integral_cast_exact)
    have "0 < period_den d" using cast_well_formed [OF c] by (simp add: well_formed_cast_def)
    then have den: "0 < int (period_den d)" by simp
    have "0 \<le> us" if "0 \<le> c"
      using cpp_div_between [OF den, of "c * int (period_num d) * 1000000"] that exact
      by simp
    with exact show "us = cpp_div (c * int (period_num d) * 1000000) (int (period_den d)) \<and>
      (0 \<le> c \<longrightarrow> 0 \<le> us)" by simp
  qed
  have integral_defined:
    "well_formed_cast d \<and> count d = Integral c \<and> in_int64 (c * fst (conversion_factor d)) \<longrightarrow>
      (\<exists>us'. duration_cast_microseconds rnd d = Cast us')"
    using integral_cast_defined by blast
  have integral_sub:
    "well_formed_cast d \<and> count d = Integral c \<and> 0 < c \<and>
     c * int (period_num d) * 1000000 < int (period_den d) \<longrightarrow>
      duration_cast_microseconds rnd d = Cast 0"
    using sub_microsecond_cast by blast
  have unsigned_defined: "well_formed_cast d \<and> count d = Unsigned64 u \<longrightarrow>
      (\<exists>us'. duration_cast_microseconds rnd d = Cast us')"
    using unsigned_cast_defined by blast
  have unsigned: "count d = Unsigned64 u \<and> duration_cast_microseconds rnd d = Cast us \<and>
    uint u * fst (conversion_factor d) < 2 ^ 64 \<longrightarrow>
      uint (word_of_int us :: 64 word) =
        (uint u * int (period_num d) * 1000000) div int (period_den d)"
    using unsigned_cast_exact by blast
  have floating: "count d = Floating x \<and> duration_cast_microseconds rnd d = Cast us \<longrightarrow>
      us = cpp_trunc (floating_microseconds rnd (fst (conversion_factor d))
             (snd (conversion_factor d)) x) \<and>
      (\<bar>floating_microseconds rnd (fst (conversion_factor d))
          (snd (conversion_factor d)) x\<bar> < 1 \<longrightarrow> us = 0)"
  proof (intro impI, elim conjE)
    assume f: "count d = Floating x" and c: "duration_cast_microseconds rnd d = Cast us"
    note v = floating_cast_value [OF f c]
    then show "us = cpp_trunc (floating_microseconds rnd (fst (conversion_factor d))
             (snd (conversion_factor d)) x) \<and>
      (\<bar>floating_microseconds rnd (fst (conversion_factor d))
          (snd (conversion_factor d)) x\<bar> < 1 \<longrightarrow> us = 0)"
      by (simp add: cpp_trunc_small)
  qed
  have floating_exact:
    "count d = Floating x \<and> duration_cast_microseconds (\<lambda>r. r) d = Cast us \<longrightarrow>
      us = cpp_trunc (x * real (period_num d) * 1000000 / real (period_den d))"
    using floating_cast_exact by blast
  have floating_sub: "well_formed_cast d \<and> count d = Floating x \<and> 0 \<le> x \<and>
    x * real (period_num d) * 1000000 < real (period_den d) \<longrightarrow>
      duration_cast_microseconds (\<lambda>r. r) d = Cast 0"
    using floating_sub_microsecond by blast
  have ill_formed: "\<not> well_formed_cast d \<longrightarrow>
      duration_cast_microseconds rnd d = IllFormed \<and>
      MethodInvoker_withTimeout_duration rnd d mi = IllFormed \<and>
      AsyncMethodInvoker_withTimeout_duration rnd d ami = IllFormed"
    by (simp add: duration_cast_microseconds_def MethodInvoker_withTimeout_duration_def
          AsyncMethodInvoker_withTimeout_duration_def Let_def)
  show ?thesis
    by (intro conjI)
       (rule stored, rule integral, rule integral_defined, rule integral_sub,
        rule unsigned_defined, rule unsigned, rule floating, rule floating_exact,
        rule floating_sub, rule ill_formed)
qed

lemma cast_999ns:
  "duration_cast_microseconds rnd
     \<lparr>count = Integral 999, period_num = 1, period_den = 1000000000\<rparr> = Cast 0"
  by (simp add: duration_cast_microseconds_def conversion_factor_def well_formed_cast_def
        in_int64_def cpp_div_def)

lemma cast_2500us_in_ns:
  "duration_cast_microseconds rnd
     \<lparr>count = Integral 2500999, period_num = 1, period_den = 1000000000\<rparr> = Cast 2500"
  by (simp add: duration_cast_microseconds_def conversion_factor_def well_formed_cast_def
        in_int64_def cpp_div_def)

lemma cast_minus_1500ns:
  "duration_cast_microseconds rnd
     \<lparr>count = Integral (- 1500), period_num = 1, period_den = 1000000000\<rparr> = Cast (- 1)"
  by (simp add: duration_cast_microseconds_def conversion_factor_def well_formed_cast_def
        in_int64_def cpp_div_def)

lemma cast_3ms_unsigned:
  "duration_cast_microseconds rnd
     \<lparr>count = Unsigned64 3, period_num = 1, period_den = 1000\<rparr> = Cast 3000"
  by (simp add: duration_cast_microseconds_def conversion_factor_def well_formed_cast_def
        in_int64_def)

lemma cast_2500us_in_floating_ms:
  "duration_cast_microseconds (\<lambda>r. r)
     \<lparr>count = Floating (5 / 2), period_num = 1, period_den = 1000\<rparr> = Cast 2500"
  by (simp add: duration_cast_microseconds_def conversion_factor_def well_formed_cast_def
        in_int64_def floating_microseconds_def cpp_trunc_def)

text \<open>
  The theorem of claim C10 at 999 ns, 2500999 ns and -1500 ns with integral counts, at 3 ms
  with a \<^verbatim>\<open>uint64_t\<close> count, at half a microsecond and at 2.5 ms with floating-point counts
  in exact arithmetic, and at a period of \<open>2\<^sup>6\<^sup>2\<close> seconds.
\<close>

theorem withTimeout_duration_witness:
  "duration_cast_microseconds (\<lambda>r. r)
     \<lparr>count = Integral 999, period_num = 1, period_den = 1000000000\<rparr> = Cast 0 \<and>
   MethodInvoker_withTimeout_duration (\<lambda>r. r)
     \<lparr>count = Integral 999, period_num = 1, period_den = 1000000000\<rparr>
     (MethodInvoker_ctor \<lparr>uncaught_exceptions = 0, calls = [] :: string call list\<rparr> ''Ping'') =
   Cast (Returned (), MethodInvoker_ctor \<lparr>uncaught_exceptions = 0, calls = []\<rparr> ''Ping'') \<and>
   duration_cast_microseconds (\<lambda>r. r)
     \<lparr>count = Integral 2500999, period_num = 1, period_den = 1000000000\<rparr> = Cast 2500 \<and>
   uint (word_of_int 2500 :: 64 word) = 2500 \<and>
   duration_cast_microseconds (\<lambda>r. r)
     \<lparr>count = Integral (- 1500), period_num = 1, period_den = 1000000000\<rparr> = Cast (- 1) \<and>
   uint (word_of_int (- 1) :: 64 word) = - 1 + 2 ^ 64 \<and>
   duration_cast_microseconds (\<lambda>r. r)
     \<lparr>count = Unsigned64 3, period_num = 1, period_den = 1000\<rparr> = Cast 3000 \<and>
   uint (word_of_int 3000 :: 64 word) = 3000 \<and>
   duration_cast_microseconds (\<lambda>r. r)
     \<lparr>count = Floating (1 / 2000000), period_num = 1, period_den = 1\<rparr> = Cast 0 \<and>
   duration_cast_microseconds (\<lambda>r. r)
     \<lparr>count = Floating (5 / 2), period_num = 1, period_den = 1000\<rparr> = Cast 2500 \<and>
   cpp_trunc (5 / 2 * 1000) = 2500 \<and>
   cpp_trunc (floating_microseconds (\<lambda>r. r) 1000 1 (5 / 2)) = 2500 \<and>
   duration_cast_microseconds (\<lambda>r. r)
     \<lparr>count = Integral 0, period_num = 4611686018427387904, period_den = 1\<rparr> = IllFormed"
proof -
  let ?w = "\<lparr>uncaught_exceptions = 0, calls = [] :: string call list\<rparr>"
  let ?mi = "MethodInvoker_ctor ?w ''Ping''"
  let ?ami = "AsyncMethodInvoker_ctor ''Ping'' :: string AsyncMethodInvoker"
  let ?short = "\<lparr>count = Integral 999, period_num = 1, period_den = 1000000000\<rparr>"
  let ?long = "\<lparr>count = Integral 2500999, period_num = 1, period_den = 1000000000\<rparr>"
  let ?neg = "\<lparr>count = Integral (- 1500), period_num = 1, period_den = 1000000000\<rparr>"
  let ?ms = "\<lparr>count = Unsigned64 3, period_num = 1, period_den = 1000\<rparr>"
  let ?half = "\<lparr>count = Floating (1 / 2000000), period_num = 1, period_den = 1\<rparr>"
  let ?fms = "\<lparr>count = Floating (5 / 2), period_num = 1, period_den = 1000\<rparr>"
  let ?huge = "\<lparr>count = Integral 0, period_num = 4611686018427387904, period_den = 1\<rparr>"
  note at_short = withTimeout_duration [where rnd = "\<lambda>r. r" and mi = ?mi and ami = ?ami and w = ?w
      and methodName = "''Ping''" and d = ?short and us = 0 and c = 999]
  note at_long = withTimeout_duration [where rnd = "\<lambda>r. r" and mi = ?mi and ami = ?ami and w = ?w
      and methodName = "''Ping''" and d = ?long and us = 2500]
  note at_neg = withTimeout_duration [where rnd = "\<lambda>r. r" and mi = ?mi and ami = ?ami and w = ?w
      and methodName = "''Ping''" and d = ?neg and us = "- 1"]
  note at_ms = withTimeout_duration [where rnd = "\<lambda>r. r" and mi = ?mi and ami = ?ami and w = ?w
      and methodName = "''Ping''" and d = ?ms and u = 3 and us = 3000]
  note at_half = withTimeout_duration [where rnd = "\<lambda>r. r" and mi = ?mi and ami = ?ami and w = ?w
      and methodName = "''Ping''" and d = ?half and x = "1 / 2000000"]
  note at_fms = withTimeout_duration [where rnd = "\<lambda>r. r" and mi = ?mi and ami = ?ami and w = ?w
      and methodName = "''Ping''" and d = ?fms and x = "5 / 2" and us = 2500]
  note at_huge = withTimeout_duration [where rnd = "\<lambda>r. r" and mi = ?mi and ami = ?ami and w = ?w
      and methodName = "''Ping''" and d = ?huge]
  have short: "well_formed_cast ?short \<and> count ?short = Integral 999 \<and> (0 :: int) < 999 \<and>
      999 * int (period_num ?short) * 1000000 < int (period_den ?short)"
    by (simp add: well_formed_cast_def conversion_factor_def in_int64_def)
  note 1 = at_short [THEN conjunct2, THEN conjunct2, THEN conjunct2, THEN conjunct1, THEN mp, OF short]
  have valid_short: "valid_duration ?short" by (simp add: valid_duration_def in_int64_def)
  have zero: "(0 :: int) = 0" by simp
  note 2 = at_short [THEN conjunct1, THEN mp, OF conjI [OF valid_short 1],
      THEN conjunct2, THEN conjunct2, THEN conjunct2, THEN conjunct2, THEN mp, OF zero,
      THEN conjunct1]
  note 3 = cast_2500us_in_ns [of "\<lambda>r. r"]
  have valid_long: "valid_duration ?long" by (simp add: valid_duration_def in_int64_def)
  have nonneg: "(0 :: int) \<le> 2500" by simp
  note 4 = at_long [THEN conjunct1, THEN mp, OF conjI [OF valid_long 3],
      THEN conjunct2, THEN conjunct2, THEN conjunct1, THEN mp, OF nonneg]
  note 5 = cast_minus_1500ns [of "\<lambda>r. r"]
  have valid_neg: "valid_duration ?neg" by (simp add: valid_duration_def in_int64_def)
  have neg: "(- 1 :: int) < 0" by simp
  note 6 = at_neg [THEN conjunct1, THEN mp, OF conjI [OF valid_neg 5],
      THEN conjunct2, THEN conjunct2, THEN conjunct2, THEN conjunct1, THEN mp, OF neg]
  note 7 = cast_3ms_unsigned [of "\<lambda>r. r"]
  have ms: "count ?ms = Unsigned64 3" by simp
  have small: "uint (3 :: 64 word) * fst (conversion_factor ?ms) < 2 ^ 64"
    by (simp add: conversion_factor_def)
  from at_ms [THEN conjunct2, THEN conjunct2, THEN conjunct2, THEN conjunct2, THEN conjunct2, THEN conjunct1, THEN mp,
      OF conjI [OF ms conjI [OF 7 small]]]
  have 8: "uint (word_of_int 3000 :: 64 word) = 3000"
    by simp
  have half: "well_formed_cast ?half \<and> count ?half = Floating (1 / 2000000) \<and>
      (0 :: real) \<le> 1 / 2000000 \<and>
      1 / 2000000 * real (period_num ?half) * 1000000 < real (period_den ?half)"
    by (simp add: well_formed_cast_def conversion_factor_def in_int64_def)
  note 9 = at_half [THEN conjunct2, THEN conjunct2, THEN conjunct2, THEN conjunct2, THEN conjunct2, THEN conjunct2, THEN conjunct2, THEN conjunct2, THEN conjunct1, THEN mp, OF half]
  note 10 = cast_2500us_in_floating_ms
  have fms: "count ?fms = Floating (5 / 2)" by simp
  from at_fms [THEN conjunct2, THEN conjunct2, THEN conjunct2, THEN conjunct2, THEN conjunct2, THEN conjunct2, THEN conjunct2, THEN conjunct1, THEN mp,
      OF conjI [OF fms 10]]
  have 11: "cpp_trunc (5 / 2 * 1000) = 2500"
    by simp
  have cf: "fst (conversion_factor ?fms) = 1000" "snd (conversion_factor ?fms) = 1"
    by (simp_all add: conversion_factor_def)
  note computed = at_fms [THEN conjunct2, THEN conjunct2, THEN conjunct2, THEN conjunct2,
      THEN conjunct2, THEN conjunct2, THEN conjunct1, THEN mp, OF conjI [OF fms 10],
      THEN conjunct1, unfolded cf]
  have 13: "cpp_trunc (floating_microseconds (\<lambda>r. r) 1000 1 (5 / 2)) = 2500"
    by (rule computed [symmetric])
  have huge: "\<not> well_formed_cast ?huge"
    by (simp add: well_formed_cast_def conversion_factor_def in_int64_def)
  note 12 = at_huge [THEN conjunct2, THEN conjunct2, THEN conjunct2, THEN conjunct2, THEN conjunct2, THEN conjunct2, THEN conjunct2, THEN conjunct2, THEN conjunct2, THEN mp, OF huge, THEN conjunct1]
  show ?thesis
    by (intro conjI)
       (rule 1, rule 2, rule 3, rule 4, rule 5, rule 6, rule 7, rule 8, rule 9, rule 10,
        rule 11, rule 13, rule 12)
qed

text \<open>
  Claim C10 as stated fails at a duration of -1 microsecond: the count of microseconds is
  -1, the timeout stored is 18446744073709551615.
\<close>

theorem negative_duration_wraps:
  "valid_duration \<lparr>count = Integral (- 1), period_num = 1, period_den = 1000000\<rparr> \<and>
   duration_cast_microseconds (\<lambda>r. r)
     \<lparr>count = Integral (- 1), period_num = 1, period_den = 1000000\<rparr> = Cast (- 1) \<and>
   map_cast_result (\<lambda>r. uint (mi_timeout (snd r)))
     (MethodInvoker_withTimeout_duration (\<lambda>r. r)
       \<lparr>count = Integral (- 1), period_num = 1, period_den = 1000000\<rparr>
       (MethodInvoker_ctor \<lparr>uncaught_exceptions = 0, calls = [] :: string call list\<rparr> ''Ping'')) =
   Cast 18446744073709551615 \<and>
   (18446744073709551615 :: int) \<noteq> - 1"
  by (simp add: duration_cast_microseconds_def conversion_factor_def well_formed_cast_def
        valid_duration_def in_int64_def
        MethodInvoker_withTimeout_duration_def MethodInvoker_withTimeout_def
        MethodInvoker_ctor_def unsigned_minus_1_eq_mask mask_eq_exp_minus_1)

lemma round_binary64_at:
  assumes "0 < v" and "2 powr of_int e \<le> v" and "v < 2 powr (of_int e + 1)"
  shows "round_binary64 v =
     (let q = v / 2 powr (of_int e - 52);
          n = \<lfloor>q\<rfloor>;
          m = (if q - of_int n < 1 / 2 then n
               else if 1 / 2 < q - of_int n then n + 1
               else if even n then n else n + 1)
      in of_int m * 2 powr (of_int e - 52))"
proof -
  have "\<lfloor>log 2 v\<rfloor> = e"
    using assms by (simp add: floor_log_eq_powr_iff)
  with assms(1) show ?thesis
    by (simp add: round_binary64_def Let_def)
qed

lemma round_1000000: "round_binary64 1000000 = 1000000"
  using round_binary64_at [of 1000000 19] by (simp add: Let_def powr_neg_numeral powr_neg_one)

lemma round_nearest_1e6:
  "round_binary64 (4722366482869645 / 2 ^ 72) = 4722366482869645 / 2 ^ 72"
  using round_binary64_at [of "4722366482869645 / 2 ^ 72" "- 20"] by (simp add: Let_def powr_neg_numeral powr_neg_one)

lemma round_product:
  "round_binary64 (4722366482869645 / 2 ^ 72 * 1000000) = 1"
  using round_binary64_at [of "4722366482869645 / 2 ^ 72 * 1000000" "- 1"] by (simp add: Let_def powr_neg_numeral powr_neg_one)

text \<open>
  With the arithmetic of \<^verbatim>\<open>double\<close> the count stored for a floating-point duration is not
  always the exact value truncated: \<^verbatim>\<open>std::chrono::duration<double>(1e-6)\<close> holds the
  \<^verbatim>\<open>double\<close> nearest to \<open>10\<^sup>-\<^sup>6\<close>, which is less than one microsecond, its product by
  1000000 rounds to 1, and the timeout stored is 1 where the exact value truncated is 0.
\<close>

lemma double_below_microsecond_stores_1:
  "(0 :: real) < 4722366482869645 / 2 ^ 72 \<and>
   4722366482869645 / 2 ^ 72 * 1000000 < (1 :: real) \<and>
   round_binary64 (4722366482869645 / 2 ^ 72) = 4722366482869645 / 2 ^ 72 \<and>
   duration_cast_microseconds round_binary64
     \<lparr>count = Floating (4722366482869645 / 2 ^ 72), period_num = 1, period_den = 1\<rparr> =
     Cast 1 \<and>
   MethodInvoker_withTimeout_duration round_binary64
     \<lparr>count = Floating (4722366482869645 / 2 ^ 72), period_num = 1, period_den = 1\<rparr>
     (MethodInvoker_ctor \<lparr>uncaught_exceptions = 0, calls = [] :: string call list\<rparr> ''Ping'') =
   Cast (Returned (),
     \<lparr>mi_methodName = ''Ping'', mi_exceptions = 0, mi_method = default_message,
       mi_timeout = 1, mi_methodCalled = False\<rparr>)"
proof -
  let ?d = "\<lparr>count = Floating (4722366482869645 / 2 ^ 72), period_num = 1, period_den = 1\<rparr>"
  have wf: "well_formed_cast ?d"
    by (simp add: well_formed_cast_def conversion_factor_def in_int64_def)
  have computed: "floating_microseconds round_binary64 1000000 1 (4722366482869645 / 2 ^ 72) = 1"
    using round_product by (simp add: floating_microseconds_def round_1000000)
  have cast: "duration_cast_microseconds round_binary64 ?d = Cast 1"
    using wf computed
    by (simp add: duration_cast_microseconds_def conversion_factor_def cpp_trunc_def
          in_int64_def)
  have stored: "MethodInvoker_withTimeout_duration round_binary64 ?d
      (MethodInvoker_ctor \<lparr>uncaught_exceptions = 0, calls = [] :: string call list\<rparr> ''Ping'') =
    Cast (Returned (),
      \<lparr>mi_methodName = ''Ping'', mi_exceptions = 0, mi_method = default_message,
        mi_timeout = 1, mi_methodCalled = False\<rparr>)"
    unfolding MethodInvoker_withTimeout_duration_def cast
    by (simp add: MethodInvoker_withTimeout_def MethodInvoker_ctor_def)
  have "(0 :: real) < 4722366482869645 / 2 ^ 72" by simp
  moreover have "4722366482869645 / 2 ^ 72 * 1000000 < (1 :: real)" by simp
  ultimately show ?thesis
    using round_nearest_1e6 cast stored by blast
qed

subsection \<open>SignalEmitter\<close>

lemma SignalEmitter_step_exceptions:
  "se_exceptions (snd (SignalEmitter_step object step se)) = se_exceptions se"
  by (cases step)
     (simp_all add: SignalEmitter_onInterface_def SignalEmitter_withArguments_def split: sum.splits)

lemma SignalEmitter_chain_exceptions:
  "se_exceptions (snd (SignalEmitter_chain object steps se)) = se_exceptions se"
proof (induction steps arbitrary: se)
  case Nil
  then show ?case by simp
next
  case (Cons step steps)
  obtain r se' where step: "SignalEmitter_step object step se = (r, se')"
    by (cases "SignalEmitter_step object step se")
  have "se_exceptions se' = se_exceptions se"
    using SignalEmitter_step_exceptions [of object step se] step by simp
  with Cons.IH [of se'] step show ?case by (cases r) simp_all
qed

lemma SignalEmitter_dtor_calls:
  "calls (snd (SignalEmitter_dtor object w se)) =
     (if uncaught_exceptions w = se_exceptions se then calls w @ [EmitSignal (se_signal se)]
      else calls w)"
  by (simp add: SignalEmitter_dtor_def record_call_def split: option.splits)

text \<open>
  Claim C2. For an emitter constructed when \<open>w0\<close> was the state of the program and
  configured by any chain of steps, the destructor calls \<^verbatim>\<open>emitSignal\<close> exactly once
  when the count of uncaught exceptions equals the count at construction, and does
  nothing at all when the counts differ.
\<close>

theorem SignalEmitter_emits_iff_no_new_exception:
  "se = snd (SignalEmitter_chain object steps (SignalEmitter_ctor w0 signalName)) \<longrightarrow>
     calls (snd (SignalEmitter_dtor object w se)) =
       (if uncaught_exceptions w = uncaught_exceptions w0
        then calls w @ [EmitSignal (se_signal se)] else calls w) \<and>
     length (filter is_EmitSignal (calls (snd (SignalEmitter_dtor object w se)))) =
       (if uncaught_exceptions w = uncaught_exceptions w0
        then Suc (length (filter is_EmitSignal (calls w)))
        else length (filter is_EmitSignal (calls w))) \<and>
     (uncaught_exceptions w \<noteq> uncaught_exceptions w0 \<longrightarrow>
        SignalEmitter_dtor object w se = (Returned (), w))"
proof
  assume se: "se = snd (SignalEmitter_chain object steps (SignalEmitter_ctor w0 signalName))"
  have "se_exceptions se = se_exceptions (SignalEmitter_ctor w0 signalName)"
    unfolding se by (rule SignalEmitter_chain_exceptions)
  then have e: "se_exceptions se = uncaught_exceptions w0"
    by (simp add: SignalEmitter_ctor_def)
  show "calls (snd (SignalEmitter_dtor object w se)) =
       (if uncaught_exceptions w = uncaught_exceptions w0
        then calls w @ [EmitSignal (se_signal se)] else calls w) \<and>
     length (filter is_EmitSignal (calls (snd (SignalEmitter_dtor object w se)))) =
       (if uncaught_exceptions w = uncaught_exceptions w0
        then Suc (length (filter is_EmitSignal (calls w)))
        else length (filter is_EmitSignal (calls w))) \<and>
     (uncaught_exceptions w \<noteq> uncaught_exceptions w0 \<longrightarrow>
        SignalEmitter_dtor object w se = (Returned (), w))"
    by (simp add: SignalEmitter_dtor_calls e) (simp add: SignalEmitter_dtor_def e)
qed

text \<open>
  The theorem of claim C2 at the emitter of \<^verbatim>\<open>emitDataSignal\<close>, destroyed without and
  with an exception in flight.
\<close>

theorem SignalEmitter_emits_witness:
  "snd (SignalEmitter_chain perftests_object
          [SE_onInterface ''org.sdbuscpp.perftests'', SE_withArguments [''data'']]
          (SignalEmitter_ctor \<lparr>uncaught_exceptions = 0, calls = []\<rparr> ''dataSignal'')) =
     \<lparr>se_signalName = ''dataSignal'', se_exceptions = 0,
      se_signal = \<lparr>msg_valid = True, msg_interface = ''org.sdbuscpp.perftests'',
        msg_member = ''dataSignal'', msg_payload = [''data''], msg_no_reply = False\<rparr>\<rparr> \<and>
   calls (snd (SignalEmitter_dtor perftests_object \<lparr>uncaught_exceptions = 0, calls = []\<rparr>
     (snd (SignalEmitter_chain perftests_object
          [SE_onInterface ''org.sdbuscpp.perftests'', SE_withArguments [''data'']]
          (SignalEmitter_ctor \<lparr>uncaught_exceptions = 0, calls = []\<rparr> ''dataSignal''))))) =
     [EmitSignal \<lparr>msg_valid = True, msg_interface = ''org.sdbuscpp.perftests'',
        msg_member = ''dataSignal'', msg_payload = [''data''], msg_no_reply = False\<rparr>] \<and>
   SignalEmitter_dtor perftests_object \<lparr>uncaught_exceptions = 1, calls = []\<rparr>
     (snd (SignalEmitter_chain perftests_object
          [SE_onInterface ''org.sdbuscpp.perftests'', SE_withArguments [''data'']]
          (SignalEmitter_ctor \<lparr>uncaught_exceptions = 0, calls = []\<rparr> ''dataSignal''))) =
     (Returned (), \<lparr>uncaught_exceptions = 1, calls = []\<rparr>)"
proof -
  let ?w0 = "\<lparr>uncaught_exceptions = 0, calls = [] :: string call list\<rparr>"
  let ?w1 = "\<lparr>uncaught_exceptions = 1, calls = [] :: string call list\<rparr>"
  let ?steps = "[SE_onInterface ''org.sdbuscpp.perftests'', SE_withArguments [''data'']]"
  let ?se = "snd (SignalEmitter_chain perftests_object ?steps (SignalEmitter_ctor ?w0 ''dataSignal''))"
  have se: "?se = \<lparr>se_signalName = ''dataSignal'', se_exceptions = 0,
      se_signal = \<lparr>msg_valid = True, msg_interface = ''org.sdbuscpp.perftests'',
        msg_member = ''dataSignal'', msg_payload = [''data''], msg_no_reply = False\<rparr>\<rparr>"
    by (simp add: SignalEmitter_ctor_def SignalEmitter_onInterface_def
          SignalEmitter_withArguments_def perftests_object_def isValid_def serialize_pack_def
          default_message_def)
  from SignalEmitter_emits_iff_no_new_exception [of ?se perftests_object ?steps ?w0 "''dataSignal''" ?w0]
  have "calls (snd (SignalEmitter_dtor perftests_object ?w0 ?se)) = [EmitSignal (se_signal ?se)]"
    by simp
  moreover from SignalEmitter_emits_iff_no_new_exception [of ?se perftests_object ?steps ?w0 "''dataSignal''" ?w1]
  have "SignalEmitter_dtor perftests_object ?w1 ?se = (Returned (), ?w1)"
    by simp
  ultimately show ?thesis
    using se by simp
qed

subsection \<open>MethodInvoker\<close>

lemma MethodInvoker_step_invariant:
  "mi_exceptions (snd (MethodInvoker_step proxy step mi)) = mi_exceptions mi \<and>
   mi_methodCalled (snd (MethodInvoker_step proxy step mi)) = mi_methodCalled mi"
  by (cases step)
     (simp_all add: MethodInvoker_onInterface_def MethodInvoker_withTimeout_def
        MethodInvoker_withArguments_def MethodInvoker_dontExpectReply_def split: sum.splits)

lemma MethodInvoker_chain_invariant:
  "mi_exceptions (snd (MethodInvoker_chain proxy steps mi)) = mi_exceptions mi \<and>
   mi_methodCalled (snd (MethodInvoker_chain proxy steps mi)) = mi_methodCalled mi"
proof (induction steps arbitrary: mi)
  case Nil
  then show ?case by simp
next
  case (Cons step steps)
  obtain r mi' where step: "MethodInvoker_step proxy step mi = (r, mi')"
    by (cases "MethodInvoker_step proxy step mi")
  have "mi_exceptions mi' = mi_exceptions mi \<and> mi_methodCalled mi' = mi_methodCalled mi"
    using MethodInvoker_step_invariant [of proxy step mi] step by simp
  with Cons.IH [of mi'] step show ?case by (cases r) simp_all
qed

lemma MethodInvoker_dtor_skips:
  "mi_methodCalled mi \<or> uncaught_exceptions w \<noteq> mi_exceptions mi \<Longrightarrow>
   MethodInvoker_dtor proxy w mi = (Returned (), w)"
  by (auto simp: MethodInvoker_dtor_def)

lemma MethodInvoker_dtor_calls:
  "\<not> mi_methodCalled mi \<Longrightarrow> uncaught_exceptions w = mi_exceptions mi \<Longrightarrow>
   calls (snd (MethodInvoker_dtor proxy w mi)) =
     calls w @ [CallMethod (mi_method mi) (mi_timeout mi)]"
  by (simp add: MethodInvoker_dtor_def record_call_def split: sum.splits)

lemma MethodInvoker_storeResultsTo_Returned:
  assumes "MethodInvoker_storeResultsTo proxy deserialize_pack w mi = (Returned results, w', mi')"
  shows "mi_methodCalled mi' \<and> calls w' = calls w @ [CallMethod (mi_method mi) (mi_timeout mi)]"
  using assms
  by (auto simp: MethodInvoker_storeResultsTo_def record_call_def split: if_splits sum.splits)

lemma MethodInvoker_storeResultsTo_invariant:
  assumes "MethodInvoker_storeResultsTo proxy deserialize_pack w mi = (r, w', mi')"
  shows "mi_exceptions mi' = mi_exceptions mi \<and> uncaught_exceptions w' = uncaught_exceptions w \<and>
         length (filter is_CallMethod (calls w')) \<le> Suc (length (filter is_CallMethod (calls w)))"
  using assms
  by (auto simp: MethodInvoker_storeResultsTo_def record_call_def split: if_splits sum.splits)

lemma MethodInvoker_dtor_in_flight:
  "mi_exceptions mi = uncaught_exceptions w \<Longrightarrow>
   MethodInvoker_dtor proxy (in_flight w) mi = (Returned (), in_flight w)"
  by (rule MethodInvoker_dtor_skips) (simp add: in_flight_def)

lemma calls_in_flight: "calls (in_flight w) = calls w"
  by (simp add: in_flight_def)

lemma MethodInvoker_dtor_at_most_one:
  "length (filter is_CallMethod (calls (snd (MethodInvoker_dtor proxy w mi)))) \<le>
     Suc (length (filter is_CallMethod (calls w)))"
  by (simp add: MethodInvoker_dtor_def record_call_def split: sum.splits)

lemma MethodInvoker_temporary_at_most_once:
  "length (filter is_CallMethod
     (calls (snd (MethodInvoker_temporary proxy deserialize_pack w methodName steps store)))) \<le>
   Suc (length (filter is_CallMethod (calls w)))"
proof -
  obtain r mi where chain: "MethodInvoker_chain proxy steps (MethodInvoker_ctor w methodName) = (r, mi)"
    by (cases "MethodInvoker_chain proxy steps (MethodInvoker_ctor w methodName)")
  have inv: "mi_exceptions mi = uncaught_exceptions w" "\<not> mi_methodCalled mi"
    using MethodInvoker_chain_invariant [of proxy steps "MethodInvoker_ctor w methodName"] chain
    by (simp_all add: MethodInvoker_ctor_def)
  show ?thesis
  proof (cases r)
    case AssertionFailed
    with chain show ?thesis by (simp add: MethodInvoker_temporary_def)
  next
    case (Thrown e)
    with chain inv show ?thesis
      by (simp add: MethodInvoker_temporary_def MethodInvoker_dtor_in_flight calls_in_flight)
  next
    case (Returned u)
    show ?thesis
    proof (cases store)
      case False
      with chain Returned show ?thesis
        by (simp add: MethodInvoker_temporary_def MethodInvoker_dtor_at_most_one)
    next
      case True
      obtain r' w' mi' where store: "MethodInvoker_storeResultsTo proxy deserialize_pack w mi = (r', w', mi')"
        by (cases "MethodInvoker_storeResultsTo proxy deserialize_pack w mi")
      note s = MethodInvoker_storeResultsTo_invariant [OF store]
      show ?thesis
      proof (cases r')
        case AssertionFailed
        with chain Returned True store s show ?thesis
          by (simp add: MethodInvoker_temporary_def)
      next
        case (Thrown e)
        have "mi_exceptions mi' = uncaught_exceptions w'" using s inv by simp
        from MethodInvoker_dtor_in_flight [OF this, of proxy]
        show ?thesis
          using chain Returned True store s Thrown
          by (simp add: MethodInvoker_temporary_def calls_in_flight)
      next
        case (Returned results)
        from MethodInvoker_storeResultsTo_Returned [OF store [unfolded Returned]]
        have "MethodInvoker_dtor proxy w' mi' = (Returned (), w')"
          by (simp add: MethodInvoker_dtor_skips)
        then show ?thesis
          using chain \<open>r = Returned u\<close> True store s Returned
          by (simp add: MethodInvoker_temporary_def)
      qed
    qed
  qed
qed

text \<open>
  Claim C3, as amended: the three clauses hold of every invoker, at most one call in all
  of an invoker used as a temporary. After \<^verbatim>\<open>storeResultsTo\<close> has returned, having made its
  one call, the destructor makes none. For an invoker constructed in \<open>w0\<close> and configured by any chain of the other
  steps, the destructor makes exactly one call when the count of uncaught exceptions
  equals the count at construction and none when the counts differ. The destructor never
  makes more than one call, and an invoker used as a temporary makes at most one call in
  all, whichever step throws.
\<close>

theorem MethodInvoker_commits_at_most_once:
  "(MethodInvoker_storeResultsTo proxy deserialize_pack w1 mi1 = (Returned results, w1', mi1') \<longrightarrow>
      calls w1' = calls w1 @ [CallMethod (mi_method mi1) (mi_timeout mi1)] \<and>
      MethodInvoker_dtor proxy w mi1' = (Returned (), w)) \<and>
   (mi = snd (MethodInvoker_chain proxy steps (MethodInvoker_ctor w0 methodName)) \<longrightarrow>
      (uncaught_exceptions w = uncaught_exceptions w0 \<longrightarrow>
         calls (snd (MethodInvoker_dtor proxy w mi)) =
           calls w @ [CallMethod (mi_method mi) (mi_timeout mi)]) \<and>
      (uncaught_exceptions w \<noteq> uncaught_exceptions w0 \<longrightarrow>
         MethodInvoker_dtor proxy w mi = (Returned (), w))) \<and>
   length (filter is_CallMethod (calls (snd (MethodInvoker_dtor proxy w mi2)))) \<le>
     Suc (length (filter is_CallMethod (calls w))) \<and>
   length (filter is_CallMethod
     (calls (snd (MethodInvoker_temporary proxy deserialize_pack w0 methodName steps store)))) \<le>
     Suc (length (filter is_CallMethod (calls w0)))"
proof (intro conjI impI)
  assume "MethodInvoker_storeResultsTo proxy deserialize_pack w1 mi1 = (Returned results, w1', mi1')"
  from MethodInvoker_storeResultsTo_Returned [OF this]
  show "calls w1' = calls w1 @ [CallMethod (mi_method mi1) (mi_timeout mi1)]"
    and "MethodInvoker_dtor proxy w mi1' = (Returned (), w)"
    by (simp_all add: MethodInvoker_dtor_skips)
next
  assume mi: "mi = snd (MethodInvoker_chain proxy steps (MethodInvoker_ctor w0 methodName))"
  have inv: "mi_exceptions mi = uncaught_exceptions w0" "\<not> mi_methodCalled mi"
    unfolding mi using MethodInvoker_chain_invariant [of proxy steps "MethodInvoker_ctor w0 methodName"]
    by (simp_all add: MethodInvoker_ctor_def)
  show "calls (snd (MethodInvoker_dtor proxy w mi)) =
      calls w @ [CallMethod (mi_method mi) (mi_timeout mi)]"
    if "uncaught_exceptions w = uncaught_exceptions w0"
    using that inv by (simp add: MethodInvoker_dtor_calls)
  show "MethodInvoker_dtor proxy w mi = (Returned (), w)"
    if "uncaught_exceptions w \<noteq> uncaught_exceptions w0"
    using that inv by (simp add: MethodInvoker_dtor_skips)
next
  show "length (filter is_CallMethod (calls (snd (MethodInvoker_dtor proxy w mi2)))) \<le>
     Suc (length (filter is_CallMethod (calls w)))"
    by (rule MethodInvoker_dtor_at_most_one)
next
  show "length (filter is_CallMethod
     (calls (snd (MethodInvoker_temporary proxy deserialize_pack w0 methodName steps store)))) \<le>
     Suc (length (filter is_CallMethod (calls w0)))"
    by (rule MethodInvoker_temporary_at_most_once)
qed

text \<open>
  The theorem of claim C3 at a call of \<^verbatim>\<open>concatenateTwoStrings\<close>: with
  \<^verbatim>\<open>storeResultsTo\<close>, without it, and without it while an exception is in flight.
\<close>

theorem MethodInvoker_commits_witness:
  "MethodInvoker_storeResultsTo echo_proxy (\<lambda>reply. Inr (msg_payload reply))
     \<lparr>uncaught_exceptions = 0, calls = []\<rparr>
     (snd (MethodInvoker_chain echo_proxy
        [MI_onInterface ''org.sdbuscpp.perftests'', MI_withArguments [''a'', ''b'']]
        (MethodInvoker_ctor \<lparr>uncaught_exceptions = 0, calls = []\<rparr> ''concatenateTwoStrings''))) =
   (Returned [''a'', ''b''],
    \<lparr>uncaught_exceptions = 0,
      calls = [CallMethod \<lparr>msg_valid = True, msg_interface = ''org.sdbuscpp.perftests'',
        msg_member = ''concatenateTwoStrings'', msg_payload = [''a'', ''b''],
        msg_no_reply = False\<rparr> 0]\<rparr>,
    \<lparr>mi_methodName = ''concatenateTwoStrings'', mi_exceptions = 0,
      mi_method = \<lparr>msg_valid = True, msg_interface = ''org.sdbuscpp.perftests'',
        msg_member = ''concatenateTwoStrings'', msg_payload = [''a'', ''b''],
        msg_no_reply = False\<rparr>,
      mi_timeout = 0, mi_methodCalled = True\<rparr>) \<and>
   MethodInvoker_dtor echo_proxy \<lparr>uncaught_exceptions = 0, calls = []\<rparr>
     \<lparr>mi_methodName = ''concatenateTwoStrings'', mi_exceptions = 0,
      mi_method = \<lparr>msg_valid = True, msg_interface = ''org.sdbuscpp.perftests'',
        msg_member = ''concatenateTwoStrings'', msg_payload = [''a'', ''b''],
        msg_no_reply = False\<rparr>,
      mi_timeout = 0, mi_methodCalled = True\<rparr> =
   (Returned (), \<lparr>uncaught_exceptions = 0, calls = []\<rparr>) \<and>
   calls (snd (MethodInvoker_dtor echo_proxy \<lparr>uncaught_exceptions = 0, calls = []\<rparr>
     (snd (MethodInvoker_chain echo_proxy
        [MI_onInterface ''org.sdbuscpp.perftests'', MI_withArguments [''a'', ''b'']]
        (MethodInvoker_ctor \<lparr>uncaught_exceptions = 0, calls = []\<rparr> ''concatenateTwoStrings''))))) =
   [CallMethod \<lparr>msg_valid = True, msg_interface = ''org.sdbuscpp.perftests'',
        msg_member = ''concatenateTwoStrings'', msg_payload = [''a'', ''b''],
        msg_no_reply = False\<rparr> 0] \<and>
   MethodInvoker_dtor echo_proxy \<lparr>uncaught_exceptions = 1, calls = []\<rparr>
     (snd (MethodInvoker_chain echo_proxy
        [MI_onInterface ''org.sdbuscpp.perftests'', MI_withArguments [''a'', ''b'']]
        (MethodInvoker_ctor \<lparr>uncaught_exceptions = 0, calls = []\<rparr> ''concatenateTwoStrings''))) =
   (Returned (), \<lparr>uncaught_exceptions = 1, calls = []\<rparr>)"
proof -
  let ?w0 = "\<lparr>uncaught_exceptions = 0, calls = [] :: string call list\<rparr>"
  let ?w1 = "\<lparr>uncaught_exceptions = 1, calls = [] :: string call list\<rparr>"
  let ?steps = "[MI_onInterface ''org.sdbuscpp.perftests'', MI_withArguments [''a'', ''b'']]"
  let ?m = "\<lparr>msg_valid = True, msg_interface = ''org.sdbuscpp.perftests'',
        msg_member = ''concatenateTwoStrings'', msg_payload = [''a'', ''b''],
        msg_no_reply = False\<rparr>"
  let ?mi = "snd (MethodInvoker_chain echo_proxy ?steps (MethodInvoker_ctor ?w0 ''concatenateTwoStrings''))"
  let ?mi' = "\<lparr>mi_methodName = ''concatenateTwoStrings'', mi_exceptions = 0,
      mi_method = ?m, mi_timeout = 0, mi_methodCalled = True\<rparr>"
  let ?deser = "\<lambda>reply :: string message. Inr (msg_payload reply) :: error + string list"
  have mi: "?mi = \<lparr>mi_methodName = ''concatenateTwoStrings'', mi_exceptions = 0,
      mi_method = ?m, mi_timeout = 0, mi_methodCalled = False\<rparr>"
    by (simp add: MethodInvoker_ctor_def MethodInvoker_onInterface_def
          MethodInvoker_withArguments_def echo_proxy_def isValid_def serialize_pack_def
          default_message_def)
  have store: "MethodInvoker_storeResultsTo echo_proxy ?deser ?w0 ?mi =
      (Returned [''a'', ''b''], \<lparr>uncaught_exceptions = 0, calls = [CallMethod ?m 0]\<rparr>, ?mi')"
    unfolding mi
    by (simp add: MethodInvoker_storeResultsTo_def echo_proxy_def isValid_def record_call_def)
  note c3 = MethodInvoker_commits_at_most_once [of echo_proxy ?deser ?w0 ?mi "[''a'', ''b'']"
      "\<lparr>uncaught_exceptions = 0, calls = [CallMethod ?m 0]\<rparr>" ?mi' _ ?mi ?steps ?w0
      "''concatenateTwoStrings''"]
  from c3 [of ?w0] store
  have a: "MethodInvoker_dtor echo_proxy ?w0 ?mi' = (Returned (), ?w0)"
    by blast
  from c3 [of ?w0]
  have b: "calls (snd (MethodInvoker_dtor echo_proxy ?w0 ?mi)) = [CallMethod (mi_method ?mi) (mi_timeout ?mi)]"
    by simp
  from c3 [of ?w1]
  have c: "MethodInvoker_dtor echo_proxy ?w1 ?mi = (Returned (), ?w1)"
    by simp
  have b': "calls (snd (MethodInvoker_dtor echo_proxy ?w0 ?mi)) = [CallMethod ?m 0]"
    using b unfolding mi by simp
  show ?thesis
    using store a b' c by blast
qed

text \<open>
  Claim C3 as stated, for every invoker, does not hold of an invoker that is kept in a
  variable. \<^verbatim>\<open>storeResultsTo\<close> does not look at \<^verbatim>\<open>methodCalled_\<close>: run twice on one invoker it
  makes the call twice. And it sets \<^verbatim>\<open>methodCalled_\<close> after the call only: when the call
  throws and the exception is caught before the invoker goes out of scope, the destructor
  finds the flag unset and the counts equal, and makes the call a second time.
\<close>

theorem named_MethodInvoker_calls_twice:
  "(let w0 = \<lparr>uncaught_exceptions = 0, calls = []\<rparr>;
        mi = snd (MethodInvoker_onInterface echo_proxy ''org.sdbuscpp.perftests''
               (MethodInvoker_ctor w0 ''concatenateTwoStrings''));
        (r1, w1, mi1) = MethodInvoker_storeResultsTo echo_proxy (\<lambda>reply. Inr (msg_payload reply)) w0 mi;
        (r2, w2, mi2) = MethodInvoker_storeResultsTo echo_proxy (\<lambda>reply. Inr (msg_payload reply)) w1 mi1
    in r1 = Returned [] \<and> r2 = Returned [] \<and>
       calls w2 =
         [CallMethod \<lparr>msg_valid = True, msg_interface = ''org.sdbuscpp.perftests'',
            msg_member = ''concatenateTwoStrings'', msg_payload = [], msg_no_reply = False\<rparr> 0,
          CallMethod \<lparr>msg_valid = True, msg_interface = ''org.sdbuscpp.perftests'',
            msg_member = ''concatenateTwoStrings'', msg_payload = [], msg_no_reply = False\<rparr> 0]) \<and>
   (let proxy = echo_proxy\<lparr>callMethod :=
          \<lambda>msg timeout. Inl (Error ''org.freedesktop.DBus.Error.NoReply'' ''timed out'')\<rparr>;
        w0 = \<lparr>uncaught_exceptions = 0, calls = []\<rparr>;
        mi = snd (MethodInvoker_onInterface proxy ''org.sdbuscpp.perftests''
               (MethodInvoker_ctor w0 ''concatenateTwoStrings''));
        (r1, w1, mi1) = MethodInvoker_storeResultsTo proxy (\<lambda>reply. Inr (msg_payload reply)) w0 mi;
        (r2, w2) = MethodInvoker_dtor proxy w1 mi1
    in r1 = Thrown (Error ''org.freedesktop.DBus.Error.NoReply'' ''timed out'') \<and>
       uncaught_exceptions w1 = mi_exceptions mi1 \<and>
       calls w2 =
         [CallMethod \<lparr>msg_valid = True, msg_interface = ''org.sdbuscpp.perftests'',
            msg_member = ''concatenateTwoStrings'', msg_payload = [], msg_no_reply = False\<rparr> 0,
          CallMethod \<lparr>msg_valid = True, msg_interface = ''org.sdbuscpp.perftests'',
            msg_member = ''concatenateTwoStrings'', msg_payload = [] :: string list,
            msg_no_reply = False\<rparr> 0])"
  by (simp add: MethodInvoker_storeResultsTo_def MethodInvoker_onInterface_def
        MethodInvoker_ctor_def MethodInvoker_dtor_def echo_proxy_def isValid_def
        record_call_def default_message_def)

subsection \<open>Assertions on the order of the steps\<close>

lemma isValid_simps:
  "\<not> isValid (default_message :: 'v message)"
  "isValid (serialize_pack m args) = isValid m"
  "isValid (dontExpectReply m) = isValid m"
  by (simp_all add: isValid_def default_message_def serialize_pack_def dontExpectReply_def)

lemma SignalEmitter_step_valid:
  "creates_valid_signals object \<Longrightarrow> isValid (se_signal se) \<Longrightarrow>
   fst (SignalEmitter_step object step se) \<noteq> AssertionFailed \<and>
   isValid (se_signal (snd (SignalEmitter_step object step se)))"
  by (cases step)
     (auto simp: SignalEmitter_onInterface_def SignalEmitter_withArguments_def
        creates_valid_signals_def isValid_simps split: sum.splits)

lemma SignalEmitter_chain_valid:
  "creates_valid_signals object \<Longrightarrow> isValid (se_signal se) \<Longrightarrow>
   fst (SignalEmitter_chain object steps se) \<noteq> AssertionFailed \<and>
   isValid (se_signal (snd (SignalEmitter_chain object steps se)))"
proof (induction steps arbitrary: se)
  case Nil
  then show ?case by simp
next
  case (Cons step steps)
  obtain r se' where step: "SignalEmitter_step object step se = (r, se')"
    by (cases "SignalEmitter_step object step se")
  from SignalEmitter_step_valid [OF Cons.prems, of step] step
  have v: "r \<noteq> AssertionFailed" "isValid (se_signal se')" by simp_all
  with Cons.IH [OF Cons.prems(1), of se'] step show ?case by (cases r) simp_all
qed

lemma SignalEmitter_chain_after_onInterface:
  assumes "creates_valid_signals object"
  shows "fst (SignalEmitter_chain object (SE_onInterface interfaceName # steps) se) \<noteq>
           AssertionFailed"
proof (cases "createSignal object interfaceName (se_signalName se)")
  case (Inl e)
  then show ?thesis by (simp add: SignalEmitter_onInterface_def)
next
  case (Inr signal)
  with assms have "isValid signal" by (auto simp: creates_valid_signals_def)
  then have "isValid (se_signal (se\<lparr>se_signal := signal\<rparr>))" by simp
  from SignalEmitter_chain_valid [OF assms this, of steps] Inr
  show ?thesis by (simp add: SignalEmitter_onInterface_def)
qed

lemma MethodInvoker_step_valid:
  "creates_valid_calls proxy \<Longrightarrow> isValid (mi_method mi) \<Longrightarrow>
   fst (MethodInvoker_step proxy step mi) \<noteq> AssertionFailed \<and>
   isValid (mi_method (snd (MethodInvoker_step proxy step mi)))"
  by (cases step)
     (auto simp: MethodInvoker_onInterface_def MethodInvoker_withArguments_def
        MethodInvoker_withTimeout_def MethodInvoker_dontExpectReply_def
        creates_valid_calls_def isValid_simps split: sum.splits)

lemma MethodInvoker_chain_valid:
  "creates_valid_calls proxy \<Longrightarrow> isValid (mi_method mi) \<Longrightarrow>
   fst (MethodInvoker_chain proxy steps mi) \<noteq> AssertionFailed \<and>
   isValid (mi_method (snd (MethodInvoker_chain proxy steps mi)))"
proof (induction steps arbitrary: mi)
  case Nil
  then show ?case by simp
next
  case (Cons step steps)
  obtain r mi' where step: "MethodInvoker_step proxy step mi = (r, mi')"
    by (cases "MethodInvoker_step proxy step mi")
  from MethodInvoker_step_valid [OF Cons.prems, of step] step
  have v: "r \<noteq> AssertionFailed" "isValid (mi_method mi')" by simp_all
  with Cons.IH [OF Cons.prems(1), of mi'] step show ?case by (cases r) simp_all
qed

lemma MethodInvoker_chain_after_onInterface:
  assumes "creates_valid_calls proxy"
  shows "fst (MethodInvoker_chain proxy (MI_onInterface interfaceName # steps) mi) \<noteq>
           AssertionFailed \<and>
         (fst (MethodInvoker_chain proxy (MI_onInterface interfaceName # steps) mi) = Returned () \<longrightarrow>
            isValid (mi_method
              (snd (MethodInvoker_chain proxy (MI_onInterface interfaceName # steps) mi))))"
proof (cases "createMethodCall proxy interfaceName (mi_methodName mi)")
  case (Inl e)
  then show ?thesis by (simp add: MethodInvoker_onInterface_def)
next
  case (Inr msg)
  with assms have "isValid msg" by (auto simp: creates_valid_calls_def)
  then have "isValid (mi_method (mi\<lparr>mi_method := msg\<rparr>))" by simp
  from MethodInvoker_chain_valid [OF assms this, of steps] Inr
  show ?thesis by (simp add: MethodInvoker_onInterface_def)
qed

lemma MethodInvoker_storeResultsTo_valid:
  "isValid (mi_method mi) \<Longrightarrow>
   fst (MethodInvoker_storeResultsTo proxy deserialize_pack w mi) \<noteq> AssertionFailed"
  by (simp add: MethodInvoker_storeResultsTo_def split: sum.splits)

lemma MethodInvoker_dtor_no_assertion:
  "fst (MethodInvoker_dtor proxy w mi) \<noteq> AssertionFailed"
  by (simp add: MethodInvoker_dtor_def split: sum.splits)

lemma MethodInvoker_temporary_after_onInterface:
  assumes "creates_valid_calls proxy"
  shows "fst (MethodInvoker_temporary proxy deserialize_pack w methodName
           (MI_onInterface interfaceName # steps) store) \<noteq> AssertionFailed"
proof -
  let ?c = "MethodInvoker_chain proxy (MI_onInterface interfaceName # steps)
              (MethodInvoker_ctor w methodName)"
  obtain r mi where c: "?c = (r, mi)" by (cases ?c)
  from MethodInvoker_chain_after_onInterface [OF assms, of interfaceName steps
      "MethodInvoker_ctor w methodName"] c
  have r: "r \<noteq> AssertionFailed" and v: "r = Returned () \<longrightarrow> isValid (mi_method mi)"
    by simp_all
  show ?thesis
  proof (cases r)
    case AssertionFailed
    with r show ?thesis by simp
  next
    case (Thrown e)
    with c show ?thesis unfolding MethodInvoker_temporary_def by simp
  next
    case (Returned u)
    with v have valid: "isValid (mi_method mi)" by simp
    obtain r' w' mi' where s: "MethodInvoker_storeResultsTo proxy deserialize_pack w mi = (r', w', mi')"
      by (cases "MethodInvoker_storeResultsTo proxy deserialize_pack w mi")
    from MethodInvoker_storeResultsTo_valid [OF valid, of proxy deserialize_pack w] s
    have r': "r' \<noteq> AssertionFailed" by simp
    show ?thesis
      using c Returned s r' MethodInvoker_dtor_no_assertion [of proxy]
      unfolding MethodInvoker_temporary_def
      by (cases r') simp_all
  qed
qed

lemma MethodInvoker_storing_temporary_after_onInterface:
  assumes "creates_valid_calls proxy"
  shows "fst (MethodInvoker_storing_temporary proxy deserialize_pack w methodName
           (MI_onInterface interfaceName # steps)) \<noteq> AssertionFailed"
proof -
  let ?c = "MethodInvoker_chain proxy (MI_onInterface interfaceName # steps)
              (MethodInvoker_ctor w methodName)"
  obtain r mi where c: "?c = (r, mi)" by (cases ?c)
  from MethodInvoker_chain_after_onInterface [OF assms, of interfaceName steps
      "MethodInvoker_ctor w methodName"] c
  have r: "r \<noteq> AssertionFailed" and v: "r = Returned () \<longrightarrow> isValid (mi_method mi)"
    by simp_all
  show ?thesis
  proof (cases r)
    case AssertionFailed
    with r show ?thesis by simp
  next
    case (Thrown e)
    with c show ?thesis unfolding MethodInvoker_storing_temporary_def by simp
  next
    case (Returned u)
    with v have valid: "isValid (mi_method mi)" by simp
    obtain r' w' mi' where s: "MethodInvoker_storeResultsTo proxy deserialize_pack w mi = (r', w', mi')"
      by (cases "MethodInvoker_storeResultsTo proxy deserialize_pack w mi")
    from MethodInvoker_storeResultsTo_valid [OF valid, of proxy deserialize_pack w] s
    have r': "r' \<noteq> AssertionFailed" by simp
    obtain r'' w'' where d: "MethodInvoker_dtor proxy w' mi' = (r'', w'')"
      by (cases "MethodInvoker_dtor proxy w' mi'")
    with MethodInvoker_dtor_no_assertion [of proxy w' mi'] have r'': "r'' \<noteq> AssertionFailed"
      by simp
    show ?thesis
      using c Returned s r' d r''
      unfolding MethodInvoker_storing_temporary_def
      by (cases r'; cases r'') simp_all
  qed
qed

lemma AsyncMethodInvoker_step_valid:
  "creates_valid_calls proxy \<Longrightarrow> isValid (ami_method ami) \<Longrightarrow>
   fst (AsyncMethodInvoker_step proxy step ami) \<noteq> AssertionFailed \<and>
   isValid (ami_method (snd (AsyncMethodInvoker_step proxy step ami)))"
  by (cases step)
     (auto simp: AsyncMethodInvoker_onInterface_def AsyncMethodInvoker_withArguments_def
        AsyncMethodInvoker_withTimeout_def creates_valid_calls_def isValid_simps
        split: sum.splits)

lemma AsyncMethodInvoker_chain_valid:
  "creates_valid_calls proxy \<Longrightarrow> isValid (ami_method ami) \<Longrightarrow>
   fst (AsyncMethodInvoker_chain proxy steps ami) \<noteq> AssertionFailed \<and>
   isValid (ami_method (snd (AsyncMethodInvoker_chain proxy steps ami)))"
proof (induction steps arbitrary: ami)
  case Nil
  then show ?case by simp
next
  case (Cons step steps)
  obtain r ami' where step: "AsyncMethodInvoker_step proxy step ami = (r, ami')"
    by (cases "AsyncMethodInvoker_step proxy step ami")
  from AsyncMethodInvoker_step_valid [OF Cons.prems, of step] step
  have v: "r \<noteq> AssertionFailed" "isValid (ami_method ami')" by simp_all
  with Cons.IH [OF Cons.prems(1), of ami'] step show ?case by (cases r) simp_all
qed

lemma AsyncMethodInvoker_chain_after_onInterface:
  assumes "creates_valid_calls proxy"
  shows "fst (AsyncMethodInvoker_chain proxy (AMI_onInterface interfaceName # steps) ami) \<noteq>
           AssertionFailed \<and>
         (fst (AsyncMethodInvoker_chain proxy (AMI_onInterface interfaceName # steps) ami) =
            Returned () \<longrightarrow>
            isValid (ami_method
              (snd (AsyncMethodInvoker_chain proxy (AMI_onInterface interfaceName # steps) ami))))"
proof (cases "createMethodCall proxy interfaceName (ami_methodName ami)")
  case (Inl e)
  then show ?thesis by (simp add: AsyncMethodInvoker_onInterface_def)
next
  case (Inr msg)
  with assms have "isValid msg" by (auto simp: creates_valid_calls_def)
  then have "isValid (ami_method (ami\<lparr>ami_method := msg\<rparr>))" by simp
  from AsyncMethodInvoker_chain_valid [OF assms this, of steps] Inr
  show ?thesis by (simp add: AsyncMethodInvoker_onInterface_def)
qed

lemma AsyncMethodInvoker_terminal_valid:
  "isValid (ami_method ami) \<Longrightarrow>
   fst (AsyncMethodInvoker_uponReplyInvoke proxy w ami) \<noteq> AssertionFailed \<and>
   fst (AsyncMethodInvoker_getResultAsFuture proxy w ami) \<noteq> AssertionFailed"
  by (simp add: AsyncMethodInvoker_uponReplyInvoke_def AsyncMethodInvoker_getResultAsFuture_def
        split: sum.splits)

lemma AsyncMethodInvoker_temporary_after_onInterface:
  assumes "creates_valid_calls proxy"
  shows "fst (AsyncMethodInvoker_temporary proxy w methodName
           (AMI_onInterface interfaceName # steps) AsyncMethodInvoker_uponReplyInvoke) \<noteq>
           AssertionFailed \<and>
         fst (AsyncMethodInvoker_temporary proxy w methodName
           (AMI_onInterface interfaceName # steps) AsyncMethodInvoker_getResultAsFuture) \<noteq>
           AssertionFailed"
proof -
  let ?c = "AsyncMethodInvoker_chain proxy (AMI_onInterface interfaceName # steps)
              (AsyncMethodInvoker_ctor methodName)"
  obtain r ami where c: "?c = (r, ami)" by (cases ?c)
  from AsyncMethodInvoker_chain_after_onInterface [OF assms, of interfaceName steps
      "AsyncMethodInvoker_ctor methodName"] c
  have r: "r \<noteq> AssertionFailed" and v: "r = Returned () \<longrightarrow> isValid (ami_method ami)"
    by simp_all
  show ?thesis
  proof (cases r)
    case AssertionFailed
    with r show ?thesis by simp
  next
    case (Thrown e)
    with c show ?thesis unfolding AsyncMethodInvoker_temporary_def by simp
  next
    case (Returned u)
    with v have "isValid (ami_method ami)" by simp
    from AsyncMethodInvoker_terminal_valid [OF this, of proxy w]
    show ?thesis
      using c Returned unfolding AsyncMethodInvoker_temporary_def by simp
  qed
qed

lemma MethodInvoker_withTimeouts_invalid:
  "\<not> isValid (mi_method mi) \<Longrightarrow>
   fst (MethodInvoker_chain proxy (map MI_withTimeout usecs) mi) = Returned () \<and>
   \<not> isValid (mi_method (snd (MethodInvoker_chain proxy (map MI_withTimeout usecs) mi)))"
  by (induction usecs arbitrary: mi) (simp_all add: MethodInvoker_withTimeout_def)

lemma MethodInvoker_chain_append:
  "fst (MethodInvoker_chain proxy steps mi) = Returned () \<Longrightarrow>
   MethodInvoker_chain proxy (steps @ steps') mi =
     MethodInvoker_chain proxy steps' (snd (MethodInvoker_chain proxy steps mi))"
proof (induction steps arbitrary: mi)
  case Nil
  then show ?case by simp
next
  case (Cons step steps)
  obtain r mi' where step: "MethodInvoker_step proxy step mi = (r, mi')"
    by (cases "MethodInvoker_step proxy step mi")
  with Cons show ?case by (cases r) simp_all
qed

lemma AsyncMethodInvoker_withTimeouts_invalid:
  "\<not> isValid (ami_method ami) \<Longrightarrow>
   fst (AsyncMethodInvoker_chain proxy (map AMI_withTimeout usecs) ami) = Returned () \<and>
   \<not> isValid (ami_method (snd (AsyncMethodInvoker_chain proxy (map AMI_withTimeout usecs) ami)))"
  by (induction usecs arbitrary: ami) (simp_all add: AsyncMethodInvoker_withTimeout_def)

lemma AsyncMethodInvoker_chain_append:
  "fst (AsyncMethodInvoker_chain proxy steps ami) = Returned () \<Longrightarrow>
   AsyncMethodInvoker_chain proxy (steps @ steps') ami =
     AsyncMethodInvoker_chain proxy steps' (snd (AsyncMethodInvoker_chain proxy steps ami))"
proof (induction steps arbitrary: ami)
  case Nil
  then show ?case by simp
next
  case (Cons step steps)
  obtain r ami' where step: "AsyncMethodInvoker_step proxy step ami = (r, ami')"
    by (cases "AsyncMethodInvoker_step proxy step ami")
  with Cons show ?case by (cases r) simp_all
qed

text \<open>
  Claim C8, as amended, for a debug build. The steps that carry an assertion fail it in
  a builder on which \<^verbatim>\<open>onInterface\<close> has not run: \<^verbatim>\<open>withArguments\<close>, \<^verbatim>\<open>storeResultsTo\<close>,
  \<^verbatim>\<open>dontExpectReply\<close>, \<^verbatim>\<open>uponReplyInvoke\<close> and \<^verbatim>\<open>getResultAsFuture\<close> on an invalid
  message, \<^verbatim>\<open>SignalSubscriber::call\<close> on an empty interface name, and \<^verbatim>\<open>toValue\<close> of
  \<^verbatim>\<open>PropertySetter\<close> and the terminal steps of the asynchronous property builders on a null
  interface name; that is the state of every fresh builder, and \<^verbatim>\<open>withTimeout\<close>, called any
  number of times, does not change it. \<^verbatim>\<open>withTimeout\<close> and \<^verbatim>\<open>AsyncPropertySetter::toValue\<close>
  have no assertion and return in every state.

  With collaborators that create valid messages, no assertion fails in a chain that begins
  with \<^verbatim>\<open>onInterface\<close>, whatever steps follow and in whatever order, nor in the step that
  ends it; the same holds of every property builder after its \<^verbatim>\<open>onInterface\<close>, also of
  the invokers it uses inside, and of \<^verbatim>\<open>SignalSubscriber::call\<close> after \<^verbatim>\<open>onInterface\<close> with
  a name that is not empty. \<^verbatim>\<open>VTableAdder\<close> and \<^verbatim>\<open>SignalUnsubscriber\<close> have one step and no
  assertion.
\<close>

theorem builder_assertions:
  "(\<not> isValid (se_signal se) \<longrightarrow>
      fst (SignalEmitter_withArguments args se) = AssertionFailed) \<and>
   (\<not> isValid (mi_method mi) \<longrightarrow>
      fst (MethodInvoker_withArguments args mi) = AssertionFailed \<and>
      fst (MethodInvoker_storeResultsTo proxy deserialize_pack w mi) = AssertionFailed \<and>
      fst (MethodInvoker_dontExpectReply mi) = AssertionFailed) \<and>
   (\<not> isValid (ami_method ami) \<longrightarrow>
      fst (AsyncMethodInvoker_withArguments args ami) = AssertionFailed \<and>
      fst (AsyncMethodInvoker_uponReplyInvoke proxy w ami) = AssertionFailed \<and>
      fst (AsyncMethodInvoker_getResultAsFuture proxy w ami) = AssertionFailed) \<and>
   (ss_interfaceName ss = [] \<longrightarrow> fst (SignalSubscriber_call proxy w ss) = AssertionFailed) \<and>
   \<not> isValid (se_signal (SignalEmitter_ctor w name)) \<and>
   \<not> isValid (mi_method (MethodInvoker_ctor w name)) \<and>
   \<not> isValid (ami_method (AsyncMethodInvoker_ctor name :: 'v AsyncMethodInvoker)) \<and>
   ss_interfaceName (SignalSubscriber_ctor name) = [] \<and>
   fst (MethodInvoker_withTimeout usec mi) = Returned () \<and>
   fst (AsyncMethodInvoker_withTimeout usec ami) = Returned () \<and>
   (createSignal object interfaceName (se_signalName se) = Inr signal \<and> isValid signal \<longrightarrow>
      fst (SignalEmitter_onInterface object interfaceName se) = Returned () \<and>
      fst (SignalEmitter_withArguments args
        (snd (SignalEmitter_onInterface object interfaceName se))) = Returned ()) \<and>
   (createMethodCall proxy interfaceName (mi_methodName mi) = Inr msg \<and> isValid msg \<longrightarrow>
      fst (MethodInvoker_onInterface proxy interfaceName mi) = Returned () \<and>
      fst (MethodInvoker_withArguments args
        (snd (MethodInvoker_onInterface proxy interfaceName mi))) = Returned () \<and>
      fst (MethodInvoker_storeResultsTo proxy deserialize_pack w
        (snd (MethodInvoker_onInterface proxy interfaceName mi))) \<noteq> AssertionFailed \<and>
      fst (MethodInvoker_storeResultsTo proxy deserialize_pack w
        (snd (MethodInvoker_withArguments args
          (snd (MethodInvoker_onInterface proxy interfaceName mi))))) \<noteq> AssertionFailed \<and>
      fst (MethodInvoker_dontExpectReply
        (snd (MethodInvoker_onInterface proxy interfaceName mi))) = Returned ()) \<and>
   (createMethodCall proxy interfaceName (ami_methodName ami) = Inr msg \<and> isValid msg \<longrightarrow>
      fst (AsyncMethodInvoker_onInterface proxy interfaceName ami) = Returned () \<and>
      fst (AsyncMethodInvoker_withArguments args
        (snd (AsyncMethodInvoker_onInterface proxy interfaceName ami))) = Returned () \<and>
      fst (AsyncMethodInvoker_uponReplyInvoke proxy w
        (snd (AsyncMethodInvoker_onInterface proxy interfaceName ami))) \<noteq> AssertionFailed \<and>
      fst (AsyncMethodInvoker_getResultAsFuture proxy w
        (snd (AsyncMethodInvoker_withArguments args
          (snd (AsyncMethodInvoker_onInterface proxy interfaceName ami))))) \<noteq> AssertionFailed) \<and>
   (interfaceName \<noteq> [] \<longrightarrow>
      fst (SignalSubscriber_call proxy w
        (snd (SignalSubscriber_onInterface interfaceName ss))) \<noteq> AssertionFailed) \<and>
   fst (MethodInvoker_chain (proxy :: 'v IProxy)
     (map MI_withTimeout usecs @ [MI_withArguments args])
     (MethodInvoker_ctor w name)) = AssertionFailed \<and>
   fst (MethodInvoker_chain proxy (map MI_withTimeout usecs @ [MI_dontExpectReply])
     (MethodInvoker_ctor w name)) = AssertionFailed \<and>
   fst (MethodInvoker_storeResultsTo proxy deserialize_pack w
     (snd (MethodInvoker_chain proxy (map MI_withTimeout usecs) (MethodInvoker_ctor w name)))) =
     AssertionFailed \<and>
   fst (AsyncMethodInvoker_chain proxy (map AMI_withTimeout usecs @ [AMI_withArguments args])
     (AsyncMethodInvoker_ctor name)) = AssertionFailed \<and>
   fst (AsyncMethodInvoker_temporary proxy w name (map AMI_withTimeout usecs)
     AsyncMethodInvoker_uponReplyInvoke) = AssertionFailed \<and>
   fst (AsyncMethodInvoker_temporary proxy w name (map AMI_withTimeout usecs)
     AsyncMethodInvoker_getResultAsFuture) = AssertionFailed \<and>
   (creates_valid_signals object \<longrightarrow>
      fst (SignalEmitter_chain object (SE_onInterface interfaceName # esteps) se) \<noteq>
        AssertionFailed) \<and>
   (creates_valid_calls proxy \<longrightarrow>
      fst (MethodInvoker_chain proxy (MI_onInterface interfaceName # steps) mi) \<noteq>
        AssertionFailed \<and>
      (fst (MethodInvoker_chain proxy (MI_onInterface interfaceName # steps) mi) = Returned () \<longrightarrow>
         isValid (mi_method
           (snd (MethodInvoker_chain proxy (MI_onInterface interfaceName # steps) mi))) \<and>
         fst (MethodInvoker_storeResultsTo proxy deserialize_pack w
           (snd (MethodInvoker_chain proxy (MI_onInterface interfaceName # steps) mi))) \<noteq>
           AssertionFailed) \<and>
      fst (MethodInvoker_temporary proxy deserialize_pack w name
        (MI_onInterface interfaceName # steps) store) \<noteq> AssertionFailed \<and>
      fst (AsyncMethodInvoker_chain proxy (AMI_onInterface interfaceName # asteps) ami) \<noteq>
        AssertionFailed \<and>
      (fst (AsyncMethodInvoker_chain proxy (AMI_onInterface interfaceName # asteps) ami) =
         Returned () \<longrightarrow>
         isValid (ami_method
           (snd (AsyncMethodInvoker_chain proxy (AMI_onInterface interfaceName # asteps) ami))) \<and>
         fst (AsyncMethodInvoker_uponReplyInvoke proxy w
           (snd (AsyncMethodInvoker_chain proxy (AMI_onInterface interfaceName # asteps) ami))) \<noteq>
           AssertionFailed \<and>
         fst (AsyncMethodInvoker_getResultAsFuture proxy w
           (snd (AsyncMethodInvoker_chain proxy (AMI_onInterface interfaceName # asteps) ami))) \<noteq>
           AssertionFailed)) \<and>
   (apg_interfaceName apg = None \<longrightarrow>
      fst (AsyncPropertyGetter_uponReplyInvoke pproxy pw apg) = AssertionFailed \<and>
      fst (AsyncPropertyGetter_getResultAsFuture pproxy pw apg) = AssertionFailed) \<and>
   (ps_interfaceName ps = None \<longrightarrow>
      fst (PropertySetter_toValue pproxy pw val ps) = AssertionFailed \<and>
      fst (PropertySetter_toValue_dont_expect_reply pproxy pw val ps) = AssertionFailed) \<and>
   (aps_interfaceName aps = None \<longrightarrow>
      fst (AsyncPropertySetter_uponReplyInvoke pproxy pw aps) = AssertionFailed \<and>
      fst (AsyncPropertySetter_getResultAsFuture pproxy pw aps) = AssertionFailed) \<and>
   (aapg_interfaceName aapg = None \<longrightarrow>
      fst (AsyncAllPropertiesGetter_uponReplyInvoke pproxy pw aapg) = AssertionFailed \<and>
      fst (AsyncAllPropertiesGetter_getResultAsFuture pproxy pw aapg) = AssertionFailed) \<and>
   apg_interfaceName (AsyncPropertyGetter_ctor propertyName) = None \<and>
   ps_interfaceName (PropertySetter_ctor propertyName) = None \<and>
   aps_interfaceName (AsyncPropertySetter_ctor propertyName :: 'a AsyncPropertySetter) = None \<and>
   aapg_interfaceName AsyncAllPropertiesGetter_ctor = None \<and>
   fst (AsyncPropertySetter_toValue val aps) = Returned () \<and>
   aps_interfaceName (snd (AsyncPropertySetter_toValue val aps)) = aps_interfaceName aps \<and>
   (creates_valid_calls pproxy \<longrightarrow>
      fst (PropertyGetter_onInterface pproxy pdeserialize_pack pw interfaceName pg) \<noteq>
        AssertionFailed \<and>
      fst (AllPropertiesGetter_onInterface pproxy pdeserialize_pack pw interfaceName) \<noteq>
        AssertionFailed \<and>
      fst (AsyncPropertyGetter_uponReplyInvoke pproxy pw
        (snd (AsyncPropertyGetter_onInterface interfaceName apg))) \<noteq> AssertionFailed \<and>
      fst (AsyncPropertyGetter_getResultAsFuture pproxy pw
        (snd (AsyncPropertyGetter_onInterface interfaceName apg))) \<noteq> AssertionFailed \<and>
      fst (PropertySetter_toValue pproxy pw val
        (snd (PropertySetter_onInterface interfaceName ps))) \<noteq> AssertionFailed \<and>
      fst (PropertySetter_toValue_dont_expect_reply pproxy pw val
        (snd (PropertySetter_onInterface interfaceName ps))) \<noteq> AssertionFailed \<and>
      fst (AsyncPropertySetter_uponReplyInvoke pproxy pw
        (snd (AsyncPropertySetter_toValue val
          (snd (AsyncPropertySetter_onInterface interfaceName aps))))) \<noteq> AssertionFailed \<and>
      fst (AsyncPropertySetter_getResultAsFuture pproxy pw
        (snd (AsyncPropertySetter_toValue val
          (snd (AsyncPropertySetter_onInterface interfaceName aps))))) \<noteq> AssertionFailed \<and>
      fst (AsyncPropertySetter_uponReplyInvoke pproxy pw
        (snd (AsyncPropertySetter_onInterface interfaceName aps))) \<noteq> AssertionFailed \<and>
      fst (AsyncAllPropertiesGetter_uponReplyInvoke pproxy pw
        (snd (AsyncAllPropertiesGetter_onInterface interfaceName aapg))) \<noteq> AssertionFailed \<and>
      fst (AsyncAllPropertiesGetter_getResultAsFuture pproxy pw
        (snd (AsyncAllPropertiesGetter_onInterface interfaceName aapg))) \<noteq> AssertionFailed) \<and>
   VTableAdder_forInterface addVTable interfaceName va \<noteq> AssertionFailed \<and>
   VTableAdder_forInterface_request_slot addVTableSlot interfaceName va \<noteq> AssertionFailed \<and>
   SignalUnsubscriber_onInterface unregisterSignalHandler interfaceName su \<noteq> AssertionFailed"
proof -
  have emitter: "\<not> isValid (se_signal se) \<longrightarrow>
      fst (SignalEmitter_withArguments args se) = AssertionFailed"
    by (simp add: SignalEmitter_withArguments_def)
  have invoker: "\<not> isValid (mi_method mi) \<longrightarrow>
      fst (MethodInvoker_withArguments args mi) = AssertionFailed \<and>
      fst (MethodInvoker_storeResultsTo proxy deserialize_pack w mi) = AssertionFailed \<and>
      fst (MethodInvoker_dontExpectReply mi) = AssertionFailed"
    by (simp add: MethodInvoker_withArguments_def MethodInvoker_storeResultsTo_def
          MethodInvoker_dontExpectReply_def)
  have async: "\<not> isValid (ami_method ami) \<longrightarrow>
      fst (AsyncMethodInvoker_withArguments args ami) = AssertionFailed \<and>
      fst (AsyncMethodInvoker_uponReplyInvoke proxy w ami) = AssertionFailed \<and>
      fst (AsyncMethodInvoker_getResultAsFuture proxy w ami) = AssertionFailed"
    by (simp add: AsyncMethodInvoker_withArguments_def AsyncMethodInvoker_uponReplyInvoke_def
          AsyncMethodInvoker_getResultAsFuture_def)
  have subscriber: "ss_interfaceName ss = [] \<longrightarrow>
      fst (SignalSubscriber_call proxy w ss) = AssertionFailed"
    by (simp add: SignalSubscriber_call_def)
  have fresh: "\<not> isValid (se_signal (SignalEmitter_ctor w name))"
    "\<not> isValid (mi_method (MethodInvoker_ctor w name))"
    "\<not> isValid (ami_method (AsyncMethodInvoker_ctor name :: 'v AsyncMethodInvoker))"
    "ss_interfaceName (SignalSubscriber_ctor name) = []"
    by (simp_all add: SignalEmitter_ctor_def MethodInvoker_ctor_def AsyncMethodInvoker_ctor_def
          SignalSubscriber_ctor_def isValid_simps)
  have timeout: "fst (MethodInvoker_withTimeout usec mi) = Returned ()"
    "fst (AsyncMethodInvoker_withTimeout usec ami) = Returned ()"
    by (simp_all add: MethodInvoker_withTimeout_def AsyncMethodInvoker_withTimeout_def)
  have emitter_ok:
    "createSignal object interfaceName (se_signalName se) = Inr signal \<and> isValid signal \<longrightarrow>
      fst (SignalEmitter_onInterface object interfaceName se) = Returned () \<and>
      fst (SignalEmitter_withArguments args
        (snd (SignalEmitter_onInterface object interfaceName se))) = Returned ()"
    by (simp add: SignalEmitter_onInterface_def SignalEmitter_withArguments_def)
  have invoker_ok:
    "createMethodCall proxy interfaceName (mi_methodName mi) = Inr msg \<and> isValid msg \<longrightarrow>
      fst (MethodInvoker_onInterface proxy interfaceName mi) = Returned () \<and>
      fst (MethodInvoker_withArguments args
        (snd (MethodInvoker_onInterface proxy interfaceName mi))) = Returned () \<and>
      fst (MethodInvoker_storeResultsTo proxy deserialize_pack w
        (snd (MethodInvoker_onInterface proxy interfaceName mi))) \<noteq> AssertionFailed \<and>
      fst (MethodInvoker_storeResultsTo proxy deserialize_pack w
        (snd (MethodInvoker_withArguments args
          (snd (MethodInvoker_onInterface proxy interfaceName mi))))) \<noteq> AssertionFailed \<and>
      fst (MethodInvoker_dontExpectReply
        (snd (MethodInvoker_onInterface proxy interfaceName mi))) = Returned ()"
    by (simp add: MethodInvoker_onInterface_def MethodInvoker_withArguments_def
          MethodInvoker_storeResultsTo_def MethodInvoker_dontExpectReply_def isValid_simps
          split: sum.splits)
  have async_ok:
    "createMethodCall proxy interfaceName (ami_methodName ami) = Inr msg \<and> isValid msg \<longrightarrow>
      fst (AsyncMethodInvoker_onInterface proxy interfaceName ami) = Returned () \<and>
      fst (AsyncMethodInvoker_withArguments args
        (snd (AsyncMethodInvoker_onInterface proxy interfaceName ami))) = Returned () \<and>
      fst (AsyncMethodInvoker_uponReplyInvoke proxy w
        (snd (AsyncMethodInvoker_onInterface proxy interfaceName ami))) \<noteq> AssertionFailed \<and>
      fst (AsyncMethodInvoker_getResultAsFuture proxy w
        (snd (AsyncMethodInvoker_withArguments args
          (snd (AsyncMethodInvoker_onInterface proxy interfaceName ami))))) \<noteq> AssertionFailed"
    by (simp add: AsyncMethodInvoker_onInterface_def AsyncMethodInvoker_withArguments_def
          AsyncMethodInvoker_uponReplyInvoke_def AsyncMethodInvoker_getResultAsFuture_def
          isValid_simps split: sum.splits)
  have subscriber_ok: "interfaceName \<noteq> [] \<longrightarrow>
      fst (SignalSubscriber_call proxy w
        (snd (SignalSubscriber_onInterface interfaceName ss))) \<noteq> AssertionFailed"
    by (simp add: SignalSubscriber_call_def SignalSubscriber_onInterface_def split: option.splits)
  note mi_to = MethodInvoker_withTimeouts_invalid [OF fresh(2), of proxy usecs]
  note ami_to = AsyncMethodInvoker_withTimeouts_invalid [OF fresh(3), of proxy usecs]
  have before:
    "fst (MethodInvoker_chain proxy (map MI_withTimeout usecs @ [MI_withArguments args])
       (MethodInvoker_ctor w name)) = AssertionFailed"
    "fst (MethodInvoker_chain proxy (map MI_withTimeout usecs @ [MI_dontExpectReply])
       (MethodInvoker_ctor w name)) = AssertionFailed"
    "fst (MethodInvoker_storeResultsTo proxy deserialize_pack w
       (snd (MethodInvoker_chain proxy (map MI_withTimeout usecs) (MethodInvoker_ctor w name)))) =
       AssertionFailed"
    using mi_to
    by (simp_all add: MethodInvoker_chain_append MethodInvoker_withArguments_def
          MethodInvoker_dontExpectReply_def MethodInvoker_storeResultsTo_def)
  have async_before:
    "fst (AsyncMethodInvoker_chain proxy (map AMI_withTimeout usecs @ [AMI_withArguments args])
       (AsyncMethodInvoker_ctor name)) = AssertionFailed"
    using ami_to
    by (simp add: AsyncMethodInvoker_chain_append AsyncMethodInvoker_withArguments_def)
  obtain ami0 where ami0: "AsyncMethodInvoker_chain proxy (map AMI_withTimeout usecs)
      (AsyncMethodInvoker_ctor name) = (Returned (), ami0)" "\<not> isValid (ami_method ami0)"
    using ami_to
    by (cases "AsyncMethodInvoker_chain proxy (map AMI_withTimeout usecs)
      (AsyncMethodInvoker_ctor name)") auto
  have async_terminal_before:
    "fst (AsyncMethodInvoker_temporary proxy w name (map AMI_withTimeout usecs)
       AsyncMethodInvoker_uponReplyInvoke) = AssertionFailed"
    "fst (AsyncMethodInvoker_temporary proxy w name (map AMI_withTimeout usecs)
       AsyncMethodInvoker_getResultAsFuture) = AssertionFailed"
    using ami0
    by (simp_all add: AsyncMethodInvoker_temporary_def AsyncMethodInvoker_uponReplyInvoke_def
          AsyncMethodInvoker_getResultAsFuture_def)
  have emitter_chain: "creates_valid_signals object \<longrightarrow>
      fst (SignalEmitter_chain object (SE_onInterface interfaceName # esteps) se) \<noteq>
        AssertionFailed"
    using SignalEmitter_chain_after_onInterface by blast
  have invoker_chain: "creates_valid_calls proxy \<longrightarrow>
      fst (MethodInvoker_chain proxy (MI_onInterface interfaceName # steps) mi) \<noteq>
        AssertionFailed \<and>
      (fst (MethodInvoker_chain proxy (MI_onInterface interfaceName # steps) mi) = Returned () \<longrightarrow>
         isValid (mi_method
           (snd (MethodInvoker_chain proxy (MI_onInterface interfaceName # steps) mi))) \<and>
         fst (MethodInvoker_storeResultsTo proxy deserialize_pack w
           (snd (MethodInvoker_chain proxy (MI_onInterface interfaceName # steps) mi))) \<noteq>
           AssertionFailed) \<and>
      fst (MethodInvoker_temporary proxy deserialize_pack w name
        (MI_onInterface interfaceName # steps) store) \<noteq> AssertionFailed \<and>
      fst (AsyncMethodInvoker_chain proxy (AMI_onInterface interfaceName # asteps) ami) \<noteq>
        AssertionFailed \<and>
      (fst (AsyncMethodInvoker_chain proxy (AMI_onInterface interfaceName # asteps) ami) =
         Returned () \<longrightarrow>
         isValid (ami_method
           (snd (AsyncMethodInvoker_chain proxy (AMI_onInterface interfaceName # asteps) ami))) \<and>
         fst (AsyncMethodInvoker_uponReplyInvoke proxy w
           (snd (AsyncMethodInvoker_chain proxy (AMI_onInterface interfaceName # asteps) ami))) \<noteq>
           AssertionFailed \<and>
         fst (AsyncMethodInvoker_getResultAsFuture proxy w
           (snd (AsyncMethodInvoker_chain proxy (AMI_onInterface interfaceName # asteps) ami))) \<noteq>
           AssertionFailed)"
    using MethodInvoker_chain_after_onInterface [of proxy interfaceName steps mi]
      MethodInvoker_storeResultsTo_valid [of _ proxy deserialize_pack w]
      MethodInvoker_temporary_after_onInterface [of proxy deserialize_pack w name interfaceName steps store]
      AsyncMethodInvoker_chain_after_onInterface [of proxy interfaceName asteps ami]
      AsyncMethodInvoker_terminal_valid [of _ proxy w]
    by blast
  have unset:
    "apg_interfaceName apg = None \<longrightarrow>
      fst (AsyncPropertyGetter_uponReplyInvoke pproxy pw apg) = AssertionFailed \<and>
      fst (AsyncPropertyGetter_getResultAsFuture pproxy pw apg) = AssertionFailed"
    "ps_interfaceName ps = None \<longrightarrow>
      fst (PropertySetter_toValue pproxy pw val ps) = AssertionFailed \<and>
      fst (PropertySetter_toValue_dont_expect_reply pproxy pw val ps) = AssertionFailed"
    "aps_interfaceName aps = None \<longrightarrow>
      fst (AsyncPropertySetter_uponReplyInvoke pproxy pw aps) = AssertionFailed \<and>
      fst (AsyncPropertySetter_getResultAsFuture pproxy pw aps) = AssertionFailed"
    "aapg_interfaceName aapg = None \<longrightarrow>
      fst (AsyncAllPropertiesGetter_uponReplyInvoke pproxy pw aapg) = AssertionFailed \<and>
      fst (AsyncAllPropertiesGetter_getResultAsFuture pproxy pw aapg) = AssertionFailed"
    by (simp_all add: AsyncPropertyGetter_uponReplyInvoke_def
          AsyncPropertyGetter_getResultAsFuture_def PropertySetter_toValue_def
          PropertySetter_toValue_dont_expect_reply_def AsyncPropertySetter_uponReplyInvoke_def
          AsyncPropertySetter_getResultAsFuture_def AsyncAllPropertiesGetter_uponReplyInvoke_def
          AsyncAllPropertiesGetter_getResultAsFuture_def)
  have fresh_property:
    "apg_interfaceName (AsyncPropertyGetter_ctor propertyName) = None"
    "ps_interfaceName (PropertySetter_ctor propertyName) = None"
    "aps_interfaceName (AsyncPropertySetter_ctor propertyName :: 'a AsyncPropertySetter) = None"
    "aapg_interfaceName AsyncAllPropertiesGetter_ctor = None"
    by (simp_all add: AsyncPropertyGetter_ctor_def PropertySetter_ctor_def
          AsyncPropertySetter_ctor_def AsyncAllPropertiesGetter_ctor_def)
  have toValue:
    "fst (AsyncPropertySetter_toValue val aps) = Returned ()"
    "aps_interfaceName (snd (AsyncPropertySetter_toValue val aps)) = aps_interfaceName aps"
    by (simp_all add: AsyncPropertySetter_toValue_def)
  have property_ok: "creates_valid_calls pproxy \<longrightarrow>
      fst (PropertyGetter_onInterface pproxy pdeserialize_pack pw interfaceName pg) \<noteq>
        AssertionFailed \<and>
      fst (AllPropertiesGetter_onInterface pproxy pdeserialize_pack pw interfaceName) \<noteq>
        AssertionFailed \<and>
      fst (AsyncPropertyGetter_uponReplyInvoke pproxy pw
        (snd (AsyncPropertyGetter_onInterface interfaceName apg))) \<noteq> AssertionFailed \<and>
      fst (AsyncPropertyGetter_getResultAsFuture pproxy pw
        (snd (AsyncPropertyGetter_onInterface interfaceName apg))) \<noteq> AssertionFailed \<and>
      fst (PropertySetter_toValue pproxy pw val
        (snd (PropertySetter_onInterface interfaceName ps))) \<noteq> AssertionFailed \<and>
      fst (PropertySetter_toValue_dont_expect_reply pproxy pw val
        (snd (PropertySetter_onInterface interfaceName ps))) \<noteq> AssertionFailed \<and>
      fst (AsyncPropertySetter_uponReplyInvoke pproxy pw
        (snd (AsyncPropertySetter_toValue val
          (snd (AsyncPropertySetter_onInterface interfaceName aps))))) \<noteq> AssertionFailed \<and>
      fst (AsyncPropertySetter_getResultAsFuture pproxy pw
        (snd (AsyncPropertySetter_toValue val
          (snd (AsyncPropertySetter_onInterface interfaceName aps))))) \<noteq> AssertionFailed \<and>
      fst (AsyncPropertySetter_uponReplyInvoke pproxy pw
        (snd (AsyncPropertySetter_onInterface interfaceName aps))) \<noteq> AssertionFailed \<and>
      fst (AsyncAllPropertiesGetter_uponReplyInvoke pproxy pw
        (snd (AsyncAllPropertiesGetter_onInterface interfaceName aapg))) \<noteq> AssertionFailed \<and>
      fst (AsyncAllPropertiesGetter_getResultAsFuture pproxy pw
        (snd (AsyncAllPropertiesGetter_onInterface interfaceName aapg))) \<noteq> AssertionFailed"
    by (simp add: PropertyGetter_onInterface_def AllPropertiesGetter_onInterface_def
          AsyncPropertyGetter_uponReplyInvoke_def AsyncPropertyGetter_getResultAsFuture_def
          AsyncPropertyGetter_onInterface_def PropertySetter_toValue_def
          PropertySetter_toValue_dont_expect_reply_def PropertySetter_onInterface_def
          AsyncPropertySetter_uponReplyInvoke_def AsyncPropertySetter_getResultAsFuture_def
          AsyncPropertySetter_onInterface_def AsyncPropertySetter_toValue_def
          AsyncAllPropertiesGetter_uponReplyInvoke_def
          AsyncAllPropertiesGetter_getResultAsFuture_def
          AsyncAllPropertiesGetter_onInterface_def
          MethodInvoker_storing_temporary_after_onInterface
          MethodInvoker_temporary_after_onInterface
          AsyncMethodInvoker_temporary_after_onInterface)
  have single:
    "VTableAdder_forInterface addVTable interfaceName va \<noteq> AssertionFailed"
    "VTableAdder_forInterface_request_slot addVTableSlot interfaceName va \<noteq> AssertionFailed"
    "SignalUnsubscriber_onInterface unregisterSignalHandler interfaceName su \<noteq> AssertionFailed"
    by (simp_all add: VTableAdder_forInterface_def VTableAdder_forInterface_request_slot_def
          SignalUnsubscriber_onInterface_def split: option.splits sum.splits)
  show ?thesis
    by (intro conjI)
       (rule emitter, rule invoker, rule async, rule subscriber, rule fresh(1), rule fresh(2),
        rule fresh(3), rule fresh(4), rule timeout(1), rule timeout(2), rule emitter_ok,
        rule invoker_ok, rule async_ok, rule subscriber_ok, rule before(1), rule before(2),
        rule before(3), rule async_before, rule async_terminal_before(1),
        rule async_terminal_before(2), rule emitter_chain, rule invoker_chain, rule unset(1),
        rule unset(2), rule unset(3), rule unset(4), rule fresh_property(1),
        rule fresh_property(2), rule fresh_property(3), rule fresh_property(4), rule toValue(1),
        rule toValue(2), rule property_ok, rule single(1), rule single(2), rule single(3))
qed

text \<open>
  Claim C8 as stated fails at \<^verbatim>\<open>withTimeout\<close> and at \<^verbatim>\<open>AsyncPropertySetter::toValue\<close>:
  called on a fresh builder, before \<^verbatim>\<open>onInterface\<close>, with the message invalid and the
  interface name null, each stores its argument and returns. And it fails after
  \<^verbatim>\<open>onInterface\<close> where that was given the empty name: \<^verbatim>\<open>SignalSubscriber::call\<close> then
  fails its assertion.
\<close>

theorem withTimeout_before_onInterface:
  "\<not> isValid (mi_method (MethodInvoker_ctor \<lparr>uncaught_exceptions = 0, calls = []\<rparr> ''Ping''
      :: string MethodInvoker)) \<and>
   MethodInvoker_withTimeout 5000
     (MethodInvoker_ctor \<lparr>uncaught_exceptions = 0, calls = [] :: string call list\<rparr> ''Ping'') =
   (Returned (),
    \<lparr>mi_methodName = ''Ping'', mi_exceptions = 0, mi_method = default_message,
      mi_timeout = 5000, mi_methodCalled = False\<rparr>) \<and>
   AsyncPropertySetter_toValue (Some ''on'') (AsyncPropertySetter_ctor ''state'') =
   (Returned (),
    \<lparr>aps_propertyName = ''state'', aps_interfaceName = None, aps_value = Some ''on''\<rparr>) \<and>
   SignalSubscriber_call echo_proxy \<lparr>uncaught_exceptions = 0, calls = []\<rparr>
     (snd (SignalSubscriber_onInterface [] (SignalSubscriber_ctor ''dataSignal''))) =
   (AssertionFailed, \<lparr>uncaught_exceptions = 0, calls = []\<rparr>)"
  by (simp add: MethodInvoker_withTimeout_def MethodInvoker_ctor_def isValid_def
        default_message_def AsyncPropertySetter_toValue_def AsyncPropertySetter_ctor_def
        SignalSubscriber_call_def SignalSubscriber_onInterface_def SignalSubscriber_ctor_def)

text \<open>
  The theorem of claim C8 at the calls of the performance tests and at a property
  \<^verbatim>\<open>state\<close>: builders before \<^verbatim>\<open>onInterface\<close>, and chains that begin with it.
\<close>

theorem builder_assertions_witness:
  "fst (SignalEmitter_withArguments [''data'']
     (SignalEmitter_ctor \<lparr>uncaught_exceptions = 0, calls = [] :: string call list\<rparr>
       ''dataSignal'')) = AssertionFailed \<and>
   fst (MethodInvoker_withArguments [''a'']
     (MethodInvoker_ctor \<lparr>uncaught_exceptions = 0, calls = [] :: string call list\<rparr> ''Ping'')) =
     AssertionFailed \<and>
   fst (AsyncMethodInvoker_uponReplyInvoke echo_proxy \<lparr>uncaught_exceptions = 0, calls = []\<rparr>
     (AsyncMethodInvoker_ctor ''Ping'')) = AssertionFailed \<and>
   fst (SignalSubscriber_call echo_proxy \<lparr>uncaught_exceptions = 0, calls = []\<rparr>
     (SignalSubscriber_ctor ''dataSignal'')) = AssertionFailed \<and>
   createSignal perftests_object ''org.sdbuscpp.perftests'' ''dataSignal'' =
     Inr \<lparr>msg_valid = True, msg_interface = ''org.sdbuscpp.perftests'',
       msg_member = ''dataSignal'', msg_payload = [], msg_no_reply = False\<rparr> \<and>
   fst (SignalEmitter_withArguments [''data'']
     (snd (SignalEmitter_onInterface perftests_object ''org.sdbuscpp.perftests''
       (SignalEmitter_ctor \<lparr>uncaught_exceptions = 0, calls = [] :: string call list\<rparr>
         ''dataSignal'')))) = Returned () \<and>
   createMethodCall echo_proxy ''org.sdbuscpp.perftests'' ''Ping'' =
     Inr \<lparr>msg_valid = True, msg_interface = ''org.sdbuscpp.perftests'', msg_member = ''Ping'',
       msg_payload = [], msg_no_reply = False\<rparr> \<and>
   fst (MethodInvoker_withArguments [''a'']
     (snd (MethodInvoker_onInterface echo_proxy ''org.sdbuscpp.perftests''
       (MethodInvoker_ctor \<lparr>uncaught_exceptions = 0, calls = [] :: string call list\<rparr> ''Ping'')))) =
     Returned () \<and>
   fst (AsyncMethodInvoker_uponReplyInvoke echo_proxy \<lparr>uncaught_exceptions = 0, calls = []\<rparr>
     (snd (AsyncMethodInvoker_onInterface echo_proxy ''org.sdbuscpp.perftests''
       (AsyncMethodInvoker_ctor ''Ping'')))) \<noteq> AssertionFailed \<and>
   fst (SignalSubscriber_call echo_proxy \<lparr>uncaught_exceptions = 0, calls = []\<rparr>
     (snd (SignalSubscriber_onInterface ''org.sdbuscpp.perftests''
       (SignalSubscriber_ctor ''dataSignal'')))) \<noteq> AssertionFailed \<and>
   fst (MethodInvoker_chain echo_proxy [MI_withTimeout 5000, MI_withArguments [''a'']]
     (MethodInvoker_ctor \<lparr>uncaught_exceptions = 0, calls = [] :: string call list\<rparr> ''Ping'')) =
     AssertionFailed \<and>
   fst (AsyncMethodInvoker_temporary echo_proxy \<lparr>uncaught_exceptions = 0, calls = []\<rparr> ''Ping''
     [AMI_withTimeout 5000] AsyncMethodInvoker_uponReplyInvoke) = AssertionFailed \<and>
   creates_valid_signals perftests_object \<and>
   fst (SignalEmitter_chain perftests_object
     [SE_onInterface ''org.sdbuscpp.perftests'', SE_withArguments [''data'']]
     (SignalEmitter_ctor \<lparr>uncaught_exceptions = 0, calls = [] :: string call list\<rparr>
       ''dataSignal'')) \<noteq> AssertionFailed \<and>
   creates_valid_calls echo_proxy \<and>
   fst (MethodInvoker_chain echo_proxy
     [MI_onInterface ''org.sdbuscpp.perftests'', MI_withTimeout 5000, MI_withArguments [''a''],
      MI_dontExpectReply]
     (MethodInvoker_ctor \<lparr>uncaught_exceptions = 0, calls = [] :: string call list\<rparr> ''Ping'')) =
     Returned () \<and>
   fst (MethodInvoker_storeResultsTo echo_proxy (\<lambda>reply. Inr (msg_payload reply))
     \<lparr>uncaught_exceptions = 0, calls = []\<rparr>
     (snd (MethodInvoker_chain echo_proxy
     [MI_onInterface ''org.sdbuscpp.perftests'', MI_withTimeout 5000, MI_withArguments [''a''],
      MI_dontExpectReply]
     (MethodInvoker_ctor \<lparr>uncaught_exceptions = 0, calls = [] :: string call list\<rparr> ''Ping'')))) \<noteq>
     AssertionFailed \<and>
   fst (MethodInvoker_temporary echo_proxy (\<lambda>reply. Inr (msg_payload reply))
     \<lparr>uncaught_exceptions = 0, calls = []\<rparr> ''Ping''
     [MI_onInterface ''org.sdbuscpp.perftests'', MI_withTimeout 5000, MI_withArguments [''a''],
      MI_dontExpectReply]
     True) \<noteq> AssertionFailed \<and>
   fst (AsyncMethodInvoker_chain echo_proxy
     [AMI_onInterface ''org.sdbuscpp.perftests'', AMI_withTimeout 5000, AMI_withArguments [''a'']]
     (AsyncMethodInvoker_ctor ''Ping'')) = Returned () \<and>
   fst (AsyncMethodInvoker_getResultAsFuture echo_proxy \<lparr>uncaught_exceptions = 0, calls = []\<rparr>
     (snd (AsyncMethodInvoker_chain echo_proxy
     [AMI_onInterface ''org.sdbuscpp.perftests'', AMI_withTimeout 5000, AMI_withArguments [''a'']]
     (AsyncMethodInvoker_ctor ''Ping'')))) \<noteq> AssertionFailed \<and>
   fst (AsyncPropertyGetter_uponReplyInvoke properties_proxy \<lparr>uncaught_exceptions = 0, calls = []\<rparr>
     (AsyncPropertyGetter_ctor ''state'')) = AssertionFailed \<and>
   fst (PropertySetter_toValue properties_proxy \<lparr>uncaught_exceptions = 0, calls = []\<rparr>
     (Some ''on'') (PropertySetter_ctor ''state'')) = AssertionFailed \<and>
   fst (AsyncPropertySetter_getResultAsFuture properties_proxy \<lparr>uncaught_exceptions = 0, calls = []\<rparr>
     (snd (AsyncPropertySetter_toValue (Some ''on'') (AsyncPropertySetter_ctor ''state'')))) =
     AssertionFailed \<and>
   fst (AsyncAllPropertiesGetter_uponReplyInvoke properties_proxy \<lparr>uncaught_exceptions = 0, calls = []\<rparr>
     AsyncAllPropertiesGetter_ctor) = AssertionFailed \<and>
   creates_valid_calls properties_proxy \<and>
   fst (PropertyGetter_onInterface properties_proxy (\<lambda>reply. Inr (msg_payload reply))
     \<lparr>uncaught_exceptions = 0, calls = []\<rparr> ''org.sdbuscpp.perftests''
     (PropertyGetter_ctor ''state'')) \<noteq> AssertionFailed \<and>
   fst (AllPropertiesGetter_onInterface properties_proxy (\<lambda>reply. Inr (msg_payload reply))
     \<lparr>uncaught_exceptions = 0, calls = []\<rparr> ''org.sdbuscpp.perftests'') \<noteq>
     AssertionFailed \<and>
   fst (AsyncPropertyGetter_uponReplyInvoke properties_proxy \<lparr>uncaught_exceptions = 0, calls = []\<rparr>
     (snd (AsyncPropertyGetter_onInterface ''org.sdbuscpp.perftests''
       (AsyncPropertyGetter_ctor ''state'')))) \<noteq> AssertionFailed \<and>
   fst (AsyncPropertyGetter_getResultAsFuture properties_proxy \<lparr>uncaught_exceptions = 0, calls = []\<rparr>
     (snd (AsyncPropertyGetter_onInterface ''org.sdbuscpp.perftests''
       (AsyncPropertyGetter_ctor ''state'')))) \<noteq> AssertionFailed \<and>
   fst (PropertySetter_toValue properties_proxy \<lparr>uncaught_exceptions = 0, calls = []\<rparr> (Some ''on'')
     (snd (PropertySetter_onInterface ''org.sdbuscpp.perftests''
       (PropertySetter_ctor ''state'')))) \<noteq> AssertionFailed \<and>
   fst (PropertySetter_toValue_dont_expect_reply properties_proxy
     \<lparr>uncaught_exceptions = 0, calls = []\<rparr> (Some ''on'')
     (snd (PropertySetter_onInterface ''org.sdbuscpp.perftests''
       (PropertySetter_ctor ''state'')))) \<noteq> AssertionFailed \<and>
   fst (AsyncPropertySetter_uponReplyInvoke properties_proxy \<lparr>uncaught_exceptions = 0, calls = []\<rparr>
     (snd (AsyncPropertySetter_toValue (Some ''on'')
       (snd (AsyncPropertySetter_onInterface ''org.sdbuscpp.perftests''
         (AsyncPropertySetter_ctor ''state'')))))) \<noteq> AssertionFailed \<and>
   fst (AsyncPropertySetter_getResultAsFuture properties_proxy \<lparr>uncaught_exceptions = 0, calls = []\<rparr>
     (snd (AsyncPropertySetter_toValue (Some ''on'')
       (snd (AsyncPropertySetter_onInterface ''org.sdbuscpp.perftests''
         (AsyncPropertySetter_ctor ''state'')))))) \<noteq> AssertionFailed \<and>
   fst (AsyncPropertySetter_uponReplyInvoke properties_proxy \<lparr>uncaught_exceptions = 0, calls = []\<rparr>
     (snd (AsyncPropertySetter_onInterface ''org.sdbuscpp.perftests''
       (AsyncPropertySetter_ctor ''state'')))) \<noteq> AssertionFailed \<and>
   fst (AsyncAllPropertiesGetter_uponReplyInvoke properties_proxy \<lparr>uncaught_exceptions = 0, calls = []\<rparr>
     (snd (AsyncAllPropertiesGetter_onInterface ''org.sdbuscpp.perftests''
       AsyncAllPropertiesGetter_ctor))) \<noteq> AssertionFailed \<and>
   fst (AsyncAllPropertiesGetter_getResultAsFuture properties_proxy \<lparr>uncaught_exceptions = 0, calls = []\<rparr>
     (snd (AsyncAllPropertiesGetter_onInterface ''org.sdbuscpp.perftests''
       AsyncAllPropertiesGetter_ctor))) \<noteq> AssertionFailed"
proof -
  let ?w = "\<lparr>uncaught_exceptions = 0, calls = [] :: string call list\<rparr>"
  let ?pw = "\<lparr>uncaught_exceptions = 0, calls = [] :: string property_arg call list\<rparr>"
  let ?se = "SignalEmitter_ctor ?w ''dataSignal''"
  let ?mi = "MethodInvoker_ctor ?w ''Ping''"
  let ?ami = "AsyncMethodInvoker_ctor ''Ping'' :: string AsyncMethodInvoker"
  let ?ss = "SignalSubscriber_ctor ''dataSignal''"
  let ?aps = "AsyncPropertySetter_ctor ''state'' :: string AsyncPropertySetter"
  let ?m = "\<lparr>msg_valid = True, msg_interface = ''org.sdbuscpp.perftests'', msg_member = ''Ping'',
       msg_payload = [] :: string list, msg_no_reply = False\<rparr>"
  let ?s = "\<lparr>msg_valid = True, msg_interface = ''org.sdbuscpp.perftests'',
       msg_member = ''dataSignal'', msg_payload = [] :: string list, msg_no_reply = False\<rparr>"
  let ?steps = "[MI_withTimeout 5000, MI_withArguments [''a''], MI_dontExpectReply]"
  let ?asteps = "[AMI_withTimeout 5000, AMI_withArguments [''a'']]"
  note c8 = builder_assertions [where se = ?se and args = "[''data'']" and mi = ?mi
      and proxy = echo_proxy and w = ?w and ami = ?ami and ss = ?ss and name = "''Ping''"
      and usec = 0 and object = perftests_object
      and interfaceName = "''org.sdbuscpp.perftests''" and signal = ?s and msg = ?m
      and deserialize_pack = "\<lambda>reply. Inr (msg_payload reply) :: error + string list"
      and usecs = "[5000]" and esteps = "[SE_withArguments [''data'']]" and steps = ?steps
      and asteps = ?asteps and store = True and pproxy = properties_proxy and pw = ?pw
      and val = "Some ''on''" and propertyName = "''state''"
      and apg = "AsyncPropertyGetter_ctor ''state''" and ps = "PropertySetter_ctor ''state''"
      and aps = "?aps" and aapg = AsyncAllPropertiesGetter_ctor
      and pg = "PropertyGetter_ctor ''state''"
      and pdeserialize_pack =
        "\<lambda>reply. Inr (msg_payload reply) :: error + string property_arg list"]
  note c8' = builder_assertions [where se = ?se and args = "[''a'']" and mi = ?mi
      and proxy = echo_proxy and w = ?w and ami = ?ami and ss = ?ss and name = "''Ping''"
      and usec = 0 and object = perftests_object
      and interfaceName = "''org.sdbuscpp.perftests''" and signal = ?s and msg = ?m
      and deserialize_pack = "\<lambda>reply. Inr (msg_payload reply) :: error + string list"
      and usecs = "[5000]" and esteps = "[SE_withArguments [''data'']]" and steps = ?steps
      and asteps = ?asteps and store = True and pproxy = properties_proxy and pw = ?pw
      and val = "Some ''on''" and propertyName = "''state''"
      and apg = "AsyncPropertyGetter_ctor ''state''" and ps = "PropertySetter_ctor ''state''"
      and aps = "?aps" and aapg = AsyncAllPropertiesGetter_ctor
      and pg = "PropertyGetter_ctor ''state''"
      and pdeserialize_pack =
        "\<lambda>reply. Inr (msg_payload reply) :: error + string property_arg list"]
  note c8'' = builder_assertions [where se = ?se and args = "[''a'']" and mi = ?mi
      and proxy = echo_proxy and w = ?w and ami = ?ami and ss = ?ss and name = "''Ping''"
      and usec = 0 and object = perftests_object
      and interfaceName = "''org.sdbuscpp.perftests''" and signal = ?s and msg = ?m
      and deserialize_pack = "\<lambda>reply. Inr (msg_payload reply) :: error + string list"
      and usecs = "[5000]" and esteps = "[SE_withArguments [''data'']]" and steps = ?steps
      and asteps = ?asteps and store = True and pproxy = properties_proxy and pw = ?pw
      and val = "Some ''on''" and propertyName = "''state''"
      and apg = "AsyncPropertyGetter_ctor ''state''" and ps = "PropertySetter_ctor ''state''"
      and aps = "snd (AsyncPropertySetter_toValue (Some ''on'') ?aps)" and aapg = AsyncAllPropertiesGetter_ctor
      and pg = "PropertyGetter_ctor ''state''"
      and pdeserialize_pack =
        "\<lambda>reply. Inr (msg_payload reply) :: error + string property_arg list"]
  note emitter = c8 [THEN conjunct1]
  note invoker = c8' [THEN conjunct2, THEN conjunct1]
  note async = c8 [THEN conjunct2, THEN conjunct2, THEN conjunct1]
  note subscriber = c8 [THEN conjunct2, THEN conjunct2, THEN conjunct2, THEN conjunct1]
  note fresh_invoker = c8 [THEN conjunct2, THEN conjunct2, THEN conjunct2, THEN conjunct2, THEN conjunct2,
      THEN conjunct1]
  note fresh_async = c8 [THEN conjunct2, THEN conjunct2, THEN conjunct2, THEN conjunct2, THEN conjunct2,
      THEN conjunct2, THEN conjunct1]
  note emitter_ok = c8 [THEN conjunct2, THEN conjunct2, THEN conjunct2, THEN conjunct2, THEN conjunct2,
      THEN conjunct2, THEN conjunct2, THEN conjunct2, THEN conjunct2, THEN conjunct2,
      THEN conjunct1]
  note invoker_ok = c8' [THEN conjunct2, THEN conjunct2, THEN conjunct2, THEN conjunct2, THEN conjunct2,
      THEN conjunct2, THEN conjunct2, THEN conjunct2, THEN conjunct2, THEN conjunct2,
      THEN conjunct2, THEN conjunct1]
  note async_ok = c8 [THEN conjunct2, THEN conjunct2, THEN conjunct2, THEN conjunct2, THEN conjunct2,
      THEN conjunct2, THEN conjunct2, THEN conjunct2, THEN conjunct2, THEN conjunct2,
      THEN conjunct2, THEN conjunct2, THEN conjunct1]
  note subscriber_ok = c8 [THEN conjunct2, THEN conjunct2, THEN conjunct2, THEN conjunct2, THEN conjunct2,
      THEN conjunct2, THEN conjunct2, THEN conjunct2, THEN conjunct2, THEN conjunct2,
      THEN conjunct2, THEN conjunct2, THEN conjunct2, THEN conjunct1]
  note before_args = c8' [THEN conjunct2, THEN conjunct2, THEN conjunct2, THEN conjunct2, THEN conjunct2,
      THEN conjunct2, THEN conjunct2, THEN conjunct2, THEN conjunct2, THEN conjunct2,
      THEN conjunct2, THEN conjunct2, THEN conjunct2, THEN conjunct2, THEN conjunct1]
  note async_upon_before = c8 [THEN conjunct2, THEN conjunct2, THEN conjunct2, THEN conjunct2, THEN conjunct2,
      THEN conjunct2, THEN conjunct2, THEN conjunct2, THEN conjunct2, THEN conjunct2,
      THEN conjunct2, THEN conjunct2, THEN conjunct2, THEN conjunct2, THEN conjunct2,
      THEN conjunct2, THEN conjunct2, THEN conjunct2, THEN conjunct1]
  note emitter_chain = c8 [THEN conjunct2, THEN conjunct2, THEN conjunct2, THEN conjunct2, THEN conjunct2,
      THEN conjunct2, THEN conjunct2, THEN conjunct2, THEN conjunct2, THEN conjunct2,
      THEN conjunct2, THEN conjunct2, THEN conjunct2, THEN conjunct2, THEN conjunct2,
      THEN conjunct2, THEN conjunct2, THEN conjunct2, THEN conjunct2, THEN conjunct2,
      THEN conjunct1]
  note invoker_chain = c8 [THEN conjunct2, THEN conjunct2, THEN conjunct2, THEN conjunct2, THEN conjunct2,
      THEN conjunct2, THEN conjunct2, THEN conjunct2, THEN conjunct2, THEN conjunct2,
      THEN conjunct2, THEN conjunct2, THEN conjunct2, THEN conjunct2, THEN conjunct2,
      THEN conjunct2, THEN conjunct2, THEN conjunct2, THEN conjunct2, THEN conjunct2,
      THEN conjunct2, THEN conjunct1]
  note unset_apg = c8 [THEN conjunct2, THEN conjunct2, THEN conjunct2, THEN conjunct2, THEN conjunct2,
      THEN conjunct2, THEN conjunct2, THEN conjunct2, THEN conjunct2, THEN conjunct2,
      THEN conjunct2, THEN conjunct2, THEN conjunct2, THEN conjunct2, THEN conjunct2,
      THEN conjunct2, THEN conjunct2, THEN conjunct2, THEN conjunct2, THEN conjunct2,
      THEN conjunct2, THEN conjunct2, THEN conjunct1]
  note unset_ps = c8 [THEN conjunct2, THEN conjunct2, THEN conjunct2, THEN conjunct2, THEN conjunct2,
      THEN conjunct2, THEN conjunct2, THEN conjunct2, THEN conjunct2, THEN conjunct2,
      THEN conjunct2, THEN conjunct2, THEN conjunct2, THEN conjunct2, THEN conjunct2,
      THEN conjunct2, THEN conjunct2, THEN conjunct2, THEN conjunct2, THEN conjunct2,
      THEN conjunct2, THEN conjunct2, THEN conjunct2, THEN conjunct1]
  note unset_aps = c8'' [THEN conjunct2, THEN conjunct2, THEN conjunct2, THEN conjunct2, THEN conjunct2,
      THEN conjunct2, THEN conjunct2, THEN conjunct2, THEN conjunct2, THEN conjunct2,
      THEN conjunct2, THEN conjunct2, THEN conjunct2, THEN conjunct2, THEN conjunct2,
      THEN conjunct2, THEN conjunct2, THEN conjunct2, THEN conjunct2, THEN conjunct2,
      THEN conjunct2, THEN conjunct2, THEN conjunct2, THEN conjunct2, THEN conjunct1]
  note unset_aapg = c8 [THEN conjunct2, THEN conjunct2, THEN conjunct2, THEN conjunct2, THEN conjunct2,
      THEN conjunct2, THEN conjunct2, THEN conjunct2, THEN conjunct2, THEN conjunct2,
      THEN conjunct2, THEN conjunct2, THEN conjunct2, THEN conjunct2, THEN conjunct2,
      THEN conjunct2, THEN conjunct2, THEN conjunct2, THEN conjunct2, THEN conjunct2,
      THEN conjunct2, THEN conjunct2, THEN conjunct2, THEN conjunct2, THEN conjunct2,
      THEN conjunct1]
  note fresh_apg = c8 [THEN conjunct2, THEN conjunct2, THEN conjunct2, THEN conjunct2, THEN conjunct2,
      THEN conjunct2, THEN conjunct2, THEN conjunct2, THEN conjunct2, THEN conjunct2,
      THEN conjunct2, THEN conjunct2, THEN conjunct2, THEN conjunct2, THEN conjunct2,
      THEN conjunct2, THEN conjunct2, THEN conjunct2, THEN conjunct2, THEN conjunct2,
      THEN conjunct2, THEN conjunct2, THEN conjunct2, THEN conjunct2, THEN conjunct2,
      THEN conjunct2, THEN conjunct1]
  note fresh_ps = c8 [THEN conjunct2, THEN conjunct2, THEN conjunct2, THEN conjunct2, THEN conjunct2,
      THEN conjunct2, THEN conjunct2, THEN conjunct2, THEN conjunct2, THEN conjunct2,
      THEN conjunct2, THEN conjunct2, THEN conjunct2, THEN conjunct2, THEN conjunct2,
      THEN conjunct2, THEN conjunct2, THEN conjunct2, THEN conjunct2, THEN conjunct2,
      THEN conjunct2, THEN conjunct2, THEN conjunct2, THEN conjunct2, THEN conjunct2,
      THEN conjunct2, THEN conjunct2, THEN conjunct1]
  note fresh_aps = c8 [THEN conjunct2, THEN conjunct2, THEN conjunct2, THEN conjunct2, THEN conjunct2,
      THEN conjunct2, THEN conjunct2, THEN conjunct2, THEN conjunct2, THEN conjunct2,
      THEN conjunct2, THEN conjunct2, THEN conjunct2, THEN conjunct2, THEN conjunct2,
      THEN conjunct2, THEN conjunct2, THEN conjunct2, THEN conjunct2, THEN conjunct2,
      THEN conjunct2, THEN conjunct2, THEN conjunct2, THEN conjunct2, THEN conjunct2,
      THEN conjunct2, THEN conjunct2, THEN conjunct2, THEN conjunct1]
  note fresh_aapg = c8 [THEN conjunct2, THEN conjunct2, THEN conjunct2, THEN conjunct2, THEN conjunct2,
      THEN conjunct2, THEN conjunct2, THEN conjunct2, THEN conjunct2, THEN conjunct2,
      THEN conjunct2, THEN conjunct2, THEN conjunct2, THEN conjunct2, THEN conjunct2,
      THEN conjunct2, THEN conjunct2, THEN conjunct2, THEN conjunct2, THEN conjunct2,
      THEN conjunct2, THEN conjunct2, THEN conjunct2, THEN conjunct2, THEN conjunct2,
      THEN conjunct2, THEN conjunct2, THEN conjunct2, THEN conjunct2, THEN conjunct1]
  note toValue_keeps = c8 [THEN conjunct2, THEN conjunct2, THEN conjunct2, THEN conjunct2, THEN conjunct2,
      THEN conjunct2, THEN conjunct2, THEN conjunct2, THEN conjunct2, THEN conjunct2,
      THEN conjunct2, THEN conjunct2, THEN conjunct2, THEN conjunct2, THEN conjunct2,
      THEN conjunct2, THEN conjunct2, THEN conjunct2, THEN conjunct2, THEN conjunct2,
      THEN conjunct2, THEN conjunct2, THEN conjunct2, THEN conjunct2, THEN conjunct2,
      THEN conjunct2, THEN conjunct2, THEN conjunct2, THEN conjunct2, THEN conjunct2,
      THEN conjunct2, THEN conjunct1]
  note property_ok = c8 [THEN conjunct2, THEN conjunct2, THEN conjunct2, THEN conjunct2, THEN conjunct2,
      THEN conjunct2, THEN conjunct2, THEN conjunct2, THEN conjunct2, THEN conjunct2,
      THEN conjunct2, THEN conjunct2, THEN conjunct2, THEN conjunct2, THEN conjunct2,
      THEN conjunct2, THEN conjunct2, THEN conjunct2, THEN conjunct2, THEN conjunct2,
      THEN conjunct2, THEN conjunct2, THEN conjunct2, THEN conjunct2, THEN conjunct2,
      THEN conjunct2, THEN conjunct2, THEN conjunct2, THEN conjunct2, THEN conjunct2,
      THEN conjunct2, THEN conjunct2, THEN conjunct1]
  have fresh_emitter: "\<not> isValid (se_signal ?se)"
    by (simp add: SignalEmitter_ctor_def isValid_simps)
  have fresh_subscriber: "ss_interfaceName ?ss = []"
    by (simp add: SignalSubscriber_ctor_def)
  have signal: "createSignal perftests_object ''org.sdbuscpp.perftests'' ''dataSignal'' = Inr ?s"
    by (simp add: perftests_object_def)
  have signal': "createSignal perftests_object ''org.sdbuscpp.perftests'' (se_signalName ?se) = Inr ?s"
    by (simp add: perftests_object_def SignalEmitter_ctor_def)
  have created: "createMethodCall echo_proxy ''org.sdbuscpp.perftests'' ''Ping'' = Inr ?m"
    by (simp add: echo_proxy_def)
  have created': "createMethodCall echo_proxy ''org.sdbuscpp.perftests'' (mi_methodName ?mi) = Inr ?m"
    by (simp add: echo_proxy_def MethodInvoker_ctor_def)
  have created'': "createMethodCall echo_proxy ''org.sdbuscpp.perftests'' (ami_methodName ?ami) = Inr ?m"
    by (simp add: echo_proxy_def AsyncMethodInvoker_ctor_def)
  have valid: "isValid ?m" "isValid ?s"
    by (simp_all add: isValid_def)
  have nonempty: "''org.sdbuscpp.perftests'' \<noteq> []"
    by simp
  have valid_object: "creates_valid_signals perftests_object"
    by (auto simp: creates_valid_signals_def perftests_object_def isValid_def)
  have valid_proxy: "creates_valid_calls echo_proxy"
    by (auto simp: creates_valid_calls_def echo_proxy_def isValid_def)
  have valid_pproxy: "creates_valid_calls properties_proxy"
    by (auto simp: creates_valid_calls_def properties_proxy_def isValid_def)
  have chain: "fst (MethodInvoker_chain echo_proxy
      (MI_onInterface ''org.sdbuscpp.perftests'' # ?steps) ?mi) = Returned ()"
    by (simp add: MethodInvoker_ctor_def MethodInvoker_onInterface_def
          MethodInvoker_withTimeout_def MethodInvoker_withArguments_def
          MethodInvoker_dontExpectReply_def echo_proxy_def isValid_def serialize_pack_def
          dontExpectReply_def)
  have achain: "fst (AsyncMethodInvoker_chain echo_proxy
      (AMI_onInterface ''org.sdbuscpp.perftests'' # ?asteps) ?ami) = Returned ()"
    by (simp add: AsyncMethodInvoker_ctor_def AsyncMethodInvoker_onInterface_def
          AsyncMethodInvoker_withTimeout_def AsyncMethodInvoker_withArguments_def
          echo_proxy_def isValid_def serialize_pack_def)
  have still_unset: "aps_interfaceName (snd (AsyncPropertySetter_toValue (Some ''on'') ?aps)) = None"
    using toValue_keeps fresh_aps by (rule trans)
  note 1 = emitter [THEN mp, OF fresh_emitter]
  note 2 = invoker [THEN mp, OF fresh_invoker, THEN conjunct1]
  note 3 = async [THEN mp, OF fresh_async, THEN conjunct2, THEN conjunct1]
  note 4 = subscriber [THEN mp, OF fresh_subscriber]
  note 5 = emitter_ok [THEN mp, OF conjI [OF signal' valid(2)], THEN conjunct2]
  note 6 = invoker_ok [THEN mp, OF conjI [OF created' valid(1)], THEN conjunct2, THEN conjunct1]
  note 7 = async_ok [THEN mp, OF conjI [OF created'' valid(1)], THEN conjunct2, THEN conjunct2,
      THEN conjunct1]
  note 8 = subscriber_ok [THEN mp, OF nonempty]
  have 9: "fst (MethodInvoker_chain echo_proxy [MI_withTimeout 5000, MI_withArguments [''a'']]
      ?mi) = AssertionFailed"
    using before_args by (simp only: list.map append.simps)
  have 10: "fst (AsyncMethodInvoker_temporary echo_proxy ?w ''Ping'' [AMI_withTimeout 5000]
      AsyncMethodInvoker_uponReplyInvoke) = AssertionFailed"
    using async_upon_before by (simp only: list.map)
  note 11 = emitter_chain [THEN mp, OF valid_object]
  note ic = invoker_chain [THEN mp, OF valid_proxy]
  note 12 = ic [THEN conjunct2, THEN conjunct1, THEN mp, OF chain, THEN conjunct2]
  note 13 = ic [THEN conjunct2, THEN conjunct2, THEN conjunct1]
  note 14 = ic [THEN conjunct2, THEN conjunct2, THEN conjunct2, THEN conjunct2, THEN mp,
      OF achain, THEN conjunct2, THEN conjunct2]
  note 15 = unset_apg [THEN mp, OF fresh_apg, THEN conjunct1]
  note 16 = unset_ps [THEN mp, OF fresh_ps, THEN conjunct1]
  note 17 = unset_aps [THEN mp, OF still_unset, THEN conjunct2]
  note 18 = unset_aapg [THEN mp, OF fresh_aapg, THEN conjunct1]
  note p = property_ok [THEN mp, OF valid_pproxy]
  note p1 = p [THEN conjunct1]
  note p2 = p [THEN conjunct2, THEN conjunct1]
  note p3 = p [THEN conjunct2, THEN conjunct2, THEN conjunct1]
  note p4 = p [THEN conjunct2, THEN conjunct2, THEN conjunct2, THEN conjunct1]
  note p5 = p [THEN conjunct2, THEN conjunct2, THEN conjunct2, THEN conjunct2, THEN conjunct1]
  note p6 = p [THEN conjunct2, THEN conjunct2, THEN conjunct2, THEN conjunct2, THEN conjunct2,
      THEN conjunct1]
  note p7 = p [THEN conjunct2, THEN conjunct2, THEN conjunct2, THEN conjunct2, THEN conjunct2,
      THEN conjunct2, THEN conjunct1]
  note p8 = p [THEN conjunct2, THEN conjunct2, THEN conjunct2, THEN conjunct2, THEN conjunct2,
      THEN conjunct2, THEN conjunct2, THEN conjunct1]
  note p9 = p [THEN conjunct2, THEN conjunct2, THEN conjunct2, THEN conjunct2, THEN conjunct2,
      THEN conjunct2, THEN conjunct2, THEN conjunct2, THEN conjunct1]
  note p10 = p [THEN conjunct2, THEN conjunct2, THEN conjunct2, THEN conjunct2, THEN conjunct2,
      THEN conjunct2, THEN conjunct2, THEN conjunct2, THEN conjunct2, THEN conjunct1]
  note p11 = p [THEN conjunct2, THEN conjunct2, THEN conjunct2, THEN conjunct2, THEN conjunct2,
      THEN conjunct2, THEN conjunct2, THEN conjunct2, THEN conjunct2, THEN conjunct2]
  show ?thesis
    by (intro conjI)
       (rule 1, rule 2, rule 3, rule 4, rule signal, rule 5, rule created, rule 6, rule 7, rule
       8, rule 9, rule 10, rule valid_object, rule 11, rule valid_proxy, rule chain, rule 12,
       rule 13, rule achain, rule 14, rule 15, rule 16, rule 17, rule 18, rule valid_pproxy,
       rule p1, rule p2, rule p3, rule p4, rule p5, rule p6, rule p7, rule p8, rule p9, rule
       p10, rule p11)
qed

subsection \<open>Reply and signal handlers\<close>

lemma apply_with_error_simps:
  "fst (apply_with_error callback e a st) = fst (callback e a (client st))"
  "invocations (snd (apply_with_error callback e a st)) = invocations st @ [(e, a)]"
  "client (snd (apply_with_error callback e a st)) = snd (callback e a (client st))"
  by (simp_all add: apply_with_error_def split: prod.splits)

lemma apply_pure_simps:
  "fst (apply_pure callback a st) = fst (callback a (client st))"
  "invocations (snd (apply_pure callback a st)) = invocations st @ [(None, a)]"
  "client (snd (apply_pure callback a st)) = snd (callback a (client st))"
  by (simp_all add: apply_pure_def split: prod.splits)

text \<open>
  Claim C4, as amended. Every run of the reply handler invokes the callback exactly once:
  with the remote error and the default-initialised tuple when the reply carries an error,
  with no error and the tuple read when reading succeeds, and with the error of the read
  and the tuple as the failed read left it when reading fails. What leaves the handler is
  what the callback throws: with a callback that does not throw, nothing does.
\<close>

theorem reply_handler_invokes_callback_once:
  "length (invocations (snd (asyncReplyHandler callback deserialize args reply error st))) =
     Suc (length (invocations st)) \<and>
   (error = Some remote \<longrightarrow>
      invocations (snd (asyncReplyHandler callback deserialize args reply error st)) =
        invocations st @ [(Some remote, args)] \<and>
      fst (asyncReplyHandler callback deserialize args reply error st) =
        fst (callback (Some remote) args (client st))) \<and>
   (error = None \<and> deserialize reply args = Inr vals \<longrightarrow>
      invocations (snd (asyncReplyHandler callback deserialize args reply error st)) =
        invocations st @ [(None, vals)] \<and>
      fst (asyncReplyHandler callback deserialize args reply error st) =
        fst (callback None vals (client st))) \<and>
   (error = None \<and> deserialize reply args = Inl (e, left) \<longrightarrow>
      invocations (snd (asyncReplyHandler callback deserialize args reply error st)) =
        invocations st @ [(Some e, left)] \<and>
      fst (asyncReplyHandler callback deserialize args reply error st) =
        fst (callback (Some e) left (client st))) \<and>
   ((\<forall>e a s. fst (callback e a s) = None) \<longrightarrow>
      fst (asyncReplyHandler callback deserialize args reply error st) = None)"
  by (cases error; cases "deserialize reply args")
     (auto simp: asyncReplyHandler_def apply_with_error_simps)

text \<open>
  The theorem of claim C4 at a reply of two strings, a reply one string short, and a
  remote error, the reply read element by element.
\<close>

theorem reply_handler_witness:
  "read_in_order
     \<lparr>msg_valid = True, msg_interface = [], msg_member = [], msg_payload = [''x'', ''y''],
      msg_no_reply = False\<rparr> [[], []] = Inr [''x'', ''y''] \<and>
   invocations (snd (asyncReplyHandler (\<lambda>e a s. (None, s)) read_in_order [[], []]
     \<lparr>msg_valid = True, msg_interface = [], msg_member = [], msg_payload = [''x'', ''y''],
      msg_no_reply = False\<rparr> None \<lparr>invocations = [], client = ()\<rparr>)) =
     [(None, [''x'', ''y''])] \<and>
   read_in_order
     \<lparr>msg_valid = True, msg_interface = [], msg_member = [], msg_payload = [''x''],
      msg_no_reply = False\<rparr> [[], []] =
     Inl (Error ''org.freedesktop.DBus.Error.InvalidArgs'' ''Failed to deserialize'',
          [''x'', []]) \<and>
   asyncReplyHandler (\<lambda>e a s. (None, s)) read_in_order [[], []]
     \<lparr>msg_valid = True, msg_interface = [], msg_member = [], msg_payload = [''x''],
      msg_no_reply = False\<rparr> None \<lparr>invocations = [], client = ()\<rparr> =
     (None,
      \<lparr>invocations =
         [(Some (Error ''org.freedesktop.DBus.Error.InvalidArgs'' ''Failed to deserialize''),
           [''x'', []])],
       client = ()\<rparr>) \<and>
   invocations (snd (asyncReplyHandler (\<lambda>e a s. (None, s)) read_in_order [[], []]
     \<lparr>msg_valid = False, msg_interface = [], msg_member = [],
      msg_payload = [] :: string list, msg_no_reply = False\<rparr>
     (Some (Error ''org.freedesktop.DBus.Error.UnknownMethod'' ''no such method''))
     \<lparr>invocations = [], client = ()\<rparr>)) =
     [(Some (Error ''org.freedesktop.DBus.Error.UnknownMethod'' ''no such method''), [[], []])]"
proof -
  let ?cb = "\<lambda>(e :: error option) (a :: string list) (s :: unit). (None :: error option, s)"
  let ?st = "\<lparr>invocations = [], client = ()\<rparr> :: (string list, unit) handler_state"
  let ?ok = "\<lparr>msg_valid = True, msg_interface = [], msg_member = [],
      msg_payload = [''x'', ''y''], msg_no_reply = False\<rparr>"
  let ?short = "\<lparr>msg_valid = True, msg_interface = [], msg_member = [],
      msg_payload = [''x''], msg_no_reply = False\<rparr>"
  let ?none = "\<lparr>msg_valid = False, msg_interface = [], msg_member = [],
      msg_payload = [] :: string list, msg_no_reply = False\<rparr>"
  let ?de = "Error ''org.freedesktop.DBus.Error.InvalidArgs'' ''Failed to deserialize''"
  let ?re = "Error ''org.freedesktop.DBus.Error.UnknownMethod'' ''no such method''"
  have ok: "read_in_order ?ok [[], []] = Inr [''x'', ''y'']"
    by (simp add: read_in_order_def)
  have short: "read_in_order ?short [[], []] = Inl (?de, [''x'', []])"
    by (simp add: read_in_order_def)
  from reply_handler_invokes_callback_once [of ?cb read_in_order "[[], []]" ?ok None ?st _ "[''x'', ''y'']"] ok
  have 1: "invocations (snd (asyncReplyHandler ?cb read_in_order [[], []] ?ok None ?st)) =
      [(None, [''x'', ''y''])]"
    by simp
  from reply_handler_invokes_callback_once [of ?cb read_in_order "[[], []]" ?short None ?st _ _ ?de "[''x'', []]"] short
  have "invocations (snd (asyncReplyHandler ?cb read_in_order [[], []] ?short None ?st)) =
      [(Some ?de, [''x'', []])]"
    and "fst (asyncReplyHandler ?cb read_in_order [[], []] ?short None ?st) = None"
    by simp_all
  then have 2: "asyncReplyHandler ?cb read_in_order [[], []] ?short None ?st =
      (None, \<lparr>invocations = [(Some ?de, [''x'', []])], client = ()\<rparr>)"
    by (cases "asyncReplyHandler ?cb read_in_order [[], []] ?short None ?st") auto
  from reply_handler_invokes_callback_once [of ?cb read_in_order "[[], []]" ?none "Some ?re" ?st ?re]
  have 3: "invocations (snd (asyncReplyHandler ?cb read_in_order [[], []] ?none (Some ?re) ?st)) =
      [(Some ?re, [[], []])]"
    by simp
  show ?thesis
    by (intro conjI) (rule ok, rule 1, rule short, rule 2, rule 3)
qed

text \<open>
  Claim C4 as stated does not hold where it says that a failed read leaves the callback
  the default-initialised tuple. The handler passes the tuple it gave to the read, and a
  read that fails at the second of two strings has stored the first: the callback gets
  the tuple of that string and an empty one, not the tuple of two empty strings.
\<close>

theorem reply_handler_partly_read_tuple:
  "invocations (snd (asyncReplyHandler (\<lambda>e a s. (None, s)) read_in_order [[], []]
     \<lparr>msg_valid = True, msg_interface = [], msg_member = [], msg_payload = [''x''],
      msg_no_reply = False\<rparr> None \<lparr>invocations = [], client = ()\<rparr>)) =
     [(Some (Error ''org.freedesktop.DBus.Error.InvalidArgs'' ''Failed to deserialize''),
       [''x'', []])] \<and>
   [''x'', []] \<noteq> [[], [] :: string]"
  by (simp add: asyncReplyHandler_def apply_with_error_def read_in_order_def)

text \<open>
  Claim C1, as amended. When reading the signal fails, the handler of a callback without
  error parameter does not invoke the callback and changes nothing, and it does not catch
  the error either: the error leaves the handler for its caller. When reading succeeds the
  callback is invoked once with the values read. The handler of a callback with error
  parameter catches the error and passes it to the callback.
\<close>

theorem pure_signal_handler_does_not_catch:
  "(deserialize signal signalArgs = Inl (e, left) \<longrightarrow>
      signalHandler (PureCallback callback) deserialize signalArgs signal st = (Some e, st)) \<and>
   (deserialize signal signalArgs = Inr vals \<longrightarrow>
      invocations (snd (signalHandler (PureCallback callback) deserialize signalArgs signal st)) =
        invocations st @ [(None, vals)] \<and>
      fst (signalHandler (PureCallback callback) deserialize signalArgs signal st) =
        fst (callback vals (client st))) \<and>
   (deserialize signal signalArgs = Inl (e, left) \<longrightarrow>
      invocations (snd (signalHandler (ErrorCallback error_callback) deserialize signalArgs
        signal st)) = invocations st @ [(Some e, left)] \<and>
      fst (signalHandler (ErrorCallback error_callback) deserialize signalArgs signal st) =
        fst (error_callback (Some e) left (client st)))"
  by (simp add: apply_pure_simps apply_with_error_simps)

text \<open>The theorem of claim C1 at a signal without its argument and at a well-formed one.\<close>

theorem pure_signal_handler_witness:
  "read_exactly
     \<lparr>msg_valid = True, msg_interface = ''org.sdbuscpp.perftests'', msg_member = ''dataSignal'',
      msg_payload = [] :: string list, msg_no_reply = False\<rparr> [[]] =
     Inl (Error ''org.freedesktop.DBus.Error.InvalidArgs'' ''Failed to deserialize'', [[]]) \<and>
   signalHandler (PureCallback (\<lambda>a s. (None, a # s))) read_exactly [[]]
     \<lparr>msg_valid = True, msg_interface = ''org.sdbuscpp.perftests'', msg_member = ''dataSignal'',
      msg_payload = [] :: string list, msg_no_reply = False\<rparr>
     \<lparr>invocations = [], client = []\<rparr> =
     (Some (Error ''org.freedesktop.DBus.Error.InvalidArgs'' ''Failed to deserialize''),
      \<lparr>invocations = [], client = []\<rparr>) \<and>
   read_exactly
     \<lparr>msg_valid = True, msg_interface = ''org.sdbuscpp.perftests'', msg_member = ''dataSignal'',
      msg_payload = [''data''], msg_no_reply = False\<rparr> [[]] = Inr [''data''] \<and>
   invocations (snd (signalHandler (PureCallback (\<lambda>a s. (None, a # s))) read_exactly [[]]
     \<lparr>msg_valid = True, msg_interface = ''org.sdbuscpp.perftests'', msg_member = ''dataSignal'',
      msg_payload = [''data''], msg_no_reply = False\<rparr> \<lparr>invocations = [], client = []\<rparr>)) =
     [(None, [''data''])]"
proof -
  let ?cb = "\<lambda>(a :: string list) (s :: string list list). (None :: error option, a # s)"
  let ?st = "\<lparr>invocations = [], client = []\<rparr> :: (string list, string list list) handler_state"
  let ?bad = "\<lparr>msg_valid = True, msg_interface = ''org.sdbuscpp.perftests'',
      msg_member = ''dataSignal'', msg_payload = [] :: string list, msg_no_reply = False\<rparr>"
  let ?good = "\<lparr>msg_valid = True, msg_interface = ''org.sdbuscpp.perftests'',
      msg_member = ''dataSignal'', msg_payload = [''data''], msg_no_reply = False\<rparr>"
  let ?de = "Error ''org.freedesktop.DBus.Error.InvalidArgs'' ''Failed to deserialize''"
  have bad: "read_exactly ?bad [[]] = Inl (?de, [[]])"
    by (simp add: read_exactly_def)
  have good: "read_exactly ?good [[]] = Inr [''data'']"
    by (simp add: read_exactly_def)
  from pure_signal_handler_does_not_catch [of read_exactly ?bad "[[]]" ?de "[[]]" ?cb ?st] bad
  have 1: "signalHandler (PureCallback ?cb) read_exactly [[]] ?bad ?st = (Some ?de, ?st)"
    by blast
  from pure_signal_handler_does_not_catch [of read_exactly ?good "[[]]" _ _ ?cb ?st "[''data'']"] good
  have 2: "invocations (snd (signalHandler (PureCallback ?cb) read_exactly [[]] ?good ?st)) =
      [(None, [''data''])]"
    by simp
  show ?thesis
    by (intro conjI) (rule bad, rule 1, rule good, rule 2)
qed

text \<open>
  Claim C1 as stated fails at a \<^verbatim>\<open>dataSignal\<close> without its argument: the deserialization
  error leaves the handler.
\<close>

theorem pure_signal_handler_error_leaves:
  "fst (signalHandler (PureCallback (\<lambda>a s. (None, a # s))) read_exactly [[]]
     \<lparr>msg_valid = True, msg_interface = ''org.sdbuscpp.perftests'', msg_member = ''dataSignal'',
      msg_payload = [] :: string list, msg_no_reply = False\<rparr>
     \<lparr>invocations = [], client = []\<rparr>) =
   Some (Error ''org.freedesktop.DBus.Error.InvalidArgs'' ''Failed to deserialize'')"
  by (simp add: read_exactly_def)

text \<open>
  Claim C7. \<^verbatim>\<open>future_return_t\<close> is \<^verbatim>\<open>void\<close> for no type, the type itself for one and a
  tuple for several. The handler that \<^verbatim>\<open>getResultAsFuture\<close> registers satisfies the
  promise with nothing, the value or the tuple of the values read when it is given no
  error, and stores the error as the exception of the future when it is given a remote
  error or reading fails; nothing leaves the handler.
\<close>

theorem getResultAsFuture_resolves:
  "future_return [] = Void \<and> future_return [t] = t \<and>
   (2 \<le> length ts \<longrightarrow> future_return ts = StdTuple ts) \<and>
   (error = None \<and> deserialize reply args = Inr vals \<longrightarrow>
      fst (getResultAsFuture_handler deserialize args reply error
        \<lparr>invocations = [], client = NotReady\<rparr>) = None \<and>
      (vals = [] \<longrightarrow>
         client (snd (getResultAsFuture_handler deserialize args reply error
           \<lparr>invocations = [], client = NotReady\<rparr>)) = HasValue FVoid) \<and>
      (vals = [x] \<longrightarrow>
         client (snd (getResultAsFuture_handler deserialize args reply error
           \<lparr>invocations = [], client = NotReady\<rparr>)) = HasValue (FSingle x)) \<and>
      (2 \<le> length vals \<longrightarrow>
         client (snd (getResultAsFuture_handler deserialize args reply error
           \<lparr>invocations = [], client = NotReady\<rparr>)) = HasValue (FTuple vals))) \<and>
   (error = Some remote \<longrightarrow>
      getResultAsFuture_handler deserialize args reply error
        \<lparr>invocations = [], client = NotReady\<rparr> =
      (None, \<lparr>invocations = [(Some remote, args)], client = HasException remote\<rparr>)) \<and>
   (error = None \<and> deserialize reply args = Inl (e, left) \<longrightarrow>
      getResultAsFuture_handler deserialize args reply error
        \<lparr>invocations = [], client = NotReady\<rparr> =
      (None, \<lparr>invocations = [(Some e, left)], client = HasException e\<rparr>))"
proof -
  have tuple: "future_return ts = StdTuple ts" if "2 \<le> length ts"
    using that by (cases ts rule: future_return.cases) simp_all
  have braced: "braced_value vals = FTuple vals" if "2 \<le> length vals"
    using that by (cases vals rule: braced_value.cases) simp_all
  show ?thesis
    by (auto simp: tuple braced getResultAsFuture_handler_def asyncReplyHandler_def
          apply_with_error_def future_callback_def)
qed

text \<open>
  The theorem of claim C7 at an empty reply, a reply of 7, a reply of 3 and 4, a remote
  error, and a reply that does not fit.
\<close>

theorem getResultAsFuture_witness:
  "future_return [] = Void \<and> future_return [Int32] = Int32 \<and>
   future_return [Int32, StdString] = StdTuple [Int32, StdString] \<and>
   read_exactly
     \<lparr>msg_valid = True, msg_interface = [], msg_member = [], msg_payload = [] :: int list,
      msg_no_reply = False\<rparr> [] = Inr [] \<and>
   client (snd (getResultAsFuture_handler read_exactly []
     \<lparr>msg_valid = True, msg_interface = [], msg_member = [], msg_payload = [] :: int list,
      msg_no_reply = False\<rparr> None \<lparr>invocations = [], client = NotReady\<rparr>)) =
     HasValue FVoid \<and>
   read_exactly
     \<lparr>msg_valid = True, msg_interface = [], msg_member = [], msg_payload = [7 :: int],
      msg_no_reply = False\<rparr> [0] = Inr [7] \<and>
   client (snd (getResultAsFuture_handler read_exactly [0]
     \<lparr>msg_valid = True, msg_interface = [], msg_member = [], msg_payload = [7 :: int],
      msg_no_reply = False\<rparr> None \<lparr>invocations = [], client = NotReady\<rparr>)) =
     HasValue (FSingle 7) \<and>
   read_exactly
     \<lparr>msg_valid = True, msg_interface = [], msg_member = [], msg_payload = [3 :: int, 4],
      msg_no_reply = False\<rparr> [0, 0] = Inr [3, 4] \<and>
   client (snd (getResultAsFuture_handler read_exactly [0, 0]
     \<lparr>msg_valid = True, msg_interface = [], msg_member = [], msg_payload = [3 :: int, 4],
      msg_no_reply = False\<rparr> None \<lparr>invocations = [], client = NotReady\<rparr>)) =
     HasValue (FTuple [3, 4]) \<and>
   getResultAsFuture_handler read_exactly [0]
     \<lparr>msg_valid = False, msg_interface = [], msg_member = [], msg_payload = [] :: int list,
      msg_no_reply = False\<rparr>
     (Some (Error ''org.freedesktop.DBus.Error.UnknownMethod'' ''no such method''))
     \<lparr>invocations = [], client = NotReady\<rparr> =
     (None,
      \<lparr>invocations =
         [(Some (Error ''org.freedesktop.DBus.Error.UnknownMethod'' ''no such method''), [0])],
       client = HasException (Error ''org.freedesktop.DBus.Error.UnknownMethod'' ''no such method'')\<rparr>) \<and>
   read_exactly
     \<lparr>msg_valid = True, msg_interface = [], msg_member = [], msg_payload = [3 :: int, 4],
      msg_no_reply = False\<rparr> [0] =
     Inl (Error ''org.freedesktop.DBus.Error.InvalidArgs'' ''Failed to deserialize'', [0]) \<and>
   client (snd (getResultAsFuture_handler read_exactly [0]
     \<lparr>msg_valid = True, msg_interface = [], msg_member = [], msg_payload = [3 :: int, 4],
      msg_no_reply = False\<rparr> None \<lparr>invocations = [], client = NotReady\<rparr>)) =
     HasException (Error ''org.freedesktop.DBus.Error.InvalidArgs'' ''Failed to deserialize'')"
proof -
  let ?st = "\<lparr>invocations = [], client = NotReady\<rparr> :: (int list, int shared_state) handler_state"
  let ?zero = "\<lparr>msg_valid = True, msg_interface = [], msg_member = [],
      msg_payload = [] :: int list, msg_no_reply = False\<rparr>"
  let ?one = "\<lparr>msg_valid = True, msg_interface = [], msg_member = [], msg_payload = [7 :: int],
      msg_no_reply = False\<rparr>"
  let ?two = "\<lparr>msg_valid = True, msg_interface = [], msg_member = [], msg_payload = [3 :: int, 4],
      msg_no_reply = False\<rparr>"
  let ?none = "\<lparr>msg_valid = False, msg_interface = [], msg_member = [],
      msg_payload = [] :: int list, msg_no_reply = False\<rparr>"
  let ?de = "Error ''org.freedesktop.DBus.Error.InvalidArgs'' ''Failed to deserialize''"
  let ?re = "Error ''org.freedesktop.DBus.Error.UnknownMethod'' ''no such method''"
  have zero: "read_exactly ?zero [] = Inr []"
    and one: "read_exactly ?one [0] = Inr [7]"
    and two: "read_exactly ?two [0, 0] = Inr [3, 4]"
    and bad: "read_exactly ?two [0] = Inl (?de, [0])"
    by (simp_all add: read_exactly_def)
  from getResultAsFuture_resolves [of Int32 "[Int32, StdString]" None read_exactly ?zero "[]" "[]"] zero
  have t: "future_return [] = Void" "future_return [Int32] = Int32"
      "future_return [Int32, StdString] = StdTuple [Int32, StdString]"
    and 0: "client (snd (getResultAsFuture_handler read_exactly [] ?zero None ?st)) = HasValue FVoid"
    by simp_all
  from getResultAsFuture_resolves [of _ _ None read_exactly ?one "[0]" "[7]" 7] one
  have 1: "client (snd (getResultAsFuture_handler read_exactly [0] ?one None ?st)) =
      HasValue (FSingle 7)"
    by simp
  from getResultAsFuture_resolves [of _ _ None read_exactly ?two "[0, 0]" "[3, 4]"] two
  have 2: "client (snd (getResultAsFuture_handler read_exactly [0, 0] ?two None ?st)) =
      HasValue (FTuple [3, 4])"
    by simp
  from getResultAsFuture_resolves [of _ _ "Some ?re" read_exactly ?none "[0]" _ _ ?re]
  have 3: "getResultAsFuture_handler read_exactly [0] ?none (Some ?re) ?st =
      (None, \<lparr>invocations = [(Some ?re, [0])], client = HasException ?re\<rparr>)"
    by simp
  from getResultAsFuture_resolves [of _ _ None read_exactly ?two "[0]" _ _ _ ?de "[0]"] bad
  have 4: "client (snd (getResultAsFuture_handler read_exactly [0] ?two None ?st)) =
      HasException ?de"
    by simp
  show ?thesis
    by (intro conjI)
       (rule t(1), rule t(2), rule t(3), rule zero, rule 0, rule one, rule 1, rule two, rule 2,
        rule 3, rule bad, rule 4)
qed


end
